theory Spec2Isabelle
  imports Main "HOL-Library.Word" "HOL-Library.AList"
begin

unbundle bit_operations_syntax

section \<open>Library layer: bytes, hex strings, errors\<close>

text \<open>
  The slot engine (\<^verbatim>\<open>src/lib/slots/engine.ts\<close>) works on hex strings and calls a handful of
  functions of the hex/hash library it imports (\<^verbatim>\<open>isHex\<close>, \<^verbatim>\<open>padHex\<close>, \<^verbatim>\<open>toHex\<close>,
  \<^verbatim>\<open>hexToBigInt\<close>, \<^verbatim>\<open>keccak256\<close>). They are modelled here as the library computes them,
  with every exception the library throws as a value of \<open>error\<close>. A JavaScript string is a
  \<open>string\<close> whose characters are the code points 0..255.
\<close>

type_synonym byte = "8 word"
type_synonym Hex = string

datatype error =
    SizeExceedsPaddingSizeError
  | SizeOverflowError
  | IntegerOutOfRangeError
  | InvalidByteSequence
  | SyntaxError
  | TypeError
  | AbiCodecError

text \<open>\<^verbatim>\<open>s.startsWith(p)\<close>, \<^verbatim>\<open>s.includes(p)\<close> and \<^verbatim>\<open>s.replace(p, r)\<close> with a string pattern
  (only the first occurrence is replaced).\<close>

definition startsWith :: "string \<Rightarrow> string \<Rightarrow> bool" where
  "startsWith s p = (take (length p) s = p)"

fun str_includes :: "string \<Rightarrow> string \<Rightarrow> bool" where
  "str_includes [] p = (p = [])"
| "str_includes (c # cs) p = (startsWith (c # cs) p \<or> str_includes cs p)"

fun str_replace :: "string \<Rightarrow> string \<Rightarrow> string \<Rightarrow> string" where
  "str_replace [] p r = (if p = [] then r else [])"
| "str_replace (c # cs) p r =
     (if startsWith (c # cs) p then r @ drop (length p) (c # cs) else c # str_replace cs p r)"

definition isHexDigit :: "char \<Rightarrow> bool" where
  "isHexDigit c = (let n = (of_char c :: nat) in
     (48 \<le> n \<and> n \<le> 57) \<or> (65 \<le> n \<and> n \<le> 70) \<or> (97 \<le> n \<and> n \<le> 102))"

text \<open>\<^verbatim>\<open>isHex(value)\<close> in its default strict mode: the regular expression
  \<^verbatim>\<open>/^0x[0-9a-fA-F]*$/\<close>.\<close>

definition isHex :: "string \<Rightarrow> bool" where
  "isHex s = (startsWith s ''0x'' \<and> list_all isHexDigit (drop 2 s))"

definition charCodeToBase16 :: "char \<Rightarrow> nat option" where
  "charCodeToBase16 c = (let n = (of_char c :: nat) in
     if 48 \<le> n \<and> n \<le> 57 then Some (n - 48)
     else if 65 \<le> n \<and> n \<le> 70 then Some (n - 55)
     else if 97 \<le> n \<and> n \<le> 102 then Some (n - 87)
     else None)"

text \<open>The table \<^verbatim>\<open>hexes\<close> of the library: the two lower-case digits of a byte.\<close>

definition hexDigit :: "nat \<Rightarrow> char" where
  "hexDigit n = (if n < 10 then char_of (48 + n) else char_of (87 + n))"

definition hexes :: "byte \<Rightarrow> string" where
  "hexes b = [hexDigit (unat b div 16), hexDigit (unat b mod 16)]"

definition bytesToHex :: "byte list \<Rightarrow> Hex" where
  "bytesToHex bs = ''0x'' @ concat (map hexes bs)"

fun hexPairs :: "string \<Rightarrow> error + byte list" where
  "hexPairs [] = Inr []"
| "hexPairs [c] = Inl InvalidByteSequence"
| "hexPairs (l # r # cs) =
     (case (charCodeToBase16 l, charCodeToBase16 r) of
        (Some nl, Some nr) \<Rightarrow>
          (case hexPairs cs of Inl e \<Rightarrow> Inl e | Inr bs \<Rightarrow> Inr (of_nat (nl * 16 + nr) # bs))
      | _ \<Rightarrow> Inl InvalidByteSequence)"

text \<open>\<^verbatim>\<open>hexToBytes\<close>: drop the prefix, put a \<^verbatim>\<open>0\<close> in front of an odd number of digits,
  read the digits in pairs, throw on a character that is no digit.\<close>

definition hexToBytes :: "Hex \<Rightarrow> error + byte list" where
  "hexToBytes hex = (let s = drop 2 hex in hexPairs (if odd (length s) then CHR ''0'' # s else s))"

text \<open>The UTF-8 bytes of a string (\<^verbatim>\<open>TextEncoder.encode\<close>), for code points below 256.\<close>

definition utf8 :: "char \<Rightarrow> byte list" where
  "utf8 c = (let n = (of_char c :: nat) in
     if n < 128 then [of_nat n] else [of_nat (192 + n div 64), of_nat (128 + n mod 64)])"

definition stringToBytes :: "string \<Rightarrow> byte list" where
  "stringToBytes s = concat (map utf8 s)"

definition toBytes :: "string \<Rightarrow> error + byte list" where
  "toBytes v = (if isHex v then hexToBytes v else Inr (stringToBytes v))"

text \<open>\<^verbatim>\<open>padStart\<close> and \<^verbatim>\<open>padEnd\<close> of a string, and \<^verbatim>\<open>padHex(hex, { dir, size })\<close>: the
  first \<^verbatim>\<open>0x\<close> is removed, a value longer than \<open>size\<close> bytes is refused.\<close>

definition padStart :: "string \<Rightarrow> nat \<Rightarrow> char \<Rightarrow> string" where
  "padStart s n c = replicate (n - length s) c @ s"

definition padEnd :: "string \<Rightarrow> nat \<Rightarrow> char \<Rightarrow> string" where
  "padEnd s n c = s @ replicate (n - length s) c"

definition padHex :: "Hex \<Rightarrow> nat \<Rightarrow> error + Hex" where
  "padHex hex0 sz =
     (let hex = str_replace hex0 ''0x'' '''' in
      if length hex > sz * 2 then Inl SizeExceedsPaddingSizeError
      else Inr (''0x'' @ padStart hex (sz * 2) CHR ''0''))"

definition padHexRight :: "Hex \<Rightarrow> nat \<Rightarrow> error + Hex" where
  "padHexRight hex0 sz =
     (let hex = str_replace hex0 ''0x'' '''' in
      if length hex > sz * 2 then Inl SizeExceedsPaddingSizeError
      else Inr (''0x'' @ padEnd hex (sz * 2) CHR ''0''))"

text \<open>\<^verbatim>\<open>n.toString(16)\<close> of a non-negative integer: lower-case digits, no leading zero.\<close>

fun toString16 :: "nat \<Rightarrow> string" where
  "toString16 n = (if n < 16 then [hexDigit n] else toString16 (n div 16) @ [hexDigit (n mod 16)])"

declare toString16.simps [simp del]

text \<open>\<^verbatim>\<open>toHex(value, { size })\<close> on a bigint (\<^verbatim>\<open>numberToHex\<close>): a value below zero or above
  \<open>2 ^ (8 * sz) - 1\<close> throws; nothing is reduced modulo a power of two.\<close>

definition numberToHex :: "int \<Rightarrow> nat \<Rightarrow> error + Hex" where
  "numberToHex v sz =
     (if v > 2 ^ (sz * 8) - 1 \<or> v < 0 then Inl IntegerOutOfRangeError
      else padHex (''0x'' @ toString16 (nat v)) sz)"

text \<open>\<^verbatim>\<open>toHex(value, { size })\<close> on a string (\<^verbatim>\<open>stringToHex\<close>): the UTF-8 bytes as hex,
  padded on the right; more than \<open>size\<close> bytes throw.\<close>

definition stringToHex :: "string \<Rightarrow> nat \<Rightarrow> error + Hex" where
  "stringToHex v sz =
     (let bs = stringToBytes v in
      if length bs > sz then Inl SizeOverflowError else padHexRight (bytesToHex bs) sz)"

text \<open>\<^verbatim>\<open>BigInt(string)\<close>: white space is trimmed, the empty string is 0, a prefix
  \<^verbatim>\<open>0x\<close>, \<^verbatim>\<open>0o\<close> or \<^verbatim>\<open>0b\<close> selects the base and takes no sign, decimal digits may
  carry one; anything else is a \<^verbatim>\<open>SyntaxError\<close>.\<close>

definition isStrWhiteSpace :: "char \<Rightarrow> bool" where
  "isStrWhiteSpace c = ((of_char c :: nat) \<in> {9, 10, 11, 12, 13, 32, 160})"

definition trim :: "string \<Rightarrow> string" where
  "trim s = rev (dropWhile isStrWhiteSpace (rev (dropWhile isStrWhiteSpace s)))"

fun parseDigits :: "nat \<Rightarrow> nat \<Rightarrow> string \<Rightarrow> nat option" where
  "parseDigits base acc [] = Some acc"
| "parseDigits base acc (c # cs) =
     (case charCodeToBase16 c of
        None \<Rightarrow> None
      | Some d \<Rightarrow> if d < base then parseDigits base (acc * base + d) cs else None)"

definition parseNat :: "nat \<Rightarrow> string \<Rightarrow> error + int" where
  "parseNat base ds =
     (if ds = [] then Inl SyntaxError
      else case parseDigits base 0 ds of None \<Rightarrow> Inl SyntaxError | Some n \<Rightarrow> Inr (int n))"

definition BigInt :: "string \<Rightarrow> error + int" where
  "BigInt s =
     (let t = trim s in
      if t = [] then Inr 0
      else if startsWith t ''0x'' \<or> startsWith t ''0X'' then parseNat 16 (drop 2 t)
      else if startsWith t ''0o'' \<or> startsWith t ''0O'' then parseNat 8 (drop 2 t)
      else if startsWith t ''0b'' \<or> startsWith t ''0B'' then parseNat 2 (drop 2 t)
      else if startsWith t ''+'' then parseNat 10 (drop 1 t)
      else if startsWith t ''-'' then
        (case parseNat 10 (drop 1 t) of Inl e \<Rightarrow> Inl e | Inr n \<Rightarrow> Inr (- n))
      else parseNat 10 t)"

definition hexToBigInt :: "Hex \<Rightarrow> error + int" where
  "hexToBigInt hex = BigInt hex"

text \<open>
  \<^verbatim>\<open>keccak256(value)\<close> of the library, on a string: a string of hex digits is hashed as the
  bytes it spells, any other string as its UTF-8 bytes, and the 32-byte digest is returned
  as hex. The hash function on bytes is the parameter \<open>K\<close>.
\<close>

definition keccak256 :: "(byte list \<Rightarrow> byte list) \<Rightarrow> string \<Rightarrow> error + Hex" where
  "keccak256 K v = (case toBytes v of Inl e \<Rightarrow> Inl e | Inr bs \<Rightarrow> Inr (bytesToHex (K bs)))"

section \<open>Keccak-256\<close>

text \<open>
  The hash the engine is run with: Keccak-256 as Ethereum uses it (rate 136 bytes, padding
  byte \<^verbatim>\<open>0x01\<close>, 24 rounds of Keccak-f[1600] on 25 little-endian lanes of 64 bits).
\<close>

type_synonym lane = "64 word"

definition rotl64 :: "lane \<Rightarrow> nat \<Rightarrow> lane" where
  "rotl64 w n = push_bit n w OR drop_bit (64 - n) w"

definition keccak_rc :: "lane list" where
  "keccak_rc =
    [0x0000000000000001, 0x0000000000008082, 0x800000000000808A, 0x8000000080008000,
     0x000000000000808B, 0x0000000080000001, 0x8000000080008081, 0x8000000000008009,
     0x000000000000008A, 0x0000000000000088, 0x0000000080008009, 0x000000008000000A,
     0x000000008000808B, 0x800000000000008B, 0x8000000000008089, 0x8000000000008003,
     0x8000000000008002, 0x8000000000000080, 0x000000000000800A, 0x800000008000000A,
     0x8000000080008081, 0x8000000000008080, 0x0000000080000001, 0x8000000080008008]"

definition keccak_rot :: "nat list" where
  "keccak_rot = [0, 1, 62, 28, 27,  36, 44, 6, 55, 20,  3, 10, 43, 25, 39,
                 41, 45, 15, 21, 8,  18, 2, 61, 56, 14]"

text \<open>The lane at column \<open>x\<close>, row \<open>y\<close> is element \<open>x + 5 * y\<close> of the state.\<close>

definition theta :: "lane list \<Rightarrow> lane list" where
  "theta a =
     (let c = map (\<lambda>x. a ! x XOR a ! (x + 5) XOR a ! (x + 10) XOR a ! (x + 15) XOR a ! (x + 20))
                [0..<5];
          d = map (\<lambda>x. c ! ((x + 4) mod 5) XOR rotl64 (c ! ((x + 1) mod 5)) 1) [0..<5]
      in map (\<lambda>i. a ! i XOR d ! (i mod 5)) [0..<25])"

definition rho_pi :: "lane list \<Rightarrow> lane list" where
  "rho_pi a =
     map (\<lambda>i. let x' = i mod 5; y' = i div 5; x = (x' + 3 * y') mod 5; y = x'
              in rotl64 (a ! (x + 5 * y)) (keccak_rot ! (x + 5 * y))) [0..<25]"

definition chi :: "lane list \<Rightarrow> lane list" where
  "chi b =
     map (\<lambda>i. let x = i mod 5; y = i div 5
              in b ! i XOR (NOT (b ! ((x + 1) mod 5 + 5 * y)) AND b ! ((x + 2) mod 5 + 5 * y)))
         [0..<25]"

definition iota :: "lane \<Rightarrow> lane list \<Rightarrow> lane list" where
  "iota rc a = (case a of [] \<Rightarrow> [] | l # ls \<Rightarrow> (l XOR rc) # ls)"

definition keccak_round :: "lane list \<Rightarrow> lane \<Rightarrow> lane list" where
  "keccak_round a rc = iota rc (chi (rho_pi (theta a)))"

definition keccak_f :: "lane list \<Rightarrow> lane list" where
  "keccak_f a = foldl keccak_round a keccak_rc"

fun lane_of_bytes :: "byte list \<Rightarrow> lane" where
  "lane_of_bytes [] = 0"
| "lane_of_bytes (b # bs) = ucast b OR push_bit 8 (lane_of_bytes bs)"

definition bytes_of_lane :: "lane \<Rightarrow> byte list" where
  "bytes_of_lane l = map (\<lambda>i. ucast (drop_bit (8 * i) l)) [0..<8]"

fun chunks :: "nat \<Rightarrow> 'a list \<Rightarrow> 'a list list" where
  "chunks n [] = []"
| "chunks n (x # xs) =
     (if n = 0 then [] else take n (x # xs) # chunks n (drop n (x # xs)))"

definition pad101 :: "byte list \<Rightarrow> byte list" where
  "pad101 m =
     (let q = 136 - length m mod 136
      in if q = 1 then m @ [0x81] else m @ [0x01] @ replicate (q - 2) 0 @ [0x80])"

definition absorb :: "lane list \<Rightarrow> byte list \<Rightarrow> lane list" where
  "absorb st blk =
     keccak_f (map2 (XOR) st (map lane_of_bytes (chunks 8 blk) @ replicate 8 0))"

definition keccak_256 :: "byte list \<Rightarrow> byte list" where
  "keccak_256 m =
     take 32 (concat (map bytes_of_lane (foldl absorb (replicate 25 0) (chunks 136 (pad101 m)))))"

section \<open>Slot computation\<close>

text \<open>Modelled from the spec: the declaration of \<^verbatim>\<open>MappingKey\<close> (\<^verbatim>\<open>lib/types\<close>) is not among
  the sources. A candidate key has its 32-byte hex form, the decoded value when it came from
  an address or from calldata, and its ABI type when one is known; these are the fields the
  engine writes and reads.\<close>

datatype AbiValue =
    AbiArray "AbiValue list"
  | AbiAddress Hex
  | AbiNumber int
  | AbiBool bool
  | AbiString string
  | AbiBytes Hex

record MappingKey =
  hex :: Hex
  decoded :: "AbiValue option"
  type :: "string option"

text \<open>\<^verbatim>\<open>computeMappingSlot\<close>:
  \<^verbatim>\<open>keccak256(`0x${key.hex.replace("0x", "")}${baseSlot.replace("0x", "")}`)\<close>.\<close>

definition computeMappingSlot :: "(byte list \<Rightarrow> byte list) \<Rightarrow> Hex \<Rightarrow> MappingKey \<Rightarrow> error + Hex" where
  "computeMappingSlot K baseSlot key =
     keccak256 K (''0x'' @ str_replace (hex key) ''0x'' '''' @ str_replace baseSlot ''0x'' '''')"

text \<open>The \<^verbatim>\<open>forEach\<close> of \<^verbatim>\<open>computeNestedMappingSlot\<close>: each key is hashed against the slot
  reached so far.\<close>

fun nestedLoop :: "(byte list \<Rightarrow> byte list) \<Rightarrow> Hex \<Rightarrow> MappingKey list \<Rightarrow> error + Hex" where
  "nestedLoop K slot [] = Inr slot"
| "nestedLoop K slot (key # keys) =
     (case computeMappingSlot K slot key of Inl e \<Rightarrow> Inl e | Inr s \<Rightarrow> nestedLoop K s keys)"

definition computeNestedMappingSlot ::
    "(byte list \<Rightarrow> byte list) \<Rightarrow> Hex \<Rightarrow> MappingKey list \<Rightarrow> error + Hex" where
  "computeNestedMappingSlot K baseSlot keys =
     (if length keys = 0 then Inr baseSlot else nestedLoop K baseSlot keys)"

text \<open>\<^verbatim>\<open>computeArraySlot\<close>:
  \<^verbatim>\<open>toHex(hexToBigInt(keccak256(baseSlot)) + index, { size: 32 })\<close>.\<close>

definition computeArraySlot :: "(byte list \<Rightarrow> byte list) \<Rightarrow> Hex \<Rightarrow> int \<Rightarrow> error + Hex" where
  "computeArraySlot K baseSlot index =
     (case keccak256 K baseSlot of
        Inl e \<Rightarrow> Inl e
      | Inr h \<Rightarrow>
          (case hexToBigInt h of
             Inl e \<Rightarrow> Inl e
           | Inr slotBigInt \<Rightarrow> numberToHex (slotBigInt + index) 32))"

text \<open>\<^verbatim>\<open>isValidArrayIndex\<close>: the index, read as a number, is below the limit 1000000.\<close>

definition isValidArrayIndex :: "Hex \<Rightarrow> error + bool" where
  "isValidArrayIndex index =
     (case hexToBigInt index of
        Inl e \<Rightarrow> Inl e
      | Inr indexBigInt \<Rightarrow> Inr (indexBigInt \<ge> 0 \<and> indexBigInt < 1000000))"

section \<open>Candidate keys\<close>

text \<open>
  The ABI codec of the library (\<^verbatim>\<open>decodeAbiParameters\<close>, and \<^verbatim>\<open>encodeAbiParameters\<close> called
  with one parameter) is a parameter of the extraction; both functions may throw.
\<close>

record AbiParameter =
  name :: string
  abiType :: string

record ABIFunction =
  selector :: string
  inputs :: "AbiParameter list option"

record AbiCodec =
  decodeAbiParameters :: "AbiParameter list \<Rightarrow> Hex \<Rightarrow> error + AbiValue list"
  encodeAbiParameters :: "string \<Rightarrow> AbiValue \<Rightarrow> error + Hex"

record Trace =
  uniqueStackValues :: "string list option"
  relevantOps :: "(string \<times> string list) list option"

text \<open>A loop whose body may throw: the first exception ends it.\<close>

fun foldE :: "('s \<Rightarrow> 'a \<Rightarrow> error + 's) \<Rightarrow> 's \<Rightarrow> 'a list \<Rightarrow> error + 's" where
  "foldE f s [] = Inr s"
| "foldE f s (x # xs) = (case f s x of Inl e \<Rightarrow> Inl e | Inr s' \<Rightarrow> foldE f s' xs)"

definition addressKey :: "MappingKey list \<Rightarrow> Hex \<Rightarrow> error + MappingKey list" where
  "addressKey keys address =
     (case padHex address 32 of
        Inl e \<Rightarrow> Inl e
      | Inr h \<Rightarrow> Inr (keys @ [\<lparr>hex = h, decoded = Some (AbiAddress address), type = Some ''address''\<rparr>]))"

text \<open>The push of one decoded value \<open>p\<close> under the type string \<open>ty\<close>; an empty type
  string is falsy and pushes nothing.\<close>

definition argKey :: "AbiCodec \<Rightarrow> string \<Rightarrow> MappingKey list \<Rightarrow> AbiValue \<Rightarrow> error + MappingKey list" where
  "argKey codec ty keys p =
     (if ty = [] then Inr keys
      else case encodeAbiParameters codec ty p of
             Inl e \<Rightarrow> Inl e
           | Inr enc \<Rightarrow>
               (case padHex enc 32 of
                  Inl e \<Rightarrow> Inl e
                | Inr h \<Rightarrow> Inr (keys @ [\<lparr>hex = h, decoded = Some p, type = Some ty\<rparr>])))"

text \<open>The body of \<^verbatim>\<open>params.forEach((param, index) => ...)\<close>. Reading \<^verbatim>\<open>inputs[index].type\<close>
  past the end of \<^verbatim>\<open>inputs\<close> is a \<^verbatim>\<open>TypeError\<close>; an empty array never reads it.\<close>

definition paramKeys ::
    "AbiCodec \<Rightarrow> AbiParameter list \<Rightarrow> MappingKey list \<Rightarrow> AbiValue \<times> nat \<Rightarrow> error + MappingKey list" where
  "paramKeys codec ins keys pi =
     (case pi of
        (AbiArray ps, index) \<Rightarrow>
          foldE (\<lambda>ks p. if index < length ins
                         then argKey codec (str_replace (abiType (ins ! index)) ''[]'' '''') ks p
                         else Inl TypeError) keys ps
      | (param, index) \<Rightarrow>
          if index < length ins then argKey codec (abiType (ins ! index)) keys param
          else Inl TypeError)"

definition calldataKeys ::
    "AbiCodec \<Rightarrow> ABIFunction list \<Rightarrow> Hex option \<Rightarrow> MappingKey list \<Rightarrow> error + MappingKey list" where
  "calldataKeys codec abiFunctions txData keys =
     (case txData of
        None \<Rightarrow> Inr keys
      | Some d \<Rightarrow>
          if length d > 10 then
            (case find (\<lambda>fn. selector fn = take 10 d) abiFunctions of
               None \<Rightarrow> Inr keys
             | Some fn \<Rightarrow>
                 (case inputs fn of
                    None \<Rightarrow> Inr keys
                  | Some ins \<Rightarrow>
                      (case decodeAbiParameters codec ins (''0x'' @ drop 10 d) of
                         Inl e \<Rightarrow> Inl e
                       | Inr params \<Rightarrow>
                           foldE (paramKeys codec ins) keys (zip params [0..<length params]))))
          else Inr keys)"

definition stackKey :: "MappingKey list \<Rightarrow> string \<Rightarrow> error + MappingKey list" where
  "stackKey keys stackValue =
     (case (if isHex stackValue then padHex stackValue 32 else stringToHex stackValue 32) of
        Inl e \<Rightarrow> Inl e
      | Inr h \<Rightarrow> Inr (keys @ [\<lparr>hex = h, decoded = None, type = None\<rparr>]))"

definition stackKeys :: "Trace \<Rightarrow> MappingKey list \<Rightarrow> error + MappingKey list" where
  "stackKeys trace keys =
     (case uniqueStackValues trace of
        None \<Rightarrow> Inr keys
      | Some vs \<Rightarrow> if length vs \<noteq> 0 then foldE stackKey keys vs else Inr keys)"

text \<open>The array \<^verbatim>\<open>keys\<close> as it stands before the deduplication.\<close>

definition collectKeys ::
    "AbiCodec \<Rightarrow> Trace \<Rightarrow> Hex list \<Rightarrow> ABIFunction list \<Rightarrow> Hex option \<Rightarrow> error + MappingKey list" where
  "collectKeys codec trace addresses abiFunctions txData =
     (case foldE addressKey [] addresses of
        Inl e \<Rightarrow> Inl e
      | Inr keys1 \<Rightarrow>
          (case calldataKeys codec abiFunctions txData keys1 of
             Inl e \<Rightarrow> Inl e
           | Inr keys2 \<Rightarrow> stackKeys trace keys2))"

text \<open>
  The deduplication: a \<^verbatim>\<open>Map\<close> from the hex form to the key, as an association list in
  insertion order (\<open>AList.update\<close> keeps the place of a key that is already there, as
  \<^verbatim>\<open>Map.set\<close> does). A key is stored when its hex form is new or when its type is truthy.
\<close>

definition typed :: "MappingKey \<Rightarrow> bool" where
  "typed k = (case type k of None \<Rightarrow> False | Some t \<Rightarrow> t \<noteq> [])"

definition uniqueStep :: "(Hex \<times> MappingKey) list \<Rightarrow> MappingKey \<Rightarrow> (Hex \<times> MappingKey) list" where
  "uniqueStep uniqueMap k =
     (if map_of uniqueMap (hex k) = None \<or> typed k then AList.update (hex k) k uniqueMap
      else uniqueMap)"

definition deduplicate :: "MappingKey list \<Rightarrow> MappingKey list" where
  "deduplicate keys = map snd (foldl uniqueStep [] keys)"

definition extractPotentialKeys ::
    "AbiCodec \<Rightarrow> Trace \<Rightarrow> Hex list \<Rightarrow> ABIFunction list \<Rightarrow> Hex option \<Rightarrow> error + MappingKey list" where
  "extractPotentialKeys codec trace addresses abiFunctions txData =
     (case collectKeys codec trace addresses abiFunctions txData of
        Inl e \<Rightarrow> Inl e
      | Inr keys \<Rightarrow> Inr (deduplicate keys))"

section \<open>The slot resolver\<close>

text \<open>
  Modelled from the spec: the declarations of \<^verbatim>\<open>StorageSlotInfo\<close> and \<^verbatim>\<open>SlotLabelResult\<close>
  (\<^verbatim>\<open>lib/types\<close>) are not among the sources. An entry of the storage layout and a result of
  the resolver have the fields the resolver reads and writes, optional where its code treats
  them as optional. Entries and keys are JavaScript objects: a value of \<open>'a obj\<close> is the
  object's reference with its fields, and \<^verbatim>\<open>===\<close> and \<^verbatim>\<open>Set\<close> compare references.
\<close>

type_synonym 'a obj = "nat \<times> 'a"

record StorageSlotInfo =
  label :: string
  slot :: Hex
  varType :: "string option"
  offset :: "int option"
  isComputed :: bool
  encoding :: string
  keyType :: "string option"
  valueType :: "string option"
  baseType :: "string option"

datatype MatchType = Exact | Mapping | NestedMapping | Array

record SlotLabelResult =
  r_label :: string
  r_slot :: Hex
  matchType :: MatchType
  r_type :: "string option"
  r_offset :: "int option"
  keys :: "MappingKey list option"
  index :: "Hex option"

definition fallbackResult :: "Hex \<Rightarrow> SlotLabelResult" where
  "fallbackResult s =
     \<lparr>r_label = ''var_'' @ take 10 s, r_slot = s, matchType = Exact, r_type = None,
      r_offset = None, keys = None, index = None\<rparr>"

definition directResult :: "Hex \<Rightarrow> StorageSlotInfo \<Rightarrow> SlotLabelResult" where
  "directResult s match =
     \<lparr>r_label = label match, r_slot = s, matchType = Exact, r_type = varType match,
      r_offset = offset match, keys = None, index = None\<rparr>"

definition mappingResult :: "Hex \<Rightarrow> StorageSlotInfo \<Rightarrow> MappingKey \<Rightarrow> SlotLabelResult" where
  "mappingResult s mapping key =
     \<lparr>r_label = label mapping, r_slot = s, matchType = Mapping, r_type = valueType mapping,
      r_offset = None, keys = Some [key], index = None\<rparr>"

definition nestedResult :: "Hex \<Rightarrow> StorageSlotInfo \<Rightarrow> MappingKey list \<Rightarrow> SlotLabelResult" where
  "nestedResult s mapping ks =
     \<lparr>r_label = label mapping, r_slot = s, matchType = NestedMapping, r_type = valueType mapping,
      r_offset = None, keys = Some ks, index = None\<rparr>"

definition arrayResult :: "Hex \<Rightarrow> StorageSlotInfo \<Rightarrow> MappingKey \<Rightarrow> SlotLabelResult" where
  "arrayResult s array key =
     \<lparr>r_label = label array, r_slot = s, matchType = Array, r_type = baseType array,
      r_offset = None, keys = None, index = Some (hex key)\<rparr>"

text \<open>\<^verbatim>\<open>Set.add\<close> and the grouping of the direct entries by slot in a
  \<^verbatim>\<open>Map<Hex, Set<StorageSlotInfo>>\<close>.\<close>

definition setAdd :: "'a obj list \<Rightarrow> 'a obj \<Rightarrow> 'a obj list" where
  "setAdd s x = (if fst x \<in> fst ` set s then s else s @ [x])"

definition slotToInfoAdd ::
    "(Hex \<times> StorageSlotInfo obj list) list \<Rightarrow> StorageSlotInfo obj \<Rightarrow> (Hex \<times> StorageSlotInfo obj list) list" where
  "slotToInfoAdd m directSlot =
     (let k = slot (snd directSlot);
          m1 = (if map_of m k = None then AList.update k [] m else m)
      in AList.update k (setAdd (case map_of m1 k of None \<Rightarrow> [] | Some s \<Rightarrow> s) directSlot) m1)"

definition offsetOrZero :: "StorageSlotInfo obj \<Rightarrow> int" where
  "offsetOrZero a = (case offset (snd a) of None \<Rightarrow> 0 | Some n \<Rightarrow> n)"

definition isPlainMapping :: "StorageSlotInfo obj \<Rightarrow> bool" where
  "isPlainMapping item =
     (encoding (snd item) = ''mapping'' \<and>
      \<not> (case valueType (snd item) of None \<Rightarrow> False | Some v \<Rightarrow> str_includes v ''mapping''))"

definition isNestedMapping :: "StorageSlotInfo obj \<Rightarrow> bool" where
  "isNestedMapping m = (case valueType (snd m) of None \<Rightarrow> False | Some v \<Rightarrow> str_includes v ''mapping'')"

text \<open>Pass 2: every plain mapping against every candidate key.\<close>

definition mappingKeyStep ::
    "(byte list \<Rightarrow> byte list) \<Rightarrow> Hex \<Rightarrow> StorageSlotInfo obj \<Rightarrow> SlotLabelResult list \<Rightarrow> MappingKey obj
       \<Rightarrow> error + SlotLabelResult list" where
  "mappingKeyStep K s mapping results key =
     (case computeMappingSlot K (slot (snd mapping)) (snd key) of
        Inl e \<Rightarrow> Inl e
      | Inr computedSlot \<Rightarrow>
          Inr (if computedSlot = s then results @ [mappingResult s (snd mapping) (snd key)]
               else results))"

definition mappingPass ::
    "(byte list \<Rightarrow> byte list) \<Rightarrow> Hex \<Rightarrow> MappingKey obj list \<Rightarrow> SlotLabelResult list
       \<Rightarrow> StorageSlotInfo obj list \<Rightarrow> error + SlotLabelResult list" where
  "mappingPass K s potentialKeys results mappings =
     foldE (\<lambda>rs mapping. foldE (mappingKeyStep K s mapping) rs potentialKeys) results mappings"

text \<open>Pass 3: every nested mapping against every pair of two different key objects.\<close>

definition nestedKeyStep ::
    "(byte list \<Rightarrow> byte list) \<Rightarrow> Hex \<Rightarrow> StorageSlotInfo obj \<Rightarrow> MappingKey obj \<Rightarrow> SlotLabelResult list
       \<Rightarrow> MappingKey obj \<Rightarrow> error + SlotLabelResult list" where
  "nestedKeyStep K s mapping key1 results key2 =
     (if fst key1 = fst key2 then Inr results
      else case computeNestedMappingSlot K (slot (snd mapping)) [snd key1, snd key2] of
             Inl e \<Rightarrow> Inl e
           | Inr computedSlot \<Rightarrow>
               Inr (if computedSlot = s
                    then results @ [nestedResult s (snd mapping) [snd key1, snd key2]]
                    else results))"

definition nestedPass ::
    "(byte list \<Rightarrow> byte list) \<Rightarrow> Hex \<Rightarrow> MappingKey obj list \<Rightarrow> SlotLabelResult list
       \<Rightarrow> StorageSlotInfo obj list \<Rightarrow> error + SlotLabelResult list" where
  "nestedPass K s potentialKeys results nestedMappings =
     foldE (\<lambda>rs mapping.
              foldE (\<lambda>rs1 key1. foldE (nestedKeyStep K s mapping key1) rs1 potentialKeys)
                rs potentialKeys)
       results nestedMappings"

text \<open>Pass 4: every dynamic array against every candidate that is a valid index.\<close>

definition arrayKeyStep ::
    "(byte list \<Rightarrow> byte list) \<Rightarrow> Hex \<Rightarrow> StorageSlotInfo obj \<Rightarrow> SlotLabelResult list \<Rightarrow> MappingKey obj
       \<Rightarrow> error + SlotLabelResult list" where
  "arrayKeyStep K s array results key =
     (case isValidArrayIndex (hex (snd key)) of
        Inl e \<Rightarrow> Inl e
      | Inr valid \<Rightarrow>
          if \<not> valid then Inr results
          else case hexToBigInt (hex (snd key)) of
                 Inl e \<Rightarrow> Inl e
               | Inr idx \<Rightarrow>
                   (case computeArraySlot K (slot (snd array)) idx of
                      Inl e \<Rightarrow> Inl e
                    | Inr computedSlot \<Rightarrow>
                        Inr (if computedSlot = s
                             then results @ [arrayResult s (snd array) (snd key)]
                             else results)))"

definition arrayPass ::
    "(byte list \<Rightarrow> byte list) \<Rightarrow> Hex \<Rightarrow> MappingKey obj list \<Rightarrow> SlotLabelResult list
       \<Rightarrow> StorageSlotInfo obj list \<Rightarrow> error + SlotLabelResult list" where
  "arrayPass K s potentialKeys results arrays =
     foldE (\<lambda>rs array. foldE (arrayKeyStep K s array) rs potentialKeys) results arrays"

text \<open>Passes 2 to 5 of \<^verbatim>\<open>findLayoutInfoAtSlot\<close>, run when no direct entry was returned.\<close>

definition computedPasses ::
    "(byte list \<Rightarrow> byte list) \<Rightarrow> Hex \<Rightarrow> StorageSlotInfo obj list \<Rightarrow> MappingKey obj list
       \<Rightarrow> error + SlotLabelResult list" where
  "computedPasses K s storageLayout potentialKeys =
     (let mappings = filter isPlainMapping storageLayout;
          nestedMappings = filter isNestedMapping mappings;
          arrays = filter (\<lambda>item. encoding (snd item) = ''dynamic_array'') storageLayout
      in case mappingPass K s potentialKeys [] mappings of
           Inl e \<Rightarrow> Inl e
         | Inr results2 \<Rightarrow>
             (case nestedPass K s potentialKeys results2 nestedMappings of
                Inl e \<Rightarrow> Inl e
              | Inr results3 \<Rightarrow>
                  (case arrayPass K s potentialKeys results3 arrays of
                     Inl e \<Rightarrow> Inl e
                   | Inr results \<Rightarrow>
                       Inr (if length results = 0 then [fallbackResult s] else results))))"

definition findLayoutInfoAtSlot ::
    "(byte list \<Rightarrow> byte list) \<Rightarrow> Hex \<Rightarrow> StorageSlotInfo obj list \<Rightarrow> MappingKey obj list
       \<Rightarrow> error + SlotLabelResult list" where
  "findLayoutInfoAtSlot K s storageLayout potentialKeys =
     (if length storageLayout = 0 then Inr [fallbackResult s]
      else
        let directSlots = filter (\<lambda>item. \<not> isComputed (snd item)) storageLayout;
            slotToInfo = foldl slotToInfoAdd [] directSlots
        in case map_of slotToInfo s of
             None \<Rightarrow> computedPasses K s storageLayout potentialKeys
           | Some matching \<Rightarrow>
               (let results = map (\<lambda>match. directResult s (snd match))
                                  (sort_key offsetOrZero matching)
                in if length results > 0 then Inr results
                   else computedPasses K s storageLayout potentialKeys))"

text \<open>One step of the left fold of the single-level mapping slot over a list of keys: the
  slot reached so far is hashed with the next key, an exception stays.\<close>

definition mappingStep :: "(byte list \<Rightarrow> byte list) \<Rightarrow> error + Hex \<Rightarrow> MappingKey \<Rightarrow> error + Hex" where
  "mappingStep K r key = (case r of Inl e \<Rightarrow> Inl e | Inr s \<Rightarrow> computeMappingSlot K s key)"

section \<open>What the claims speak of\<close>

text \<open>The layout entries that match a slot directly: not computed, and declared at the slot.\<close>

definition directAt :: "Hex \<Rightarrow> StorageSlotInfo obj list \<Rightarrow> StorageSlotInfo obj list" where
  "directAt s storageLayout =
     filter (\<lambda>item. \<not> isComputed (snd item) \<and> slot (snd item) = s) storageLayout"

text \<open>\<^verbatim>\<open>Array.from(new Set(xs))\<close>: each object once, in the order of its first occurrence.\<close>

definition fromSet :: "'a obj list \<Rightarrow> 'a obj list" where
  "fromSet xs = foldl setAdd [] xs"

text \<open>A candidate misses a dynamic array at slot \<open>s\<close>: read as a number without an exception,
  it is no valid index, or the element slot of that index is computed and is not \<open>s\<close>.\<close>

definition arrayMiss :: "(byte list \<Rightarrow> byte list) \<Rightarrow> Hex \<Rightarrow> StorageSlotInfo \<Rightarrow> MappingKey \<Rightarrow> bool" where
  "arrayMiss K s array key =
     (case hexToBigInt (hex key) of
        Inl e \<Rightarrow> False
      | Inr i \<Rightarrow>
          \<not> (0 \<le> i \<and> i < 1000000) \<or>
          (case computeArraySlot K (slot array) i of Inl e \<Rightarrow> False | Inr c \<Rightarrow> c \<noteq> s))"

text \<open>The number a list of bytes spells, big end first, and the \<open>k\<close> lower-case hex digits of
  a number: the two sides of the 32-byte hex form of an unsigned 256-bit integer.\<close>

definition be_nat :: "byte list \<Rightarrow> nat" where
  "be_nat bs = foldl (\<lambda>acc b. acc * 256 + unat b) 0 bs"

fun fixedHex :: "nat \<Rightarrow> nat \<Rightarrow> string" where
  "fixedHex 0 n = []"
| "fixedHex (Suc k) n = fixedHex k (n div 16) @ [hexDigit (n mod 16)]"

text \<open>The key stored under a hex form in the deduplication map has a truthy type.\<close>

definition typedAt :: "(Hex \<times> MappingKey) list \<Rightarrow> Hex \<Rightarrow> bool" where
  "typedAt m h = (case map_of m h of None \<Rightarrow> False | Some k \<Rightarrow> typed k)"

text \<open>A codec that refuses every call, for runs of the extraction without calldata, where
  the codec is never called.\<close>

definition refusingCodec :: AbiCodec where
  "refusingCodec = \<lparr>decodeAbiParameters = (\<lambda>ins data. Inl AbiCodecError),
                      encodeAbiParameters = (\<lambda>ty v. Inl AbiCodecError)\<rparr>"

text \<open>Putting other declared types on the candidate keys, and other key types on the layout
  entries; and the same change of key types seen in a result.\<close>

definition retypeKey :: "(MappingKey \<Rightarrow> string option) \<Rightarrow> MappingKey \<Rightarrow> MappingKey" where
  "retypeKey f k = k\<lparr>type := f k\<rparr>"

definition retypeEntry :: "(StorageSlotInfo \<Rightarrow> string option) \<Rightarrow> StorageSlotInfo \<Rightarrow> StorageSlotInfo" where
  "retypeEntry g e = e\<lparr>keyType := g e\<rparr>"

definition retypeResult :: "(MappingKey \<Rightarrow> string option) \<Rightarrow> SlotLabelResult \<Rightarrow> SlotLabelResult" where
  "retypeResult f r = r\<lparr>keys := map_option (map (retypeKey f)) (keys r)\<rparr>"

text \<open>
  Inputs on which no exception of the library arises. A hex string fits a word when
  \<^verbatim>\<open>padHex\<close> accepts it for 32 bytes; a stack value is in order when it is hex that fits a
  word or another string of at most 32 UTF-8 bytes; a decoded argument is in order when the
  codec encodes it, under the type of its input, to hex that fits a word; the calldata is in
  order when it is absent or short, or no function of the ABIs has its selector, or the codec
  decodes it to arguments that are in order.
\<close>

definition fitsWord :: "Hex \<Rightarrow> bool" where
  "fitsWord h = (length (str_replace h ''0x'' '''') \<le> 64)"

definition stackValueOk :: "string \<Rightarrow> bool" where
  "stackValueOk v = (if isHex v then fitsWord v else length (stringToBytes v) \<le> 32)"

definition argOk :: "AbiCodec \<Rightarrow> string \<Rightarrow> AbiValue \<Rightarrow> bool" where
  "argOk codec ty p =
     (ty = [] \<or> (case encodeAbiParameters codec ty p of Inl e \<Rightarrow> False | Inr enc \<Rightarrow> fitsWord enc))"

definition paramOk :: "AbiCodec \<Rightarrow> AbiParameter list \<Rightarrow> AbiValue \<times> nat \<Rightarrow> bool" where
  "paramOk codec ins pi =
     (case pi of
        (AbiArray ps, i) \<Rightarrow>
          list_all (\<lambda>p. i < length ins \<and> argOk codec (str_replace (abiType (ins ! i)) ''[]'' '''') p) ps
      | (param, i) \<Rightarrow> i < length ins \<and> argOk codec (abiType (ins ! i)) param)"

definition calldataOk :: "AbiCodec \<Rightarrow> ABIFunction list \<Rightarrow> Hex option \<Rightarrow> bool" where
  "calldataOk codec abiFunctions txData =
     (case txData of
        None \<Rightarrow> True
      | Some d \<Rightarrow>
          length d \<le> 10 \<or>
          (case find (\<lambda>fn. selector fn = take 10 d) abiFunctions of
             None \<Rightarrow> True
           | Some fn \<Rightarrow>
               (case inputs fn of
                  None \<Rightarrow> True
                | Some ins \<Rightarrow>
                    (case decodeAbiParameters codec ins (''0x'' @ drop 10 d) of
                       Inl e \<Rightarrow> False
                     | Inr params \<Rightarrow>
                         list_all (paramOk codec ins) (zip params [0..<length params])))))"

definition stackOk :: "Trace \<Rightarrow> bool" where
  "stackOk trace = (case uniqueStackValues trace of None \<Rightarrow> True | Some vs \<Rightarrow> list_all stackValueOk vs)"

text \<open>A candidate is in order for a dynamic array when it reads as a number and, where that
  number is a valid index, its element slot is computed without an exception.\<close>

definition arrayOk :: "(byte list \<Rightarrow> byte list) \<Rightarrow> StorageSlotInfo \<Rightarrow> MappingKey \<Rightarrow> bool" where
  "arrayOk K array key =
     (case hexToBigInt (hex key) of
        Inl e \<Rightarrow> False
      | Inr i \<Rightarrow>
          \<not> (0 \<le> i \<and> i < 1000000) \<or>
          (case computeArraySlot K (slot array) i of Inl e \<Rightarrow> False | Inr c \<Rightarrow> True))"

definition resolverOk :: "(byte list \<Rightarrow> byte list) \<Rightarrow> StorageSlotInfo obj list \<Rightarrow> MappingKey obj list \<Rightarrow> bool" where
  "resolverOk K storageLayout potentialKeys =
     list_all (\<lambda>a. encoding (snd a) = ''dynamic_array'' \<longrightarrow>
                  list_all (\<lambda>k. arrayOk K (snd a) (snd k)) potentialKeys) storageLayout"

text \<open>What the library's codec returns on the one call of the example below: decoding the
  calldata of \<^verbatim>\<open>setName("hello")\<close> against the input \<^verbatim>\<open>string\<close>, and encoding the string
  \<^verbatim>\<open>"hello"\<close> on its own (offset, length, padded bytes: three words).\<close>

definition helloWords :: string where
  "helloWords =
     ''0000000000000000000000000000000000000000000000000000000000000020'' @
     ''0000000000000000000000000000000000000000000000000000000000000005'' @
     ''68656c6c6f000000000000000000000000000000000000000000000000000000''"

definition helloCodec :: AbiCodec where
  "helloCodec =
     \<lparr>decodeAbiParameters =
        (\<lambda>ins data. if map abiType ins = [''string''] \<and> data = ''0x'' @ helloWords
                     then Inr [AbiString ''hello''] else Inl AbiCodecError),
      encodeAbiParameters =
        (\<lambda>ty v. if ty = ''string'' \<and> v = AbiString ''hello''
                 then Inr (''0x'' @ helloWords) else Inl AbiCodecError)\<rparr>"

section \<open>The earlier engine\<close>

text \<open>
  \<^verbatim>\<open>src/lib/slot-engine.ts\<close> is the earlier form of the engine. Its values are loosely typed
  (\<^verbatim>\<open>string | number | bigint\<close>); a number is taken to be integral here.
\<close>

datatype JsValue = JsString string | JsNumber int | JsBigInt int

text \<open>\<^verbatim>\<open>toLowerCase\<close> on code points below 256: the letters A to Z and the capital letters
  of Latin-1.\<close>

definition toLowerChar :: "char \<Rightarrow> char" where
  "toLowerChar c = (let n = (of_char c :: nat) in
     if (65 \<le> n \<and> n \<le> 90) \<or> (192 \<le> n \<and> n \<le> 222 \<and> n \<noteq> 215) then char_of (n + 32) else c)"

definition toLowerCase :: "string \<Rightarrow> string" where
  "toLowerCase s = map toLowerChar s"

text \<open>\<^verbatim>\<open>toHex(value)\<close> without a size: a string gives the hex of its UTF-8 bytes; a number
  must lie between 0 and \<^verbatim>\<open>Number.MAX_SAFE_INTEGER\<close>, a bigint must not be negative.\<close>

definition toHex :: "JsValue \<Rightarrow> error + Hex" where
  "toHex v =
     (case v of
        JsString s \<Rightarrow> Inr (bytesToHex (stringToBytes s))
      | JsNumber n \<Rightarrow>
          if n > 2 ^ 53 - 1 \<or> n < 0 then Inl IntegerOutOfRangeError
          else Inr (''0x'' @ toString16 (nat n))
      | JsBigInt n \<Rightarrow>
          if n < 0 then Inl IntegerOutOfRangeError else Inr (''0x'' @ toString16 (nat n)))"

text \<open>The two regular-expression replacements of \<^verbatim>\<open>normalizeSlot\<close>:
  \<^verbatim>\<open>s.replace(/^0x/, "")\<close> and \<^verbatim>\<open>s.replace(/^0x0+/, "0x")\<close>.\<close>

definition stripPrefix :: "string \<Rightarrow> string" where
  "stripPrefix s = (if startsWith s ''0x'' then drop 2 s else s)"

definition stripLeadingZeros :: "string \<Rightarrow> string" where
  "stripLeadingZeros s =
     (if startsWith s ''0x0'' then ''0x'' @ dropWhile (\<lambda>c. c = CHR ''0'') (drop 2 s) else s)"

definition falsy :: "JsValue \<Rightarrow> bool" where
  "falsy v = (case v of JsString s \<Rightarrow> s = [] | JsNumber n \<Rightarrow> n = 0 | JsBigInt n \<Rightarrow> n = 0)"

definition normalizeSlot :: "JsValue \<Rightarrow> error + string" where
  "normalizeSlot v =
     (if falsy v then Inr ''0x0''
      else case (case v of
                   JsString s \<Rightarrow> Inr (if isHex s then s else ''0x'' @ stripPrefix s)
                 | _ \<Rightarrow> toHex v) of
             Inl e \<Rightarrow> Inl e
           | Inr hexValue \<Rightarrow>
               (let normalized = toLowerCase hexValue;
                    cleanSlot = stripLeadingZeros normalized
                in Inr (if cleanSlot = ''0x'' then ''0x0'' else cleanSlot)))"

text \<open>The number a slot input denotes: a string of hex digits, with the prefix or without,
  read in base 16; a number in the safe range; a bigint that is not negative.\<close>

definition slotValue :: "JsValue \<Rightarrow> nat option" where
  "slotValue v =
     (case v of
        JsString s \<Rightarrow>
          if isHex s then parseDigits 16 0 (drop 2 s)
          else if list_all isHexDigit s then parseDigits 16 0 s
          else None
      | JsNumber n \<Rightarrow> if 0 \<le> n \<and> n \<le> 2 ^ 53 - 1 then Some (nat n) else None
      | JsBigInt n \<Rightarrow> if 0 \<le> n then Some (nat n) else None)"

text \<open>The digits of a hex string in lower case, without their leading zeros.\<close>

definition zstrip :: "string \<Rightarrow> string" where
  "zstrip ds = dropWhile (\<lambda>c. c = CHR ''0'') (map toLowerChar ds)"

text \<open>The canonical form of a hex string with the digits \<open>ds\<close>.\<close>

definition canonical :: "string \<Rightarrow> string" where
  "canonical ds = (if zstrip ds = [] then ''0x0'' else ''0x'' @ zstrip ds)"

text \<open>
  \<^verbatim>\<open>extractPotentialValuesFromTrace\<close>, the earlier extraction. Modelled from the spec: the
  declaration of \<^verbatim>\<open>TraceValue\<close> (\<^verbatim>\<open>lib/types\<close>) is not among the sources; a value has the
  fields the extraction writes, and carries where it came from. The trace is either the slim
  object with the unique stack values or the array of steps, each an opcode with its stack;
  the transaction data are \<^verbatim>\<open>from\<close>, \<^verbatim>\<open>to\<close> and \<^verbatim>\<open>data\<close>.
\<close>

record TraceValue =
  tvalue :: JsValue
  source :: string
  position :: "nat option"
  operation :: string

record TxData =
  tx_from :: "Hex option"
  tx_to :: "Hex option"
  tx_data :: "Hex option"

datatype LegacyTrace = TraceObject "string list option" | TraceSteps "(string \<times> string list) list"

text \<open>\<^verbatim>\<open>n.toString()\<close> of an integer, in decimal.\<close>

fun toString10 :: "nat \<Rightarrow> string" where
  "toString10 n =
     (if n < 10 then [char_of (48 + n)] else toString10 (n div 10) @ [char_of (48 + n mod 10)])"

declare toString10.simps [simp del]

definition intToString :: "int \<Rightarrow> string" where
  "intToString i = (if i < 0 then ''-'' @ toString10 (nat (- i)) else toString10 (nat i))"

definition addressValue :: "Hex option \<Rightarrow> nat \<Rightarrow> string \<Rightarrow> TraceValue list" where
  "addressValue a pos op =
     (case a of
        None \<Rightarrow> []
      | Some v \<Rightarrow> if v = [] then []
                  else [\<lparr>tvalue = JsString v, source = ''address'', position = Some pos, operation = op\<rparr>])"

definition constantValue :: "nat \<Rightarrow> TraceValue" where
  "constantValue i =
     \<lparr>tvalue = JsNumber (int i), source = ''constant'', position = Some i, operation = ''CONST''\<rparr>"

definition constantValues :: "TraceValue list" where
  "constantValues = map constantValue [0..<10]"

text \<open>The values of the \<open>i\<close>-th 64-character piece of the calldata after the selector: the
  piece itself, the address it may hold, and the number it spells when
  \<^verbatim>\<open>BigInt\<close> accepts it and it is below \<open>2 ^ 128\<close>.\<close>

definition paramValues :: "Hex \<Rightarrow> nat \<Rightarrow> TraceValue list" where
  "paramValues d i =
     (let param = take 64 (drop (10 + i * 64) d) in
      [\<lparr>tvalue = JsString param, source = ''argument'', position = Some i, operation = ''ARG''\<rparr>] @
      (if startsWith param ''0x000000000000000000000000''
       then [\<lparr>tvalue = JsString (''0x'' @ drop 26 param), source = ''argument'', position = Some i,
               operation = ''ADDRESS_ARG''\<rparr>]
       else []) @
      (case BigInt param of
         Inl e \<Rightarrow> []
       | Inr numValue \<Rightarrow>
           if numValue < 2 ^ 128
           then [\<lparr>tvalue = JsBigInt numValue, source = ''argument'', position = Some i,
                   operation = ''NUMBER_ARG''\<rparr>]
           else []))"

text \<open>The loop runs while \<open>i < (length - 10) / 64\<close>, a division of reals: once for every
  started piece.\<close>

definition argumentValues :: "Hex option \<Rightarrow> TraceValue list" where
  "argumentValues dat =
     (case dat of
        None \<Rightarrow> []
      | Some d \<Rightarrow>
          if d \<noteq> [] \<and> length d \<ge> 10
          then concat (map (paramValues d) [0..<(length d - 10 + 63) div 64])
          else [])"

text \<open>A stack value is kept when it spells a number below \<open>2 ^ 128\<close>, and also when
  \<^verbatim>\<open>BigInt\<close> refuses it.\<close>

definition stackValue :: "string \<Rightarrow> string \<Rightarrow> TraceValue list" where
  "stackValue op sv =
     (let v = \<lparr>tvalue = JsString sv, source = ''stack'', position = None, operation = op\<rparr> in
      case BigInt sv of
        Inl e \<Rightarrow> [v]
      | Inr numValue \<Rightarrow> if numValue < 2 ^ 128 then [v] else [])"

definition stackValues :: "LegacyTrace \<Rightarrow> TraceValue list" where
  "stackValues trace =
     (case trace of
        TraceObject None \<Rightarrow> []
      | TraceObject (Some vs) \<Rightarrow> concat (map (stackValue ''STACK'') vs)
      | TraceSteps steps \<Rightarrow>
          concat (map (\<lambda>(op, stack). if length stack > 0 then concat (map (stackValue op) stack)
                                      else []) steps))"

text \<open>The deduplication of the earlier extraction: the key is the value, its source and its
  operation joined by \<^verbatim>\<open>::\<close>, and a later value replaces an earlier one of the same key.\<close>

text \<open>A number is written in decimal, as \<^verbatim>\<open>String\<close> writes every integer below \<open>10 ^ 21\<close>;
  the extraction makes no other number than the constants.\<close>

definition valueKey :: "TraceValue \<Rightarrow> string" where
  "valueKey v =
     (case tvalue v of JsString s \<Rightarrow> s | JsNumber n \<Rightarrow> intToString n | JsBigInt n \<Rightarrow> intToString n)
     @ ''::'' @ source v @ ''::'' @ operation v"

definition extractPotentialValuesFromTrace :: "LegacyTrace \<Rightarrow> TxData \<Rightarrow> TraceValue list" where
  "extractPotentialValuesFromTrace trace txd =
     (let values = addressValue (tx_from txd) 0 ''FROM'' @ addressValue (tx_to txd) 1 ''TO'' @
                   constantValues @ argumentValues (tx_data txd) @ stackValues trace;
          uniqueMap = foldl (\<lambda>m v. AList.update (valueKey v) v m) [] values
      in map snd uniqueMap)"

section \<open>Hex strings and bytes\<close>

lemma of_char_hexDigit:
  "n < 16 \<Longrightarrow> (of_char (hexDigit n) :: nat) = (if n < 10 then 48 + n else 87 + n)"
  by (simp add: hexDigit_def)

lemma charCodeToBase16_hexDigit: "n < 16 \<Longrightarrow> charCodeToBase16 (hexDigit n) = Some n"
  by (simp add: charCodeToBase16_def of_char_hexDigit Let_def)

lemma isHexDigit_hexDigit: "n < 16 \<Longrightarrow> isHexDigit (hexDigit n)"
  by (auto simp add: isHexDigit_def of_char_hexDigit Let_def)

lemma byte_nibbles: "unat (b :: byte) div 16 < 16" "unat b mod 16 < 16"
proof -
  have "unat b < 256" using unsigned_less [of b] by simp
  then show "unat b div 16 < 16" by simp
  show "unat b mod 16 < 16" by simp
qed

lemma byte_of_nibbles: "(of_nat (unat (b :: byte) div 16 * 16 + unat b mod 16) :: byte) = b"
  by simp

lemma hexPairs_hexes:
  "hexPairs (hexes b @ cs) = (case hexPairs cs of Inl e \<Rightarrow> Inl e | Inr bs \<Rightarrow> Inr (b # bs))"
  by (simp add: hexes_def charCodeToBase16_hexDigit byte_nibbles byte_of_nibbles
      del: of_nat_add of_nat_mult split: sum.splits)

lemma hexPairs_concat: "hexPairs (concat (map hexes bs)) = Inr bs"
  by (induction bs) (simp_all add: hexPairs_hexes)

lemma length_concat_hexes: "length (concat (map hexes bs)) = 2 * length bs"
  by (induction bs) (simp_all add: hexes_def)

lemma list_all_hexes: "list_all isHexDigit (concat (map hexes bs))"
  by (induction bs) (simp_all add: hexes_def isHexDigit_hexDigit byte_nibbles)

lemma isHex_bytesToHex: "isHex (bytesToHex bs)"
  by (simp add: isHex_def bytesToHex_def startsWith_def list_all_hexes)

lemma hexToBytes_bytesToHex: "hexToBytes (bytesToHex bs) = Inr bs"
  by (simp add: hexToBytes_def bytesToHex_def length_concat_hexes hexPairs_concat)

lemma str_replace_bytesToHex: "str_replace (bytesToHex bs) ''0x'' '''' = concat (map hexes bs)"
  by (simp add: bytesToHex_def startsWith_def)

lemma bytesToHex_append:
  "''0x'' @ concat (map hexes ks) @ concat (map hexes bs) = bytesToHex (ks @ bs)"
  by (simp add: bytesToHex_def)

lemma keccak256_bytesToHex: "keccak256 K (bytesToHex bs) = Inr (bytesToHex (K bs))"
  by (simp add: keccak256_def toBytes_def isHex_bytesToHex hexToBytes_bytesToHex)

section \<open>The mapping slot\<close>

lemma computeMappingSlot_bytes:
  "computeMappingSlot K (bytesToHex b) \<lparr>hex = bytesToHex k, decoded = d, type = t\<rparr>
     = Inr (bytesToHex (K (k @ b)))"
  by (simp only: computeMappingSlot_def MappingKey.simps str_replace_bytesToHex
      bytesToHex_append keccak256_bytesToHex)

text \<open>
  Claim C1. For every 32-byte base slot \<open>b\<close> and every 32-byte key \<open>k\<close>, both given in
  their hex form, \<open>computeMappingSlot\<close> returns the hex form of the Keccak hash of the 64
  bytes \<open>k\<close> followed by \<open>b\<close>: the key comes first.
\<close>

theorem computeMappingSlot_keccak:
  assumes "length k = 32" and "length b = 32"
  shows "computeMappingSlot K (bytesToHex b) \<lparr>hex = bytesToHex k, decoded = d, type = t\<rparr>
           = Inr (bytesToHex (K (k @ b)))"
  by (rule computeMappingSlot_bytes)

theorem computeMappingSlot_keccak_witness:
  "length (replicate 32 (0x11 :: byte)) = 32 \<and> length (replicate 32 (0 :: byte)) = 32 \<and>
   computeMappingSlot keccak_256 (bytesToHex (replicate 32 0))
       \<lparr>hex = bytesToHex (replicate 32 0x11), decoded = None, type = Some ''uint256''\<rparr>
     = Inr (bytesToHex (keccak_256 (replicate 32 0x11 @ replicate 32 0)))"
  using computeMappingSlot_keccak [of "replicate 32 0x11" "replicate 32 0" keccak_256 None "Some ''uint256''"]
  by simp

lemma isHexDigit_base16: "isHexDigit c \<Longrightarrow> \<exists>n. charCodeToBase16 c = Some n"
  by (auto simp add: isHexDigit_def charCodeToBase16_def Let_def)

lemma hexPairs_total:
  "list_all isHexDigit s \<Longrightarrow> even (length s) \<Longrightarrow> \<exists>bs. hexPairs s = Inr bs"
proof (induction s rule: induct_list012)
  case 1
  then show ?case by simp
next
  case (2 c)
  then show ?case by simp
next
  case (3 l r cs)
  from 3 obtain nl nr where "charCodeToBase16 l = Some nl" "charCodeToBase16 r = Some nr"
    using isHexDigit_base16 by fastforce
  moreover from 3 obtain bs where "hexPairs cs = Inr bs" by auto
  ultimately show ?case by simp
qed

lemma hexToBytes_total: "isHex v \<Longrightarrow> \<exists>bs. hexToBytes v = Inr bs"
  unfolding hexToBytes_def Let_def isHex_def
  by (rule hexPairs_total) (auto simp: isHexDigit_def)

lemma keccak256_total: "\<exists>h. keccak256 K v = Inr h"
proof (cases "isHex v")
  case True
  then obtain bs where "hexToBytes v = Inr bs" using hexToBytes_total by blast
  with True show ?thesis by (simp add: keccak256_def toBytes_def)
next
  case False
  then show ?thesis by (simp add: keccak256_def toBytes_def)
qed

lemma computeMappingSlot_total: "\<exists>h. computeMappingSlot K b k = Inr h"
  by (simp add: computeMappingSlot_def keccak256_total)

lemma foldl_mappingStep_Inl: "foldl (mappingStep K) (Inl e) ks = Inl e"
  by (induction ks) (simp_all add: mappingStep_def)

lemma nestedLoop_foldl: "nestedLoop K s ks = foldl (mappingStep K) (Inr s) ks"
proof (induction ks arbitrary: s)
  case Nil
  then show ?case by simp
next
  case (Cons key ks)
  show ?case
  proof (cases "computeMappingSlot K s key")
    case (Inl e)
    then have "mappingStep K (Inr s) key = Inl e" by (simp add: mappingStep_def)
    with Inl show ?thesis by (simp add: foldl_mappingStep_Inl)
  next
    case (Inr s')
    then have "mappingStep K (Inr s) key = Inr s'" by (simp add: mappingStep_def)
    with Inr show ?thesis by (simp add: Cons.IH)
  qed
qed

lemma nestedLoop_total: "\<exists>h. nestedLoop K s ks = Inr h"
proof (induction ks arbitrary: s)
  case Nil
  then show ?case by simp
next
  case (Cons key ks)
  obtain s' where "computeMappingSlot K s key = Inr s'" using computeMappingSlot_total by blast
  then show ?case using Cons.IH [of s'] by simp
qed

text \<open>
  Claim C2. \<open>computeNestedMappingSlot\<close> is the left fold of the single-level mapping slot over
  the keys, first key first; on the empty list of keys it returns the base slot unchanged;
  and it always returns a slot.
\<close>

theorem computeNestedMappingSlot_foldl:
  "computeNestedMappingSlot K baseSlot ks = foldl (mappingStep K) (Inr baseSlot) ks
   \<and> computeNestedMappingSlot K baseSlot [] = Inr baseSlot
   \<and> (\<exists>s. computeNestedMappingSlot K baseSlot ks = Inr s)"
proof (intro conjI)
  show "computeNestedMappingSlot K baseSlot ks = foldl (mappingStep K) (Inr baseSlot) ks"
    by (cases ks) (simp_all add: computeNestedMappingSlot_def nestedLoop_foldl del: nestedLoop.simps)
  show "computeNestedMappingSlot K baseSlot [] = Inr baseSlot"
    by (simp add: computeNestedMappingSlot_def)
  show "\<exists>s. computeNestedMappingSlot K baseSlot ks = Inr s"
    using nestedLoop_total [of K baseSlot ks] by (simp add: computeNestedMappingSlot_def)
qed

section \<open>Evaluating Keccak-256\<close>

text \<open>The steps of a round on a state written out as 25 lanes, for evaluation by rewriting.\<close>

lemma upt_5: "[0..<5] = [0, 1, 2, 3, 4]"
  by (simp add: upt_rec)

lemma upt_8: "[0..<8] = [0, 1, 2, 3, 4, 5, 6, 7]"
  by (simp add: upt_rec)

lemma upt_25:
  "[0..<25] = [0, 1, 2, 3, 4, 5, 6, 7, 8, 9, 10, 11, 12, 13, 14, 15, 16, 17, 18, 19, 20, 21, 22, 23, 24]"
  by (simp add: upt_rec)

lemma theta_unroll:
  "theta [a0, a1, a2, a3, a4, a5, a6, a7, a8, a9, a10, a11, a12,
     a13, a14, a15, a16, a17, a18, a19, a20, a21, a22, a23, a24] =
    [a0 XOR ((a4 XOR a9 XOR a14 XOR a19 XOR a24) XOR rotl64 (a1 XOR a6 XOR a11 XOR a16 XOR a21) 1),
     a1 XOR ((a0 XOR a5 XOR a10 XOR a15 XOR a20) XOR rotl64 (a2 XOR a7 XOR a12 XOR a17 XOR a22) 1),
     a2 XOR ((a1 XOR a6 XOR a11 XOR a16 XOR a21) XOR rotl64 (a3 XOR a8 XOR a13 XOR a18 XOR a23) 1),
     a3 XOR ((a2 XOR a7 XOR a12 XOR a17 XOR a22) XOR rotl64 (a4 XOR a9 XOR a14 XOR a19 XOR a24) 1),
     a4 XOR ((a3 XOR a8 XOR a13 XOR a18 XOR a23) XOR rotl64 (a0 XOR a5 XOR a10 XOR a15 XOR a20) 1),
     a5 XOR ((a4 XOR a9 XOR a14 XOR a19 XOR a24) XOR rotl64 (a1 XOR a6 XOR a11 XOR a16 XOR a21) 1),
     a6 XOR ((a0 XOR a5 XOR a10 XOR a15 XOR a20) XOR rotl64 (a2 XOR a7 XOR a12 XOR a17 XOR a22) 1),
     a7 XOR ((a1 XOR a6 XOR a11 XOR a16 XOR a21) XOR rotl64 (a3 XOR a8 XOR a13 XOR a18 XOR a23) 1),
     a8 XOR ((a2 XOR a7 XOR a12 XOR a17 XOR a22) XOR rotl64 (a4 XOR a9 XOR a14 XOR a19 XOR a24) 1),
     a9 XOR ((a3 XOR a8 XOR a13 XOR a18 XOR a23) XOR rotl64 (a0 XOR a5 XOR a10 XOR a15 XOR a20) 1),
     a10 XOR ((a4 XOR a9 XOR a14 XOR a19 XOR a24) XOR rotl64 (a1 XOR a6 XOR a11 XOR a16 XOR a21) 1),
     a11 XOR ((a0 XOR a5 XOR a10 XOR a15 XOR a20) XOR rotl64 (a2 XOR a7 XOR a12 XOR a17 XOR a22) 1),
     a12 XOR ((a1 XOR a6 XOR a11 XOR a16 XOR a21) XOR rotl64 (a3 XOR a8 XOR a13 XOR a18 XOR a23) 1),
     a13 XOR ((a2 XOR a7 XOR a12 XOR a17 XOR a22) XOR rotl64 (a4 XOR a9 XOR a14 XOR a19 XOR a24) 1),
     a14 XOR ((a3 XOR a8 XOR a13 XOR a18 XOR a23) XOR rotl64 (a0 XOR a5 XOR a10 XOR a15 XOR a20) 1),
     a15 XOR ((a4 XOR a9 XOR a14 XOR a19 XOR a24) XOR rotl64 (a1 XOR a6 XOR a11 XOR a16 XOR a21) 1),
     a16 XOR ((a0 XOR a5 XOR a10 XOR a15 XOR a20) XOR rotl64 (a2 XOR a7 XOR a12 XOR a17 XOR a22) 1),
     a17 XOR ((a1 XOR a6 XOR a11 XOR a16 XOR a21) XOR rotl64 (a3 XOR a8 XOR a13 XOR a18 XOR a23) 1),
     a18 XOR ((a2 XOR a7 XOR a12 XOR a17 XOR a22) XOR rotl64 (a4 XOR a9 XOR a14 XOR a19 XOR a24) 1),
     a19 XOR ((a3 XOR a8 XOR a13 XOR a18 XOR a23) XOR rotl64 (a0 XOR a5 XOR a10 XOR a15 XOR a20) 1),
     a20 XOR ((a4 XOR a9 XOR a14 XOR a19 XOR a24) XOR rotl64 (a1 XOR a6 XOR a11 XOR a16 XOR a21) 1),
     a21 XOR ((a0 XOR a5 XOR a10 XOR a15 XOR a20) XOR rotl64 (a2 XOR a7 XOR a12 XOR a17 XOR a22) 1),
     a22 XOR ((a1 XOR a6 XOR a11 XOR a16 XOR a21) XOR rotl64 (a3 XOR a8 XOR a13 XOR a18 XOR a23) 1),
     a23 XOR ((a2 XOR a7 XOR a12 XOR a17 XOR a22) XOR rotl64 (a4 XOR a9 XOR a14 XOR a19 XOR a24) 1),
     a24 XOR ((a3 XOR a8 XOR a13 XOR a18 XOR a23) XOR rotl64 (a0 XOR a5 XOR a10 XOR a15 XOR a20) 1)]"
  by (simp add: theta_def upt_5 upt_25 Let_def)

lemma rho_pi_unroll:
  "rho_pi [a0, a1, a2, a3, a4, a5, a6, a7, a8, a9, a10, a11, a12,
     a13, a14, a15, a16, a17, a18, a19, a20, a21, a22, a23, a24] =
    [rotl64 a0 0, rotl64 a6 44, rotl64 a12 43, rotl64 a18 21, rotl64 a24 14,
     rotl64 a3 28, rotl64 a9 20, rotl64 a10 3, rotl64 a16 45, rotl64 a22 61,
     rotl64 a1 1, rotl64 a7 6, rotl64 a13 25, rotl64 a19 8, rotl64 a20 18,
     rotl64 a4 27, rotl64 a5 36, rotl64 a11 10, rotl64 a17 15, rotl64 a23 56,
     rotl64 a2 62, rotl64 a8 55, rotl64 a14 39, rotl64 a15 41, rotl64 a21 2]"
  by (simp add: rho_pi_def upt_25 Let_def keccak_rot_def)

lemma chi_unroll:
  "chi [a0, a1, a2, a3, a4, a5, a6, a7, a8, a9, a10, a11, a12,
     a13, a14, a15, a16, a17, a18, a19, a20, a21, a22, a23, a24] =
    [a0 XOR (NOT a1 AND a2),
     a1 XOR (NOT a2 AND a3),
     a2 XOR (NOT a3 AND a4),
     a3 XOR (NOT a4 AND a0),
     a4 XOR (NOT a0 AND a1),
     a5 XOR (NOT a6 AND a7),
     a6 XOR (NOT a7 AND a8),
     a7 XOR (NOT a8 AND a9),
     a8 XOR (NOT a9 AND a5),
     a9 XOR (NOT a5 AND a6),
     a10 XOR (NOT a11 AND a12),
     a11 XOR (NOT a12 AND a13),
     a12 XOR (NOT a13 AND a14),
     a13 XOR (NOT a14 AND a10),
     a14 XOR (NOT a10 AND a11),
     a15 XOR (NOT a16 AND a17),
     a16 XOR (NOT a17 AND a18),
     a17 XOR (NOT a18 AND a19),
     a18 XOR (NOT a19 AND a15),
     a19 XOR (NOT a15 AND a16),
     a20 XOR (NOT a21 AND a22),
     a21 XOR (NOT a22 AND a23),
     a22 XOR (NOT a23 AND a24),
     a23 XOR (NOT a24 AND a20),
     a24 XOR (NOT a20 AND a21)]"
  by (simp add: chi_def upt_25 Let_def)

lemma iota_unroll: "iota rc (a # as) = (a XOR rc) # as"
  by (simp add: iota_def)

lemmas keccak_round_eval =
  keccak_round_def theta_unroll rho_pi_unroll chi_unroll iota_unroll rotl64_def

text \<open>The 24 rounds on the block of the 32 zero bytes, one lemma a round.\<close>

lemma zero_slot_round_1:
  "keccak_round
    [0x0000000000000000, 0x0000000000000000, 0x0000000000000000, 0x0000000000000000,
     0x0000000000000001, 0x0000000000000000, 0x0000000000000000, 0x0000000000000000,
     0x0000000000000000, 0x0000000000000000, 0x0000000000000000, 0x0000000000000000,
     0x0000000000000000, 0x0000000000000000, 0x0000000000000000, 0x0000000000000000,
     0x8000000000000000, 0x0000000000000000, 0x0000000000000000, 0x0000000000000000,
     0x0000000000000000, 0x0000000000000000, 0x0000000000000000, 0x0000000000000000,
     0x0000000000000000] 0x0000000000000001 =
    [0x0000040000000001, 0x0000000000400000, 0x0000040000000000, 0x0000000000400000,
     0x0000000000000000, 0x0000000020000000, 0x0000100000000000, 0x1000000000000000,
     0x0000100020000000, 0x1000000000000000, 0x0000000004000000, 0x0000000000000020,
     0x0000000004000000, 0x0000000000000000, 0x0000000000000020, 0x0000000008000000,
     0x0000000000004000, 0x0200000000000000, 0x0000000008004000, 0x0200000000000000,
     0x2000000000000000, 0x0100000000000000, 0x0000000000000000, 0x2000000000000000,
     0x0100000000000000]"
  by (simp add: keccak_round_eval)

lemma zero_slot_round_2:
  "keccak_round
    [0x0000040000000001, 0x0000000000400000, 0x0000040000000000, 0x0000000000400000,
     0x0000000000000000, 0x0000000020000000, 0x0000100000000000, 0x1000000000000000,
     0x0000100020000000, 0x1000000000000000, 0x0000000004000000, 0x0000000000000020,
     0x0000000004000000, 0x0000000000000000, 0x0000000000000020, 0x0000000008000000,
     0x0000000000004000, 0x0200000000000000, 0x0000000008004000, 0x0200000000000000,
     0x2000000000000000, 0x0100000000000000, 0x0000000000000000, 0x2000000000000000,
     0x0100000000000000] 0x0000000000008082 =
    [0x1701260800800045, 0x8000904009C68240, 0x00011E1811801AE6, 0x9101A00808868021,
     0x06000C5011409A40, 0x0844000427400340, 0x8007248401A70481, 0x882106002E1C1B04,
     0x0844208400C004C0, 0x882302000A3F1805, 0x08001800C8C8000A, 0x401C006470300A76,
     0x8008020281E8C408, 0x0818187008400260, 0xC00C021631B0CC14, 0x03B20290130084D0,
     0x10082E6170122182, 0x4024009400048410, 0x1B822A6073102140, 0x481C040500060002,
     0x10601C30143C3030, 0x211AC00800520001, 0x34202130900C003C, 0x0140CD2204703019,
     0x341A300A90020004]"
  by (simp add: keccak_round_eval)

lemma zero_slot_round_3:
  "keccak_round
    [0x1701260800800045, 0x8000904009C68240, 0x00011E1811801AE6, 0x9101A00808868021,
     0x06000C5011409A40, 0x0844000427400340, 0x8007248401A70481, 0x882106002E1C1B04,
     0x0844208400C004C0, 0x882302000A3F1805, 0x08001800C8C8000A, 0x401C006470300A76,
     0x8008020281E8C408, 0x0818187008400260, 0xC00C021631B0CC14, 0x03B20290130084D0,
     0x10082E6170122182, 0x4024009400048410, 0x1B822A6073102140, 0x481C040500060002,
     0x10601C30143C3030, 0x211AC00800520001, 0x34202130900C003C, 0x0140CD2204703019,
     0x341A300A90020004] 0x800000000000808A =
    [0x470AE3E2D26024D9, 0xBA8F378287350FD2, 0x602E2FB1873D3B1B, 0x2DA5BD4F05686FDC,
     0xF3BF49CF7B15E6AE, 0x54B2E9058997FE3E, 0xCC5AC20EEE06B132, 0xE99E6EDB11C8A1EA,
     0x978838DCFF33D63B, 0xA00AE29AAEFA1156, 0xC3989FAD7A15E0C2, 0x80B04F7339FE6033,
     0xF8234CEE8027CD82, 0x152BE68663F868CA, 0x438E9B02901D0157, 0xB8ECFB1044258B96,
     0x4801579184FA5CF0, 0x6C57DF91FCED5E17, 0x5E32B27C336A9219, 0x33183A6B8C87CE85,
     0xD21FAEEB77C54E9B, 0x5429CBB3D5AD125C, 0x79CC09619EFE3843, 0x59A87F2E3E99B163,
     0x73564E76525040EF]"
  by (simp add: keccak_round_eval)

lemma zero_slot_round_4:
  "keccak_round
    [0x470AE3E2D26024D9, 0xBA8F378287350FD2, 0x602E2FB1873D3B1B, 0x2DA5BD4F05686FDC,
     0xF3BF49CF7B15E6AE, 0x54B2E9058997FE3E, 0xCC5AC20EEE06B132, 0xE99E6EDB11C8A1EA,
     0x978838DCFF33D63B, 0xA00AE29AAEFA1156, 0xC3989FAD7A15E0C2, 0x80B04F7339FE6033,
     0xF8234CEE8027CD82, 0x152BE68663F868CA, 0x438E9B02901D0157, 0xB8ECFB1044258B96,
     0x4801579184FA5CF0, 0x6C57DF91FCED5E17, 0x5E32B27C336A9219, 0x33183A6B8C87CE85,
     0xD21FAEEB77C54E9B, 0x5429CBB3D5AD125C, 0x79CC09619EFE3843, 0x59A87F2E3E99B163,
     0x73564E76525040EF] 0x8000000080008000 =
    [0xC6EF7A00FAC078E3, 0x70E167C9CD476B4C, 0xAD9A529BB89DC4CB, 0xB00F3E385ED34E7C,
     0x7854F968D23F6A83, 0xC4722AF91EBC7A28, 0x9BF3AFE1B117DB31, 0x1BF9BAC902ED67D2,
     0xDC1AF7C96C3D5987, 0x63D6CE66B7FB2886, 0xD4D846A63A69B403, 0x9B902A622CB54E10,
     0x52285610C7A6CB6A, 0x23854E9E73A8A7C7, 0xB66A9F1C5E111156, 0x96DE8C55BB5573BF,
     0x0A7B20AF01DCA741, 0xC4F8AB0D31E947A9, 0xC2A3EFBA1563CA97, 0xC6BD2A24CBF61E31,
     0xD2D09DB2AB819062, 0x0088E5059BFB1C23, 0xB40E0F4FE2C82FD0, 0x0FF7582844E442AA,
     0x9287D7ADACE870E1]"
  by (simp add: keccak_round_eval)

lemma zero_slot_round_5:
  "keccak_round
    [0xC6EF7A00FAC078E3, 0x70E167C9CD476B4C, 0xAD9A529BB89DC4CB, 0xB00F3E385ED34E7C,
     0x7854F968D23F6A83, 0xC4722AF91EBC7A28, 0x9BF3AFE1B117DB31, 0x1BF9BAC902ED67D2,
     0xDC1AF7C96C3D5987, 0x63D6CE66B7FB2886, 0xD4D846A63A69B403, 0x9B902A622CB54E10,
     0x52285610C7A6CB6A, 0x23854E9E73A8A7C7, 0xB66A9F1C5E111156, 0x96DE8C55BB5573BF,
     0x0A7B20AF01DCA741, 0xC4F8AB0D31E947A9, 0xC2A3EFBA1563CA97, 0xC6BD2A24CBF61E31,
     0xD2D09DB2AB819062, 0x0088E5059BFB1C23, 0xB40E0F4FE2C82FD0, 0x0FF7582844E442AA,
     0x9287D7ADACE870E1] 0x000000000000808B =
    [0xFCCF4138B38F1EB1, 0x48E3521C1A91242B, 0x1DFB394640221953, 0x505760463059B501,
     0x7A285A6EF0F2CD34, 0x25DB67330C416C40, 0x2EABBB83E88E9A47, 0x4E742EE538211DF7,
     0x1AC9347C5E22BAFE, 0x835E61A203BD1354, 0xC7602BE1285974FF, 0xAF2B1CBC4A50B599,
     0x406990819EFA5D7D, 0x6F158886958C1B79, 0x1FBE9F22DCFBFC82, 0xA2B8C36726BC76B5,
     0x0DB45A5C0531973D, 0x85076C576E6D40BB, 0xF618EC50F9F2EF86, 0xFA6CF6F18E508D31,
     0x5C98FB2854B73C19, 0x51D5C094BE91B895, 0x6326A4C83E016863, 0x2590C037898A4695,
     0xEFA25A730859A68E]"
  by (simp add: keccak_round_eval)

lemma zero_slot_round_6:
  "keccak_round
    [0xFCCF4138B38F1EB1, 0x48E3521C1A91242B, 0x1DFB394640221953, 0x505760463059B501,
     0x7A285A6EF0F2CD34, 0x25DB67330C416C40, 0x2EABBB83E88E9A47, 0x4E742EE538211DF7,
     0x1AC9347C5E22BAFE, 0x835E61A203BD1354, 0xC7602BE1285974FF, 0xAF2B1CBC4A50B599,
     0x406990819EFA5D7D, 0x6F158886958C1B79, 0x1FBE9F22DCFBFC82, 0xA2B8C36726BC76B5,
     0x0DB45A5C0531973D, 0x85076C576E6D40BB, 0xF618EC50F9F2EF86, 0xFA6CF6F18E508D31,
     0x5C98FB2854B73C19, 0x51D5C094BE91B895, 0x6326A4C83E016863, 0x2590C037898A4695,
     0xEFA25A730859A68E] 0x0000000080000001 =
    [0x75DD8F0AFD0E7706, 0xA5CDE067961DC425, 0x406809C140F5E850, 0x630687319AF4F363,
     0xF27AB26EA0863642, 0x7D48AF37B5A96372, 0xA70430A2B64B0E6F, 0xF35387CE309F8E8A,
     0xEB2888E4EE3190A0, 0x216075D2CD1C3AEF, 0x86F33135A6E608B6, 0xDF650F455550E00D,
     0xF4E24CE096AFAB8F, 0xC35D714AE7A8E0D8, 0xEA43E51BE7EEB621, 0x315B2E4F3200FC0E,
     0x1326EE2BCA19149A, 0xC8EBC99AC864E3B7, 0xA185990EAFE6E40B, 0x2D168BBF9EF765B5,
     0x5D5785C697B6888B, 0x3A0607D6F87444FD, 0x667D201C0216198E, 0xAF6CA23171093A19,
     0xCA3DA919D0D53EB5]"
  by (simp add: keccak_round_eval)

lemma zero_slot_round_7:
  "keccak_round
    [0x75DD8F0AFD0E7706, 0xA5CDE067961DC425, 0x406809C140F5E850, 0x630687319AF4F363,
     0xF27AB26EA0863642, 0x7D48AF37B5A96372, 0xA70430A2B64B0E6F, 0xF35387CE309F8E8A,
     0xEB2888E4EE3190A0, 0x216075D2CD1C3AEF, 0x86F33135A6E608B6, 0xDF650F455550E00D,
     0xF4E24CE096AFAB8F, 0xC35D714AE7A8E0D8, 0xEA43E51BE7EEB621, 0x315B2E4F3200FC0E,
     0x1326EE2BCA19149A, 0xC8EBC99AC864E3B7, 0xA185990EAFE6E40B, 0x2D168BBF9EF765B5,
     0x5D5785C697B6888B, 0x3A0607D6F87444FD, 0x667D201C0216198E, 0xAF6CA23171093A19,
     0xCA3DA919D0D53EB5] 0x8000000080008081 =
    [0xC1E707F1E58E0258, 0x6C0F0AFF059F1FCD, 0xA1336C76B78EB85E, 0x0C105ED39CDCA5D5,
     0x8666DAA0648DCAD8, 0x3B246805624A33CC, 0x5501770376D512F4, 0x0DF2DDF358B0CBFA,
     0x3286C42B006FDBD0, 0xC739A4AE2F5F3B07, 0x6A7358694A25C5E3, 0x23F6A5BFBCD3BD2B,
     0xE4C304B33F3C64E7, 0x53BB156593E836AC, 0xB47BD048410B82F7, 0x66DF45D5260BEF26,
     0x4AC4E9F4326CACCE, 0x03241C976D8F4FF8, 0xB9569A53B1CA77B9, 0xFCFAEDA9DBF10307,
     0x0EF4BF1B276C4214, 0x6A1D45D9A7A035D3, 0xEB15FBA60F5ADD92, 0x85E787246687EAE1,
     0x4BC0EED76BB41C2E]"
  by (simp add: keccak_round_eval)

lemma zero_slot_round_8:
  "keccak_round
    [0xC1E707F1E58E0258, 0x6C0F0AFF059F1FCD, 0xA1336C76B78EB85E, 0x0C105ED39CDCA5D5,
     0x8666DAA0648DCAD8, 0x3B246805624A33CC, 0x5501770376D512F4, 0x0DF2DDF358B0CBFA,
     0x3286C42B006FDBD0, 0xC739A4AE2F5F3B07, 0x6A7358694A25C5E3, 0x23F6A5BFBCD3BD2B,
     0xE4C304B33F3C64E7, 0x53BB156593E836AC, 0xB47BD048410B82F7, 0x66DF45D5260BEF26,
     0x4AC4E9F4326CACCE, 0x03241C976D8F4FF8, 0xB9569A53B1CA77B9, 0xFCFAEDA9DBF10307,
     0x0EF4BF1B276C4214, 0x6A1D45D9A7A035D3, 0xEB15FBA60F5ADD92, 0x85E787246687EAE1,
     0x4BC0EED76BB41C2E] 0x8000000000008009 =
    [0x549B1335F1B0BE4E, 0x8490AADEC1B654EF, 0x9E3059E4562C5662, 0x42B784B1337BAF17,
     0xF9A2A6619E90FB62, 0x74FB37A5C28863AA, 0xD0B5F650D7D67922, 0xA1784D6AAC3F9765,
     0xAE4914CB7214B768, 0x64457513B9F253EF, 0xADECCB945581B3AD, 0x6BE6F224531250A1,
     0x8CB00FB61EE7E899, 0x51E5A69CE2246448, 0xF9FFB541523EA6E3, 0x411FBD2A390E4EFF,
     0xC7449E98D380D704, 0xE7122453FB99D6CD, 0x079A579BE79CCB1E, 0x4C61A99F9421F8B7,
     0xCE7A4DFB17718C2C, 0x0E8B744728E3A013, 0x08F2469E50499B87, 0xFFA83FC2435866F8,
     0x7A01B21012A7DB54]"
  by (simp add: keccak_round_eval)

lemma zero_slot_round_9:
  "keccak_round
    [0x549B1335F1B0BE4E, 0x8490AADEC1B654EF, 0x9E3059E4562C5662, 0x42B784B1337BAF17,
     0xF9A2A6619E90FB62, 0x74FB37A5C28863AA, 0xD0B5F650D7D67922, 0xA1784D6AAC3F9765,
     0xAE4914CB7214B768, 0x64457513B9F253EF, 0xADECCB945581B3AD, 0x6BE6F224531250A1,
     0x8CB00FB61EE7E899, 0x51E5A69CE2246448, 0xF9FFB541523EA6E3, 0x411FBD2A390E4EFF,
     0xC7449E98D380D704, 0xE7122453FB99D6CD, 0x079A579BE79CCB1E, 0x4C61A99F9421F8B7,
     0xCE7A4DFB17718C2C, 0x0E8B744728E3A013, 0x08F2469E50499B87, 0xFFA83FC2435866F8,
     0x7A01B21012A7DB54] 0x000000000000008A =
    [0xA0F1E76348598AD4, 0x2120E6BE49ACF215, 0x5E0A07A63355EDDB, 0xE8D367DCB01F6F5A,
     0xB5C161ADD54A3EBF, 0x45BFB91FD8E9E47B, 0x0264F6AC9CB2EBE0, 0x94F0E65EC3E450F2,
     0xC76CE7BEADD1F081, 0xCED5D1F29C2AEDCB, 0x5C82ED722F6073F2, 0xD3E59A476E6FEF33,
     0x40A70893D95B9A2A, 0x86C807C20950719C, 0xE39F722395564C6F, 0x883CD18E6D888E7B,
     0xD581AC4526B42F86, 0xEC7B2EA230B7CF1D, 0xEEECB64B8E8A4B84, 0x61066CBDCEDFE95D,
     0xF48FAB2F79CA97CC, 0xB3C358695F7D9349, 0x0F17635D834D2EE0, 0xC47E83E6FED85005,
     0xD26A3123FB925486]"
  by (simp add: keccak_round_eval)

lemma zero_slot_round_10:
  "keccak_round
    [0xA0F1E76348598AD4, 0x2120E6BE49ACF215, 0x5E0A07A63355EDDB, 0xE8D367DCB01F6F5A,
     0xB5C161ADD54A3EBF, 0x45BFB91FD8E9E47B, 0x0264F6AC9CB2EBE0, 0x94F0E65EC3E450F2,
     0xC76CE7BEADD1F081, 0xCED5D1F29C2AEDCB, 0x5C82ED722F6073F2, 0xD3E59A476E6FEF33,
     0x40A70893D95B9A2A, 0x86C807C20950719C, 0xE39F722395564C6F, 0x883CD18E6D888E7B,
     0xD581AC4526B42F86, 0xEC7B2EA230B7CF1D, 0xEEECB64B8E8A4B84, 0x61066CBDCEDFE95D,
     0xF48FAB2F79CA97CC, 0xB3C358695F7D9349, 0x0F17635D834D2EE0, 0xC47E83E6FED85005,
     0xD26A3123FB925486] 0x0000000000000088 =
    [0x670092FA5CC73A0C, 0x342FE846802AA074, 0xD5D9448AD8B2F20B, 0x019849F91B080A46,
     0x1433131B2905F6EC, 0x0A9B9DD84F30DEC8, 0x2AC8F460B90C2ADF, 0xD619943E4B5BA9C6,
     0xB8DA0893A9FA3920, 0x93C78F06C181B1DB, 0x6CF8ACF4683ED63E, 0x6E738D6A03795FC1,
     0x06337DE5451AEDAA, 0x504D678C1F157A6C, 0x32FF5406953FC33A, 0x5F7F135625F6CD17,
     0x5425B28C3FA98843, 0x85F107D7F12A9741, 0x1E658BCE770C7EAD, 0x7BFAA898AFBF1E3B,
     0xF3C8B1304E143355, 0xFFDD88364EB69DB9, 0xCE561CD642B1F9AF, 0x66F1D55C77602C02,
     0x9F4B2BB132DAE1D6]"
  by (simp add: keccak_round_eval)

lemma zero_slot_round_11:
  "keccak_round
    [0x670092FA5CC73A0C, 0x342FE846802AA074, 0xD5D9448AD8B2F20B, 0x019849F91B080A46,
     0x1433131B2905F6EC, 0x0A9B9DD84F30DEC8, 0x2AC8F460B90C2ADF, 0xD619943E4B5BA9C6,
     0xB8DA0893A9FA3920, 0x93C78F06C181B1DB, 0x6CF8ACF4683ED63E, 0x6E738D6A03795FC1,
     0x06337DE5451AEDAA, 0x504D678C1F157A6C, 0x32FF5406953FC33A, 0x5F7F135625F6CD17,
     0x5425B28C3FA98843, 0x85F107D7F12A9741, 0x1E658BCE770C7EAD, 0x7BFAA898AFBF1E3B,
     0xF3C8B1304E143355, 0xFFDD88364EB69DB9, 0xCE561CD642B1F9AF, 0x66F1D55C77602C02,
     0x9F4B2BB132DAE1D6] 0x0000000080008009 =
    [0x80E30064AAB89044, 0x7A5F21B36D1F2E2A, 0x60D28B32C97747E0, 0xFF38FB2E1E862834,
     0x713D3E5AC9C7936C, 0xD724C2503DC3E62C, 0x6304E9783807074D, 0xDC9D0100D30506B8,
     0x37816EABCF709ABA, 0x86C18D7A2A68F88D, 0x69A10804BD89E338, 0x1873C456E3D3A27B,
     0x455FE3A74F3ACA81, 0xC1D686A2F23D46A1, 0x27EA217D640656ED, 0x542760C1C6F1AE5C,
     0x12965006EFCC02E2, 0x7A0A6A27451B2D7E, 0x9A407ABEB66D3D95, 0xC95BD1EB70DBA420,
     0x4A60C58D56280970, 0x36E5F5144B0E87A8, 0x5920E7F627370944, 0x530FEE151A171197,
     0x0E09AC8A50351644]"
  by (simp add: keccak_round_eval)

lemma zero_slot_round_12:
  "keccak_round
    [0x80E30064AAB89044, 0x7A5F21B36D1F2E2A, 0x60D28B32C97747E0, 0xFF38FB2E1E862834,
     0x713D3E5AC9C7936C, 0xD724C2503DC3E62C, 0x6304E9783807074D, 0xDC9D0100D30506B8,
     0x37816EABCF709ABA, 0x86C18D7A2A68F88D, 0x69A10804BD89E338, 0x1873C456E3D3A27B,
     0x455FE3A74F3ACA81, 0xC1D686A2F23D46A1, 0x27EA217D640656ED, 0x542760C1C6F1AE5C,
     0x12965006EFCC02E2, 0x7A0A6A27451B2D7E, 0x9A407ABEB66D3D95, 0xC95BD1EB70DBA420,
     0x4A60C58D56280970, 0x36E5F5144B0E87A8, 0x5920E7F627370944, 0x530FEE151A171197,
     0x0E09AC8A50351644] 0x000000008000000A =
    [0x5C10BC4483EC039A, 0x46F6FFA4902C9AA6, 0x6EA26D260009AB80, 0x1079E4D39584DE68,
     0xFFD0A9C5AEA4AFD4, 0x94767891C2DB39D1, 0x0D97083C4D9C2A39, 0x9091E915F7E23769,
     0xCD9BA1482E4E4F75, 0x7F0E4848004BF4C5, 0xC20104C757FA4502, 0x6161F7B783FE195E,
     0xF920EC9B66AAC17D, 0x218896822D32746B, 0xC757B4C6E2D47611, 0x6D1981298D82FB29,
     0x8B377AA8A5F70AA3, 0x1D299018E77D1210, 0x3F48A5110E31EC91, 0x24C1E2540816F8A2,
     0x41660F38B5237E31, 0xCCEBB92A62DA8F15, 0x727157D3923E2C0B, 0x3949307AA9BD90BA,
     0x0E44DB8035EBA9CA]"
  by (simp add: keccak_round_eval)

lemma zero_slot_round_13:
  "keccak_round
    [0x5C10BC4483EC039A, 0x46F6FFA4902C9AA6, 0x6EA26D260009AB80, 0x1079E4D39584DE68,
     0xFFD0A9C5AEA4AFD4, 0x94767891C2DB39D1, 0x0D97083C4D9C2A39, 0x9091E915F7E23769,
     0xCD9BA1482E4E4F75, 0x7F0E4848004BF4C5, 0xC20104C757FA4502, 0x6161F7B783FE195E,
     0xF920EC9B66AAC17D, 0x218896822D32746B, 0xC757B4C6E2D47611, 0x6D1981298D82FB29,
     0x8B377AA8A5F70AA3, 0x1D299018E77D1210, 0x3F48A5110E31EC91, 0x24C1E2540816F8A2,
     0x41660F38B5237E31, 0xCCEBB92A62DA8F15, 0x727157D3923E2C0B, 0x3949307AA9BD90BA,
     0x0E44DB8035EBA9CA] 0x000000008000808B =
    [0xEC2DD78014FCB3D7, 0x28775B5F294EA9AD, 0x86818B105512D8EC, 0x4301766EB931A262,
     0xC12F3E20B00EE6A4, 0x6D0184435E71A10A, 0x619E59CE9BA01509, 0xBCA51818E7E10A2B,
     0xE6FD0BF73F4DA153, 0xFFA9393BCCBA9209, 0xF8E7B61C8DACD952, 0x66C19722889A2150,
     0xBF96A156296D358C, 0xFA3826253F955D02, 0x95FBD98E78DDFF4F, 0x2C1446950ACC199A,
     0x5991D71BAA573558, 0xBB9EDD9279107755, 0xE5B8CA6ADE2E0A85, 0xF42A8B24039F174B,
     0x956A1B8BFAC3F456, 0x140DECECD25462F2, 0x548D5730843D5927, 0x11D757B6B4F5FF8E,
     0xE98743DA12DEC940]"
  by (simp add: keccak_round_eval)

lemma zero_slot_round_14:
  "keccak_round
    [0xEC2DD78014FCB3D7, 0x28775B5F294EA9AD, 0x86818B105512D8EC, 0x4301766EB931A262,
     0xC12F3E20B00EE6A4, 0x6D0184435E71A10A, 0x619E59CE9BA01509, 0xBCA51818E7E10A2B,
     0xE6FD0BF73F4DA153, 0xFFA9393BCCBA9209, 0xF8E7B61C8DACD952, 0x66C19722889A2150,
     0xBF96A156296D358C, 0xFA3826253F955D02, 0x95FBD98E78DDFF4F, 0x2C1446950ACC199A,
     0x5991D71BAA573558, 0xBB9EDD9279107755, 0xE5B8CA6ADE2E0A85, 0xF42A8B24039F174B,
     0x956A1B8BFAC3F456, 0x140DECECD25462F2, 0x548D5730843D5927, 0x11D757B6B4F5FF8E,
     0xE98743DA12DEC940] 0x800000000000008B =
    [0x7AD88572A12BFA68, 0x9A01C6EA88EF371E, 0xC8413E13AE1D3EBB, 0xCA82CDAE89FC5529,
     0xFD0D29E803BBF4CD, 0x5D3DCEB024508E00, 0x6D9F15435BE95C9B, 0x56F721CAEF59709C,
     0x937D0984E3844C07, 0xACAFDFF1F728A839, 0x75636CF2A714497C, 0xB196A5C0DCE505B8,
     0x1B67C47FD5F57865, 0xD03EC673D3F0D4EE, 0x452D2F108CEE1B4F, 0x14736802DB0E798E,
     0xD9E587F1DA24A83E, 0xDD6C7D89C615954D, 0xEFE2CE8936BA2F7C, 0x8F12D332BC78949D,
     0xEDD4AA757D463132, 0xDAC178EFACB11E75, 0xD9C0791F3DD0246A, 0xFFA1B69E1618ED06,
     0x17CCC35E22CE9D4D]"
  by (simp add: keccak_round_eval)

lemma zero_slot_round_15:
  "keccak_round
    [0x7AD88572A12BFA68, 0x9A01C6EA88EF371E, 0xC8413E13AE1D3EBB, 0xCA82CDAE89FC5529,
     0xFD0D29E803BBF4CD, 0x5D3DCEB024508E00, 0x6D9F15435BE95C9B, 0x56F721CAEF59709C,
     0x937D0984E3844C07, 0xACAFDFF1F728A839, 0x75636CF2A714497C, 0xB196A5C0DCE505B8,
     0x1B67C47FD5F57865, 0xD03EC673D3F0D4EE, 0x452D2F108CEE1B4F, 0x14736802DB0E798E,
     0xD9E587F1DA24A83E, 0xDD6C7D89C615954D, 0xEFE2CE8936BA2F7C, 0x8F12D332BC78949D,
     0xEDD4AA757D463132, 0xDAC178EFACB11E75, 0xD9C0791F3DD0246A, 0xFFA1B69E1618ED06,
     0x17CCC35E22CE9D4D] 0x8000000000008089 =
    [0x71506DD39C052882, 0x307F0440D4E40312, 0xAD5E57827BED9CF5, 0x4E429917B8CAC77C,
     0x5EC86CEEDE8BF613, 0x5AE87FE0A5A4411C, 0xB32460C6AF2C76E2, 0xBEC9BB559DD1B3BB,
     0x186B4A66EABB501D, 0x94FB009AE6DC6A8F, 0x67971E0D045098ED, 0xF4D6DA081A8DD188,
     0x147A211C9A144826, 0xF365E9359C7066CA, 0xD7B9A5A3247AC871, 0x7C0E6E893D3C4889,
     0x076748F6B3554231, 0x87BDA778E96BC635, 0x48A1469BB92551AB, 0xB7077F8FE7F5E9C4,
     0x2AE0D2BB3900B6EA, 0xCA855182BE80A03B, 0x491F5F467ED76CCF, 0x729C42F8D76579B8,
     0x1C698E23DF5D9558]"
  by (simp add: keccak_round_eval)

lemma zero_slot_round_16:
  "keccak_round
    [0x71506DD39C052882, 0x307F0440D4E40312, 0xAD5E57827BED9CF5, 0x4E429917B8CAC77C,
     0x5EC86CEEDE8BF613, 0x5AE87FE0A5A4411C, 0xB32460C6AF2C76E2, 0xBEC9BB559DD1B3BB,
     0x186B4A66EABB501D, 0x94FB009AE6DC6A8F, 0x67971E0D045098ED, 0xF4D6DA081A8DD188,
     0x147A211C9A144826, 0xF365E9359C7066CA, 0xD7B9A5A3247AC871, 0x7C0E6E893D3C4889,
     0x076748F6B3554231, 0x87BDA778E96BC635, 0x48A1469BB92551AB, 0xB7077F8FE7F5E9C4,
     0x2AE0D2BB3900B6EA, 0xCA855182BE80A03B, 0x491F5F467ED76CCF, 0x729C42F8D76579B8,
     0x1C698E23DF5D9558] 0x8000000000008003 =
    [0x02AB165C65E545B5, 0xCC2F20CFBBBA945C, 0xB9ED2C87BB756496, 0x706B6F25FA5D04D0,
     0xF80362820EA23DAE, 0x448549A5D0245E89, 0xF8D3C19AC131E8A7, 0xAC510C0FA7B173C4,
     0x7AC594C786C66776, 0x33E040C46B0B332D, 0x1C247A9D722F6F1F, 0x0018182C7891B60B,
     0x6CAFDF77377E663A, 0x95211D7E1A2E501C, 0x15CB12B4496B236E, 0xAC6B26DC7FA7A094,
     0x9A7E18A595B986FD, 0xE597A6D247720F96, 0x3E4E62341D1B018A, 0xC9C243067B65FD85,
     0xCAF563B5D0A65664, 0x95067D47F8A61366, 0xD8A5F43FA47D1E43, 0xB3CCF974FE5D07C5,
     0x3F603D976390D0BB]"
  by (simp add: keccak_round_eval)

lemma zero_slot_round_17:
  "keccak_round
    [0x02AB165C65E545B5, 0xCC2F20CFBBBA945C, 0xB9ED2C87BB756496, 0x706B6F25FA5D04D0,
     0xF80362820EA23DAE, 0x448549A5D0245E89, 0xF8D3C19AC131E8A7, 0xAC510C0FA7B173C4,
     0x7AC594C786C66776, 0x33E040C46B0B332D, 0x1C247A9D722F6F1F, 0x0018182C7891B60B,
     0x6CAFDF77377E663A, 0x95211D7E1A2E501C, 0x15CB12B4496B236E, 0xAC6B26DC7FA7A094,
     0x9A7E18A595B986FD, 0xE597A6D247720F96, 0x3E4E62341D1B018A, 0xC9C243067B65FD85,
     0xCAF563B5D0A65664, 0x95067D47F8A61366, 0xD8A5F43FA47D1E43, 0xB3CCF974FE5D07C5,
     0x3F603D976390D0BB] 0x8000000000008002 =
    [0x7D1D7A108F98F3A6, 0x5EB2C4C45D9E66E9, 0xEA959E7A65D8BA8D, 0x611F980C95E585CA,
     0x62B4C92F7819151A, 0x19306A587647E56F, 0x502173E113A4A95A, 0x5CFC1C665894C88A,
     0x9DA281C922158D20, 0x98E7E243B9B3CD48, 0xF1D515CC8F7F87FB, 0x5750CB7D945C07CE,
     0x4575C022AF022941, 0x478ED5AF4DB47C40, 0x578A205FF106051C, 0x3ED4626BAC0D362A,
     0x61EE09093F6A9A0B, 0x228EFA04738288B5, 0xC0A811EFD10ACD90, 0x5FACF148B33C4F67,
     0x6892D44401A12509, 0x2283D91209330CA2, 0x20C982A7735BF91A, 0x5CA7E1A6C3C3872A,
     0x916035AE8C9F49BE]"
  by (simp add: keccak_round_eval)

lemma zero_slot_round_18:
  "keccak_round
    [0x7D1D7A108F98F3A6, 0x5EB2C4C45D9E66E9, 0xEA959E7A65D8BA8D, 0x611F980C95E585CA,
     0x62B4C92F7819151A, 0x19306A587647E56F, 0x502173E113A4A95A, 0x5CFC1C665894C88A,
     0x9DA281C922158D20, 0x98E7E243B9B3CD48, 0xF1D515CC8F7F87FB, 0x5750CB7D945C07CE,
     0x4575C022AF022941, 0x478ED5AF4DB47C40, 0x578A205FF106051C, 0x3ED4626BAC0D362A,
     0x61EE09093F6A9A0B, 0x228EFA04738288B5, 0xC0A811EFD10ACD90, 0x5FACF148B33C4F67,
     0x6892D44401A12509, 0x2283D91209330CA2, 0x20C982A7735BF91A, 0x5CA7E1A6C3C3872A,
     0x916035AE8C9F49BE] 0x8000000000000080 =
    [0xB341C5CF5849B518, 0xE4EB97509909D5DE, 0x78E9AC0DCCA030D9, 0xBB4AF90A0AF66A87,
     0x1F1EB6925FF54608, 0x9D16D5005522F7D7, 0x926F5A736E33BA63, 0xFAEED632E07BCD71,
     0x38AD391C4DD318AB, 0xCCEBC8AB4B5ED355, 0xCE7465EB45F80237, 0xC69A1CB5CC6E9F9C,
     0x31D33AC30A6957E1, 0x1E8E3845EB5454E9, 0x0CD9435124DA66E9, 0xB923E9D046578DC3,
     0x04683756F3AF5A8E, 0x885C65ADFB0F71CB, 0x07140F6A9B301FAC, 0xEF23C34020C71B32,
     0xE79A44761697F749, 0x4375411267152CA8, 0xCF13C3F121B898D7, 0x9930AA453BD270E8,
     0x1E69570BB5076500]"
  by (simp add: keccak_round_eval)

lemma zero_slot_round_19:
  "keccak_round
    [0xB341C5CF5849B518, 0xE4EB97509909D5DE, 0x78E9AC0DCCA030D9, 0xBB4AF90A0AF66A87,
     0x1F1EB6925FF54608, 0x9D16D5005522F7D7, 0x926F5A736E33BA63, 0xFAEED632E07BCD71,
     0x38AD391C4DD318AB, 0xCCEBC8AB4B5ED355, 0xCE7465EB45F80237, 0xC69A1CB5CC6E9F9C,
     0x31D33AC30A6957E1, 0x1E8E3845EB5454E9, 0x0CD9435124DA66E9, 0xB923E9D046578DC3,
     0x04683756F3AF5A8E, 0x885C65ADFB0F71CB, 0x07140F6A9B301FAC, 0xEF23C34020C71B32,
     0xE79A44761697F749, 0x4375411267152CA8, 0xCF13C3F121B898D7, 0x9930AA453BD270E8,
     0x1E69570BB5076500] 0x000000000000800A =
    [0x7934214BF321F19A, 0xD1CB24948A7BA8F4, 0x044F460651375DE5, 0x60858BC9DE91CCC6,
     0xEE976E5892C31062, 0xEB510A6CFD95D01E, 0xC17596AEE3498B3C, 0x73BD0AEEAE080C70,
     0x44C2EA5C2543663A, 0x43F72F4970E4389A, 0x6685252EB3A97216, 0xC6F5DE113EF45B82,
     0xC478E7F8686D3877, 0x3F233C1ED2861690, 0x12B171FCD75692EE, 0x5B1E9BCB6B8734D3,
     0xD4A543A6F51110C8, 0xDD1598ACDC05964C, 0xFE4DA722F3643E35, 0x15D0023A36FCBC00,
     0x24F9AE70DE988D7B, 0x79586D8479F573D0, 0x76CC85BD49F7D408, 0x5604B8FB4696A54B,
     0x0A6102C03C571344]"
  by (simp add: keccak_round_eval)

lemma zero_slot_round_20:
  "keccak_round
    [0x7934214BF321F19A, 0xD1CB24948A7BA8F4, 0x044F460651375DE5, 0x60858BC9DE91CCC6,
     0xEE976E5892C31062, 0xEB510A6CFD95D01E, 0xC17596AEE3498B3C, 0x73BD0AEEAE080C70,
     0x44C2EA5C2543663A, 0x43F72F4970E4389A, 0x6685252EB3A97216, 0xC6F5DE113EF45B82,
     0xC478E7F8686D3877, 0x3F233C1ED2861690, 0x12B171FCD75692EE, 0x5B1E9BCB6B8734D3,
     0xD4A543A6F51110C8, 0xDD1598ACDC05964C, 0xFE4DA722F3643E35, 0x15D0023A36FCBC00,
     0x24F9AE70DE988D7B, 0x79586D8479F573D0, 0x76CC85BD49F7D408, 0x5604B8FB4696A54B,
     0x0A6102C03C571344] 0x800000008000000A =
    [0xA630950F5BB5D276, 0x93F56FAE1AC5B56E, 0x972426F4B9028440, 0x03B1DF45A463CBE2,
     0x1CB98E9D3C08C750, 0x623855DD13A1E7DE, 0xD64C80DC9DDE3D4B, 0x040C8953C4CBAF24,
     0x77AF997CE0029ADA, 0x68A38842992D382E, 0xB7DAC265283B0B00, 0x04531803409647FB,
     0x6B9F742F86FFE990, 0x6731AEFB5B0D47B0, 0x69F04C88ABB18F0F, 0x66F3875C305DB3AB,
     0xE9BF25BAE5DFC68F, 0x16280484CFB9D375, 0x9FF11F25CBD9C027, 0x4802AFED11B9C6A0,
     0xE458246B6CD40628, 0x9C80229E1DF1B173, 0xF370641A1BA24536, 0xB6264A32085FDFE0,
     0x1366E045C3F71308]"
  by (simp add: keccak_round_eval)

lemma zero_slot_round_21:
  "keccak_round
    [0xA630950F5BB5D276, 0x93F56FAE1AC5B56E, 0x972426F4B9028440, 0x03B1DF45A463CBE2,
     0x1CB98E9D3C08C750, 0x623855DD13A1E7DE, 0xD64C80DC9DDE3D4B, 0x040C8953C4CBAF24,
     0x77AF997CE0029ADA, 0x68A38842992D382E, 0xB7DAC265283B0B00, 0x04531803409647FB,
     0x6B9F742F86FFE990, 0x6731AEFB5B0D47B0, 0x69F04C88ABB18F0F, 0x66F3875C305DB3AB,
     0xE9BF25BAE5DFC68F, 0x16280484CFB9D375, 0x9FF11F25CBD9C027, 0x4802AFED11B9C6A0,
     0xE458246B6CD40628, 0x9C80229E1DF1B173, 0xF370641A1BA24536, 0xB6264A32085FDFE0,
     0x1366E045C3F71308] 0x8000000080008081 =
    [0x4B1C704B22A0076E, 0x987269E485766FA3, 0x443D70D1DCFA9A8E, 0x719AC8711C69E575,
     0x6744981006533ACB, 0x45A78C4A7520D292, 0x51738CC1512B0A87, 0xC5BBA018DC8ED9FD,
     0xFDBC64615646D2EE, 0x7E1ADD5C91F1B5F4, 0x973C70A5B09DAE7A, 0x4240BB54BB115E91,
     0x21312FB22BE9815B, 0xBB5578B4AEF9BA90, 0x4CFBB67741D76DF6, 0x90F1E64B6E2160B2,
     0x03422452C5BB080F, 0x773C6D916A8CBF7B, 0x47740EE738C5BB84, 0xE624D5CE4A44CFC9,
     0x35882A8ABA9D693A, 0x6F77CA17CABF5C62, 0x535B9B90ADEB625F, 0xA5CC4791AF0D1001,
     0x92E850DDBC144899]"
  by (simp add: keccak_round_eval)

lemma zero_slot_round_22:
  "keccak_round
    [0x4B1C704B22A0076E, 0x987269E485766FA3, 0x443D70D1DCFA9A8E, 0x719AC8711C69E575,
     0x6744981006533ACB, 0x45A78C4A7520D292, 0x51738CC1512B0A87, 0xC5BBA018DC8ED9FD,
     0xFDBC64615646D2EE, 0x7E1ADD5C91F1B5F4, 0x973C70A5B09DAE7A, 0x4240BB54BB115E91,
     0x21312FB22BE9815B, 0xBB5578B4AEF9BA90, 0x4CFBB67741D76DF6, 0x90F1E64B6E2160B2,
     0x03422452C5BB080F, 0x773C6D916A8CBF7B, 0x47740EE738C5BB84, 0xE624D5CE4A44CFC9,
     0x35882A8ABA9D693A, 0x6F77CA17CABF5C62, 0x535B9B90ADEB625F, 0xA5CC4791AF0D1001,
     0x92E850DDBC144899] 0x8000000000008080 =
    [0x2D889727C215398E, 0xF4CB0AC3BFB53126, 0x6F5D937C95A3D44E, 0x5D3E8AA437451E9D,
     0x93106A523F62CD06, 0x7AAEB63C3A7902D6, 0x0C485A1678F567B0, 0xC697372A80630A91,
     0x708B97D734D04739, 0x47B74AC34177C81B, 0x725C66219E066670, 0x55C2A614BEBB9E62,
     0xDC25BA7C18B88F1B, 0x1B98C0168A095C03, 0xF72BE8B56CF3E022, 0x62316F87DE59857C,
     0xD9566D92ECECA48A, 0x77C419C7A14AB9DC, 0xB390C73C0A871DC7, 0x26254E8A9B239D45,
     0x47F59EE014A32ABA, 0x403DDBCE245D7B16, 0x85D5F070665DF76A, 0xABA4A83EB7E3B91F,
     0x40AE231C22F410D4]"
  by (simp add: keccak_round_eval)

lemma zero_slot_round_23:
  "keccak_round
    [0x2D889727C215398E, 0xF4CB0AC3BFB53126, 0x6F5D937C95A3D44E, 0x5D3E8AA437451E9D,
     0x93106A523F62CD06, 0x7AAEB63C3A7902D6, 0x0C485A1678F567B0, 0xC697372A80630A91,
     0x708B97D734D04739, 0x47B74AC34177C81B, 0x725C66219E066670, 0x55C2A614BEBB9E62,
     0xDC25BA7C18B88F1B, 0x1B98C0168A095C03, 0xF72BE8B56CF3E022, 0x62316F87DE59857C,
     0xD9566D92ECECA48A, 0x77C419C7A14AB9DC, 0xB390C73C0A871DC7, 0x26254E8A9B239D45,
     0x47F59EE014A32ABA, 0x403DDBCE245D7B16, 0x85D5F070665DF76A, 0xABA4A83EB7E3B91F,
     0x40AE231C22F410D4] 0x0000000080000001 =
    [0x049FFE2FCF7005F1, 0xDAB9206AA9318424, 0x99B46F20E4F96DD0, 0x7819717E7797E82F,
     0x055013DBE51ADBF9, 0x72BC98090115F327, 0x44F2E068C90017BD, 0x68D39546EC594439,
     0x0F143FC9A69EB9B4, 0x9CFBD864BD5ED847, 0xAB38A66B47DFE84B, 0xA214888496C6E5EB,
     0x740B292D5B2CDA6B, 0x5780D5B4F63FB648, 0xE9232C0D8311AB3A, 0x70AC5C57ADE32184,
     0xA5C67E655DFD21DB, 0x26D98B1FD543457B, 0xDCDBB4B1DFE50E6E, 0x3CE657949433E42C,
     0x15916D23F34D3076, 0xE33AB90757D066EB, 0x912A4ACC17D3F4D0, 0xF98721D547963C2D,
     0xB7D49AB474DE92F5]"
  by (simp add: keccak_round_eval)

lemma zero_slot_round_24:
  "keccak_round
    [0x049FFE2FCF7005F1, 0xDAB9206AA9318424, 0x99B46F20E4F96DD0, 0x7819717E7797E82F,
     0x055013DBE51ADBF9, 0x72BC98090115F327, 0x44F2E068C90017BD, 0x68D39546EC594439,
     0x0F143FC9A69EB9B4, 0x9CFBD864BD5ED847, 0xAB38A66B47DFE84B, 0xA214888496C6E5EB,
     0x740B292D5B2CDA6B, 0x5780D5B4F63FB648, 0xE9232C0D8311AB3A, 0x70AC5C57ADE32184,
     0xA5C67E655DFD21DB, 0x26D98B1FD543457B, 0xDCDBB4B1DFE50E6E, 0x3CE657949433E42C,
     0x15916D23F34D3076, 0xE33AB90757D066EB, 0x912A4ACC17D3F4D0, 0xF98721D547963C2D,
     0xB7D49AB474DE92F5] 0x8000000080008008 =
    [0xA8628B54D9EC0D29, 0xC86F3888A94503D6, 0xF608404895BCA64B, 0x63E5F30E16932F36,
     0xDC2019E6746CB250, 0x013BB9EFD5CF03E8, 0x565A852AE1CB8779, 0x662DA9A00C2AEC51,
     0x14464F58DC029732, 0x1A05392CD2B0D9C5, 0x0F63CC448D3A5F12, 0x1E1A9B5FC83CB68F,
     0x1160E19395B4DB94, 0x74B8A845D62D714B, 0x1160D61D30B9ED75, 0x7FC1B88D9A276F2E,
     0x3D9CF5E7821E772C, 0x825675E9A99A09FE, 0x4C99BB08FD8AAFD0, 0xBF282B042DB96BC2,
     0x963D7F409CEA39A4, 0x526FFF8C9AB269B5, 0x1EB13ECC56C1ABC9, 0xDD1EF1FCF2DA107B,
     0xF9C9B482A9F3F75B]"
  by (simp add: keccak_round_eval)

lemma zero_slot_keccak_f:
  "keccak_f
    [0x0000000000000000, 0x0000000000000000, 0x0000000000000000, 0x0000000000000000,
     0x0000000000000001, 0x0000000000000000, 0x0000000000000000, 0x0000000000000000,
     0x0000000000000000, 0x0000000000000000, 0x0000000000000000, 0x0000000000000000,
     0x0000000000000000, 0x0000000000000000, 0x0000000000000000, 0x0000000000000000,
     0x8000000000000000, 0x0000000000000000, 0x0000000000000000, 0x0000000000000000,
     0x0000000000000000, 0x0000000000000000, 0x0000000000000000, 0x0000000000000000,
     0x0000000000000000] =
    [0xA8628B54D9EC0D29, 0xC86F3888A94503D6, 0xF608404895BCA64B, 0x63E5F30E16932F36,
     0xDC2019E6746CB250, 0x013BB9EFD5CF03E8, 0x565A852AE1CB8779, 0x662DA9A00C2AEC51,
     0x14464F58DC029732, 0x1A05392CD2B0D9C5, 0x0F63CC448D3A5F12, 0x1E1A9B5FC83CB68F,
     0x1160E19395B4DB94, 0x74B8A845D62D714B, 0x1160D61D30B9ED75, 0x7FC1B88D9A276F2E,
     0x3D9CF5E7821E772C, 0x825675E9A99A09FE, 0x4C99BB08FD8AAFD0, 0xBF282B042DB96BC2,
     0x963D7F409CEA39A4, 0x526FFF8C9AB269B5, 0x1EB13ECC56C1ABC9, 0xDD1EF1FCF2DA107B,
     0xF9C9B482A9F3F75B]"
  unfolding keccak_f_def keccak_rc_def foldl.simps
  by (simp only: zero_slot_round_1 zero_slot_round_2 zero_slot_round_3 zero_slot_round_4 zero_slot_round_5 zero_slot_round_6 zero_slot_round_7 zero_slot_round_8 zero_slot_round_9 zero_slot_round_10 zero_slot_round_11 zero_slot_round_12 zero_slot_round_13 zero_slot_round_14 zero_slot_round_15 zero_slot_round_16 zero_slot_round_17 zero_slot_round_18 zero_slot_round_19 zero_slot_round_20 zero_slot_round_21 zero_slot_round_22 zero_slot_round_23 zero_slot_round_24)


text \<open>The digest of the 32 zero bytes, the hex form of slot 0.\<close>

lemma replicate_unroll: "replicate (numeral k) x = x # replicate (pred_numeral k) x"
  by (simp add: numeral_eq_Suc)

lemma zero_slot_pad:
  "pad101 (replicate 32 0) =
    [0, 0, 0, 0, 0, 0, 0, 0, 0, 0, 0, 0, 0, 0, 0, 0, 0, 0, 0, 0, 0, 0, 0, 0, 0, 0, 0, 0, 0, 0, 0, 0, 1, 0,
     0, 0, 0, 0, 0, 0, 0, 0, 0, 0, 0, 0, 0, 0, 0, 0, 0, 0, 0, 0, 0, 0, 0, 0, 0, 0, 0, 0, 0, 0, 0, 0, 0, 0,
     0, 0, 0, 0, 0, 0, 0, 0, 0, 0, 0, 0, 0, 0, 0, 0, 0, 0, 0, 0, 0, 0, 0, 0, 0, 0, 0, 0, 0, 0, 0, 0, 0, 0,
     0, 0, 0, 0, 0, 0, 0, 0, 0, 0, 0, 0, 0, 0, 0, 0, 0, 0, 0, 0, 0, 0, 0, 0, 0, 0, 0, 0, 0, 0, 0, 0, 0, 0x80]"
  by (simp add: pad101_def replicate_unroll)

lemma chunks_whole: "0 < n \<Longrightarrow> xs \<noteq> [] \<Longrightarrow> length xs \<le> n \<Longrightarrow> chunks n xs = [xs]"
  by (cases xs) simp_all

lemma chunks_8:
  "chunks 8 (a # b # c # d # e # f # g # h # r) = [a, b, c, d, e, f, g, h] # chunks 8 r"
  by simp

lemma zero_slot_lanes:
  "map2 (XOR) (replicate 25 0) (map lane_of_bytes (chunks 8
    [0, 0, 0, 0, 0, 0, 0, 0, 0, 0, 0, 0, 0, 0, 0, 0, 0, 0, 0, 0, 0, 0, 0, 0, 0, 0, 0, 0, 0, 0, 0, 0, 1, 0,
     0, 0, 0, 0, 0, 0, 0, 0, 0, 0, 0, 0, 0, 0, 0, 0, 0, 0, 0, 0, 0, 0, 0, 0, 0, 0, 0, 0, 0, 0, 0, 0, 0, 0,
     0, 0, 0, 0, 0, 0, 0, 0, 0, 0, 0, 0, 0, 0, 0, 0, 0, 0, 0, 0, 0, 0, 0, 0, 0, 0, 0, 0, 0, 0, 0, 0, 0, 0,
     0, 0, 0, 0, 0, 0, 0, 0, 0, 0, 0, 0, 0, 0, 0, 0, 0, 0, 0, 0, 0, 0, 0, 0, 0, 0, 0, 0, 0, 0, 0, 0, 0, 0x80]) @ replicate 8 0) =
    [0x0000000000000000, 0x0000000000000000, 0x0000000000000000, 0x0000000000000000,
     0x0000000000000001, 0x0000000000000000, 0x0000000000000000, 0x0000000000000000,
     0x0000000000000000, 0x0000000000000000, 0x0000000000000000, 0x0000000000000000,
     0x0000000000000000, 0x0000000000000000, 0x0000000000000000, 0x0000000000000000,
     0x8000000000000000, 0x0000000000000000, 0x0000000000000000, 0x0000000000000000,
     0x0000000000000000, 0x0000000000000000, 0x0000000000000000, 0x0000000000000000,
     0x0000000000000000]"
proof -
  have r: "replicate 25 (0 :: lane) = [0, 0, 0, 0, 0, 0, 0, 0, 0, 0, 0, 0, 0, 0, 0, 0, 0, 0, 0, 0, 0, 0, 0, 0, 0]"
    "replicate 8 (0 :: lane) = [0, 0, 0, 0, 0, 0, 0, 0]"
    by (simp_all add: replicate_unroll)
  show ?thesis
    unfolding r by (simp add: chunks_8 del: chunks.simps(2))
qed

lemma keccak_256_zero_slot:
  "keccak_256 (replicate 32 0) =
    [0x29, 0x0D, 0xEC, 0xD9, 0x54, 0x8B, 0x62, 0xA8, 0xD6, 0x03, 0x45, 0xA9, 0x88, 0x38, 0x6F, 0xC8,
     0x4B, 0xA6, 0xBC, 0x95, 0x48, 0x40, 0x08, 0xF6, 0x36, 0x2F, 0x93, 0x16, 0x0E, 0xF3, 0xE5, 0x63]"
  unfolding keccak_256_def zero_slot_pad
  by (simp add: chunks_whole absorb_def zero_slot_lanes zero_slot_keccak_f bytes_of_lane_def upt_8
      del: chunks.simps(2))

section \<open>The resolver\<close>

lemma map_of_slotToInfoAdd:
  "map_of (slotToInfoAdd m d) s =
     (if slot (snd d) = s then Some (setAdd (case map_of m s of None \<Rightarrow> [] | Some x \<Rightarrow> x) d)
      else map_of m s)"
  by (simp add: slotToInfoAdd_def Let_def update_conv' split: option.splits)

lemma map_of_slotToInfo:
  "map_of (foldl slotToInfoAdd m ds) s =
     (if map_of m s = None \<and> filter (\<lambda>d. slot (snd d) = s) ds = [] then None
      else Some (foldl setAdd (case map_of m s of None \<Rightarrow> [] | Some x \<Rightarrow> x)
                   (filter (\<lambda>d. slot (snd d) = s) ds)))"
proof (induction ds arbitrary: m)
  case Nil
  then show ?case by (simp split: option.splits)
next
  case (Cons d ds)
  show ?case
    by (simp add: Cons.IH map_of_slotToInfoAdd)
qed

lemma setAdd_nonempty: "setAdd xs x \<noteq> []"
  by (auto simp add: setAdd_def)

lemma foldl_setAdd_nonempty: "xs \<noteq> [] \<Longrightarrow> foldl setAdd xs ys \<noteq> []"
  by (induction ys arbitrary: xs) (simp_all add: setAdd_nonempty)

lemma fromSet_nonempty: "xs \<noteq> [] \<Longrightarrow> fromSet xs \<noteq> []"
  by (cases xs) (simp_all add: fromSet_def foldl_setAdd_nonempty setAdd_nonempty)

lemma filter_directAt:
  "filter (\<lambda>d. slot (snd d) = s) (filter (\<lambda>item. \<not> isComputed (snd item)) storageLayout)
     = directAt s storageLayout"
  by (simp add: directAt_def)

lemma slotToInfo_direct:
  "map_of (foldl slotToInfoAdd [] (filter (\<lambda>item. \<not> isComputed (snd item)) storageLayout)) s =
     (if directAt s storageLayout = [] then None else Some (fromSet (directAt s storageLayout)))"
  by (simp only: map_of_slotToInfo filter_directAt fromSet_def) simp

lemma findLayoutInfoAtSlot_direct:
  assumes "directAt s storageLayout \<noteq> []"
  shows "findLayoutInfoAtSlot K s storageLayout potentialKeys =
           Inr (map (\<lambda>match. directResult s (snd match))
                  (sort_key offsetOrZero (fromSet (directAt s storageLayout))))"
proof -
  from assms have ne: "storageLayout \<noteq> []" by (auto simp: directAt_def)
  have "sort_key offsetOrZero (fromSet (directAt s storageLayout)) \<noteq> []"
    using fromSet_nonempty [OF assms] by (metis length_sort list.size(3) length_0_conv)
  with assms ne show ?thesis
    by (simp add: findLayoutInfoAtSlot_def Let_def slotToInfo_direct)
qed

text \<open>
  Claim C5. When at least one layout entry matches the slot directly, the resolver returns
  the direct results and nothing else: one result for each entry object at the slot, in the
  order of their offsets, none from a mapping, a nested mapping or an array, and no fallback.
\<close>

theorem direct_match_wins:
  assumes "directAt s storageLayout \<noteq> []"
  shows "findLayoutInfoAtSlot K s storageLayout potentialKeys =
           Inr (map (\<lambda>match. directResult s (snd match))
                  (sort_key offsetOrZero (fromSet (directAt s storageLayout))))"
  using assms by (rule findLayoutInfoAtSlot_direct)

lemma fromSet_distinct_aux:
  "distinct (map fst (xs @ ys)) \<Longrightarrow> foldl setAdd xs ys = xs @ ys"
proof (induction ys arbitrary: xs)
  case Nil
  then show ?case by simp
next
  case (Cons y ys)
  then have "setAdd xs y = xs @ [y]" by (auto simp: setAdd_def)
  moreover from Cons.prems have "distinct (map fst ((xs @ [y]) @ ys))" by simp
  ultimately show ?case using Cons.IH [of "xs @ [y]"] by simp
qed

lemma fromSet_distinct: "distinct (map fst xs) \<Longrightarrow> fromSet xs = xs"
  using fromSet_distinct_aux [of "[]" xs] by (simp add: fromSet_def)


lemma length_fromSet_aux:
  "distinct (map fst xs) \<Longrightarrow>
     distinct (map fst (foldl setAdd xs ys)) \<and> fst ` set (foldl setAdd xs ys) = fst ` (set xs \<union> set ys)"
proof (induction ys arbitrary: xs)
  case Nil
  then show ?case by simp
next
  case (Cons y ys)
  have d: "distinct (map fst (setAdd xs y))" using Cons.prems by (auto simp: setAdd_def)
  have s: "fst ` set (setAdd xs y) = fst ` (set xs \<union> {y})" by (auto simp: setAdd_def)
  from Cons.IH [OF d] s show ?case by auto
qed

lemma length_fromSet: "length (fromSet xs) = card (fst ` set xs)"
proof -
  have "distinct (map fst (fromSet xs))" "fst ` set (fromSet xs) = fst ` set xs"
    using length_fromSet_aux [of "[]" xs] by (simp_all add: fromSet_def)
  then show ?thesis by (metis distinct_card length_map set_map)
qed

lemma foldE_unchanged: "(\<And>x. x \<in> set xs \<Longrightarrow> f s x = Inr s) \<Longrightarrow> foldE f s xs = Inr s"
  by (induction xs) simp_all

lemma mappingKeyStep_miss:
  assumes "computeMappingSlot K (slot (snd m)) (snd k) \<noteq> Inr s"
  shows "mappingKeyStep K s m rs k = Inr rs"
proof -
  obtain c where c: "computeMappingSlot K (slot (snd m)) (snd k) = Inr c"
    using computeMappingSlot_total by blast
  with assms have "c \<noteq> s" by simp
  with c show ?thesis by (simp add: mappingKeyStep_def)
qed

lemma mappingPass_miss:
  assumes "\<And>m k. m \<in> set ms \<Longrightarrow> k \<in> set ks \<Longrightarrow>
             computeMappingSlot K (slot (snd m)) (snd k) \<noteq> Inr s"
  shows "mappingPass K s ks rs ms = Inr rs"
  unfolding mappingPass_def
  by (rule foldE_unchanged, rule foldE_unchanged) (simp add: mappingKeyStep_miss assms)

lemma arrayKeyStep_miss:
  assumes "arrayMiss K s (snd a) (snd k)"
  shows "arrayKeyStep K s a rs k = Inr rs"
  using assms
  by (auto simp add: arrayMiss_def arrayKeyStep_def isValidArrayIndex_def split: sum.splits)

lemma arrayPass_miss:
  assumes "\<And>a k. a \<in> set as \<Longrightarrow> k \<in> set ks \<Longrightarrow> arrayMiss K s (snd a) (snd k)"
  shows "arrayPass K s ks rs as = Inr rs"
  unfolding arrayPass_def
  by (rule foldE_unchanged, rule foldE_unchanged) (simp add: arrayKeyStep_miss assms)

lemma no_nestedMappings: "filter isNestedMapping (filter isPlainMapping storageLayout) = []"
  by (auto simp add: filter_empty_conv isNestedMapping_def isPlainMapping_def simp del: filter_filter)

lemma nestedPass_dead:
  "nestedPass K s ks rs (filter isNestedMapping (filter isPlainMapping storageLayout)) = Inr rs"
  by (simp add: no_nestedMappings nestedPass_def del: filter_filter)

lemma findLayoutInfoAtSlot_no_direct:
  assumes "directAt s storageLayout = []"
  shows "findLayoutInfoAtSlot K s storageLayout ks =
           (if storageLayout = [] then Inr [fallbackResult s]
            else computedPasses K s storageLayout ks)"
  using assms by (simp add: findLayoutInfoAtSlot_def Let_def slotToInfo_direct)

text \<open>
  Claim C4. When no layout entry matches the slot (none directly, no candidate key through a
  plain mapping, no candidate index through a dynamic array), the resolver returns exactly
  one result: the fallback with label \<open>var_\<close> followed by the first ten characters of the
  slot, and no type. Nothing is asked of the slot's value.
\<close>

theorem fallback_when_unmatched:
  assumes "directAt s storageLayout = []"
    and "\<forall>m\<in>set storageLayout. \<forall>k\<in>set potentialKeys.
           isPlainMapping m \<longrightarrow> computeMappingSlot K (slot (snd m)) (snd k) \<noteq> Inr s"
    and "\<forall>a\<in>set storageLayout. \<forall>k\<in>set potentialKeys.
           encoding (snd a) = ''dynamic_array'' \<longrightarrow> arrayMiss K s (snd a) (snd k)"
  shows "findLayoutInfoAtSlot K s storageLayout potentialKeys =
           Inr [\<lparr>r_label = ''var_'' @ take 10 s, r_slot = s, matchType = Exact, r_type = None,
                 r_offset = None, keys = None, index = None\<rparr>]"
proof -
  have m: "mappingPass K s potentialKeys [] (filter isPlainMapping storageLayout) = Inr []"
    by (rule mappingPass_miss) (use assms(2) in auto)
  have a: "arrayPass K s potentialKeys []
             (filter (\<lambda>item. encoding (snd item) = ''dynamic_array'') storageLayout) = Inr []"
    by (rule arrayPass_miss) (use assms(3) in auto)
  have "computedPasses K s storageLayout potentialKeys = Inr [fallbackResult s]"
    by (simp add: computedPasses_def Let_def m nestedPass_dead a del: filter_filter)
  then show ?thesis
    by (simp add: findLayoutInfoAtSlot_no_direct [OF assms(1)] fallbackResult_def)
qed

section \<open>Numbers and their hex forms\<close>

lemma hexDigit_simps:
  "hexDigit 0 = CHR ''0''" "hexDigit (Suc 0) = CHR ''1''" "hexDigit 2 = CHR ''2''" "hexDigit 3 = CHR ''3''"
  "hexDigit 4 = CHR ''4''" "hexDigit 5 = CHR ''5''" "hexDigit 6 = CHR ''6''" "hexDigit 7 = CHR ''7''"
  "hexDigit 8 = CHR ''8''" "hexDigit 9 = CHR ''9''" "hexDigit 10 = CHR ''a''" "hexDigit 11 = CHR ''b''"
  "hexDigit 12 = CHR ''c''" "hexDigit 13 = CHR ''d''" "hexDigit 14 = CHR ''e''" "hexDigit 15 = CHR ''f''"
  by (simp_all add: hexDigit_def char_of_def bit_0)

lemmas str_eval = startsWith_def isHexDigit_def isHex_def charCodeToBase16_def hexDigit_simps
  hexes_def bytesToHex_def Let_def

lemma not_ws_hexDigit: "n < 16 \<Longrightarrow> \<not> isStrWhiteSpace (hexDigit n)"
  by (auto simp add: isStrWhiteSpace_def of_char_hexDigit)

lemma trim_id: "s \<noteq> [] \<Longrightarrow> \<not> isStrWhiteSpace (hd s) \<Longrightarrow> \<not> isStrWhiteSpace (last s) \<Longrightarrow> trim s = s"
proof -
  assume a: "s \<noteq> []" "\<not> isStrWhiteSpace (hd s)" "\<not> isStrWhiteSpace (last s)"
  then have "dropWhile isStrWhiteSpace s = s" by (cases s) simp_all
  moreover from a have "dropWhile isStrWhiteSpace (rev s) = rev s"
    by (cases "rev s") (simp_all add: last_rev [symmetric] hd_rev)
  ultimately show ?thesis by (simp add: trim_def)
qed

lemma last_concat_hexes: "bs \<noteq> [] \<Longrightarrow> last (concat (map hexes bs)) = hexDigit (unat (last bs) mod 16)"
  by (induction bs) (auto simp add: hexes_def)

lemma parseDigits_hexes:
  "parseDigits 16 acc (hexes b @ rest) = parseDigits 16 (acc * 256 + unat b) rest"
proof -
  have "parseDigits 16 acc (hexes b @ rest) =
          parseDigits 16 ((acc * 16 + unat b div 16) * 16 + unat b mod 16) rest"
    by (simp add: hexes_def charCodeToBase16_hexDigit byte_nibbles)
  also have "(acc * 16 + unat b div 16) * 16 + unat b mod 16 = acc * 256 + unat b"
    by simp
  finally show ?thesis .
qed

lemma parseDigits_concat:
  "parseDigits 16 acc (concat (map hexes bs)) = Some (foldl (\<lambda>a b. a * 256 + unat b) acc bs)"
  by (induction bs arbitrary: acc) (simp_all add: parseDigits_hexes)

lemma hexToBigInt_bytesToHex:
  assumes "bs \<noteq> []"
  shows "hexToBigInt (bytesToHex bs) = Inr (int (be_nat bs))"
proof -
  let ?s = "bytesToHex bs"
  have ne: "concat (map hexes bs) \<noteq> []" using assms by (cases bs) (simp_all add: hexes_def)
  have "last ?s = hexDigit (unat (last bs) mod 16)"
    unfolding bytesToHex_def last_appendR [OF ne] by (rule last_concat_hexes [OF assms])
  then have l: "\<not> isStrWhiteSpace (last ?s)" by (simp add: not_ws_hexDigit byte_nibbles)
  have h: "\<not> isStrWhiteSpace (hd ?s)" by (simp add: bytesToHex_def isStrWhiteSpace_def)
  have t: "trim ?s = ?s" by (rule trim_id [OF _ h l]) (simp add: bytesToHex_def)
  show ?thesis
    unfolding hexToBigInt_def BigInt_def t
    using ne by (simp add: bytesToHex_def startsWith_def parseNat_def parseDigits_concat be_nat_def)
qed

lemma fixedHex_zero: "fixedHex k 0 = replicate k CHR ''0''"
  by (induction k) (simp_all add: hexDigit_simps replicate_append_same)

lemma length_fixedHex: "length (fixedHex k n) = k"
  by (induction k arbitrary: n) simp_all

lemma padStart_toString16:
  "0 < k \<Longrightarrow> n < 16 ^ k \<Longrightarrow>
     length (toString16 n) \<le> k \<and> padStart (toString16 n) k CHR ''0'' = fixedHex k n"
proof (induction k arbitrary: n)
  case 0
  then show ?case by simp
next
  case (Suc k)
  show ?case
  proof (cases "n < 16")
    case True
    then show ?thesis
      by (simp add: toString16.simps [of n] padStart_def fixedHex_zero)
  next
    case False
    with Suc.prems have k: "0 < k" by (cases k) simp_all
    from Suc.prems have d: "n div 16 < 16 ^ k" by (simp add: less_mult_imp_div_less mult.commute)
    from Suc.IH [OF k d] have ih: "length (toString16 (n div 16)) \<le> k"
      "padStart (toString16 (n div 16)) k CHR ''0'' = fixedHex k (n div 16)" by simp_all
    from False have ts: "toString16 n = toString16 (n div 16) @ [hexDigit (n mod 16)]"
      by (simp add: toString16.simps [of n])
    from ih show ?thesis
      by (simp add: ts padStart_def)
  qed
qed

lemma numberToHex_32:
  "numberToHex v 32 =
     (if 0 \<le> v \<and> v < 2 ^ 256 then Inr (''0x'' @ fixedHex 64 (nat v)) else Inl IntegerOutOfRangeError)"
proof (cases "0 \<le> v \<and> v < 2 ^ 256")
  case True
  then have "nat v < 2 ^ 256" by (simp add: nat_less_iff)
  then have "nat v < 16 ^ 64" by simp
  from padStart_toString16 [OF _ this]
  have "length (toString16 (nat v)) \<le> 64" "padStart (toString16 (nat v)) 64 CHR ''0'' = fixedHex 64 (nat v)"
    by simp_all
  with True show ?thesis
    by (simp add: numberToHex_def padHex_def startsWith_def)
next
  case False
  then show ?thesis by (auto simp add: numberToHex_def)
qed

lemma fixedHex_unroll:
  "fixedHex (numeral k) n = fixedHex (pred_numeral k) (n div 16) @ [hexDigit (n mod 16)]"
  by (simp add: numeral_eq_Suc [of k])

lemma zero_slot_hex:
  "''0x0000000000000000000000000000000000000000000000000000000000000000'' = bytesToHex (replicate 32 0)"
  by (simp add: str_eval replicate_unroll)

lemma be_nat_zero_slot:
  "be_nat (keccak_256 (replicate 32 0)) = 0x290decd9548b62a8d60345a988386fc84ba6bc95484008f6362f93160ef3e563"
  by (simp add: keccak_256_zero_slot be_nat_def)

section \<open>The array element slot\<close>

text \<open>
  Claim C3, as the code has it. For a 32-byte base slot, \<open>computeArraySlot\<close> adds the index
  to the number the hash of the base slot spells. A sum in the range of an unsigned 256-bit
  integer is returned as 32 bytes of hex; a sum outside of it is not reduced modulo
  \<open>2 ^ 256\<close>: the conversion throws \<open>IntegerOutOfRangeError\<close>.
\<close>

theorem computeArraySlot_no_wrap:
  assumes "length b = 32" and "length (K b) = 32"
  shows "computeArraySlot K (bytesToHex b) i =
           (if 0 \<le> int (be_nat (K b)) + i \<and> int (be_nat (K b)) + i < 2 ^ 256
            then Inr (''0x'' @ fixedHex 64 (nat (int (be_nat (K b)) + i)))
            else Inl IntegerOutOfRangeError)"
proof -
  from assms(2) have "K b \<noteq> []" by auto
  then have h: "hexToBigInt (bytesToHex (K b)) = Inr (int (be_nat (K b)))"
    by (rule hexToBigInt_bytesToHex)
  show ?thesis
    by (simp only: computeArraySlot_def keccak256_bytesToHex h sum.case numberToHex_32)
qed

theorem computeArraySlot_no_wrap_witness:
  "length (replicate 32 (0 :: byte)) = 32 \<and> length (keccak_256 (replicate 32 0)) = 32 \<and>
   computeArraySlot keccak_256 (bytesToHex (replicate 32 0)) 1 =
     Inr ''0x290decd9548b62a8d60345a988386fc84ba6bc95484008f6362f93160ef3e564''"
proof -
  have l: "length (keccak_256 (replicate 32 0)) = 32" by (simp add: keccak_256_zero_slot)
  show ?thesis
    using computeArraySlot_no_wrap [of "replicate 32 0" keccak_256 1, OF _ l] l
    by (simp add: be_nat_zero_slot fixedHex_unroll hexDigit_simps)
qed

text \<open>Claim C3 as stated fails: with the base slot 0 and the largest 256-bit index the sum
  passes \<open>2 ^ 256\<close>, and the function throws instead of wrapping around.\<close>

theorem computeArraySlot_wrap_counterexample:
  "computeArraySlot keccak_256
     ''0x0000000000000000000000000000000000000000000000000000000000000000'' (2 ^ 256 - 1)
   = Inl IntegerOutOfRangeError"
proof -
  have "hexToBigInt (bytesToHex (keccak_256 (replicate 32 0))) =
          Inr (int (be_nat (keccak_256 (replicate 32 0))))"
    by (rule hexToBigInt_bytesToHex) (simp add: keccak_256_zero_slot)
  then show ?thesis
    unfolding zero_slot_hex
    by (simp add: computeArraySlot_def keccak256_bytesToHex numberToHex_32 be_nat_zero_slot)
qed

text \<open>The element slot of index 1 of a dynamic array at slot 0, evaluated.\<close>

lemma computeArraySlot_zero_slot_1:
  "computeArraySlot keccak_256 ''0x0000000000000000000000000000000000000000000000000000000000000000'' 1 =
     Inr ''0x290decd9548b62a8d60345a988386fc84ba6bc95484008f6362f93160ef3e564''"
proof -
  have "hexToBigInt (bytesToHex (keccak_256 (replicate 32 0))) =
          Inr (int (be_nat (keccak_256 (replicate 32 0))))"
    by (rule hexToBigInt_bytesToHex) (simp add: keccak_256_zero_slot)
  then show ?thesis
    unfolding zero_slot_hex
    by (simp add: computeArraySlot_def keccak256_bytesToHex numberToHex_32 be_nat_zero_slot
        fixedHex_unroll hexDigit_simps)
qed

lemma hexToBigInt_one:
  "hexToBigInt ''0x0000000000000000000000000000000000000000000000000000000000000001'' = Inr 1"
  by (simp add: hexToBigInt_def BigInt_def trim_def isStrWhiteSpace_def parseNat_def str_eval)

text \<open>Claim C4 at a layout with a direct entry at another slot, a nested mapping and a
  dynamic array whose element slot of the one candidate index is not the observed slot.\<close>

theorem fallback_when_unmatched_witness:
  "findLayoutInfoAtSlot keccak_256 (''0x'' @ fixedHex 64 5)
     [(0, \<lparr>label = ''owner'', slot = ''0x'' @ fixedHex 64 2, varType = Some ''address'',
            offset = Some 0, isComputed = False, encoding = ''inplace'', keyType = None,
            valueType = None, baseType = None\<rparr>),
      (1, \<lparr>label = ''allowances'', slot = ''0x'' @ fixedHex 64 1, varType = None,
            offset = None, isComputed = True, encoding = ''mapping'', keyType = Some ''address'',
            valueType = Some ''mapping(address => uint256)'', baseType = None\<rparr>),
      (2, \<lparr>label = ''items'', slot = ''0x'' @ fixedHex 64 0, varType = None,
            offset = None, isComputed = True, encoding = ''dynamic_array'', keyType = None,
            valueType = None, baseType = Some ''uint256''\<rparr>)]
     [(0, \<lparr>hex = ''0x'' @ fixedHex 64 1, decoded = None, type = None\<rparr>)]
   = Inr [\<lparr>r_label = ''var_0x00000000'', r_slot = ''0x'' @ fixedHex 64 5, matchType = Exact,
           r_type = None, r_offset = None, keys = None, index = None\<rparr>]"
proof -
  let ?s = "''0x'' @ fixedHex 64 5"
  let ?L = "[(0 :: nat, \<lparr>label = ''owner'', slot = ''0x'' @ fixedHex 64 2, varType = Some ''address'',
            offset = Some 0, isComputed = False, encoding = ''inplace'', keyType = None,
            valueType = None, baseType = None\<rparr>),
      (1, \<lparr>label = ''allowances'', slot = ''0x'' @ fixedHex 64 1, varType = None,
            offset = None, isComputed = True, encoding = ''mapping'', keyType = Some ''address'',
            valueType = Some ''mapping(address => uint256)'', baseType = None\<rparr>),
      (2, \<lparr>label = ''items'', slot = ''0x'' @ fixedHex 64 0, varType = None,
            offset = None, isComputed = True, encoding = ''dynamic_array'', keyType = None,
            valueType = None, baseType = Some ''uint256''\<rparr>)]"
  let ?ks = "[(0 :: nat, \<lparr>hex = ''0x'' @ fixedHex 64 1, decoded = None, type = None\<rparr>)]"
  have d: "directAt ?s ?L = []"
    by (simp add: directAt_def fixedHex_unroll hexDigit_simps)
  have m: "\<forall>m\<in>set ?L. \<forall>k\<in>set ?ks.
           isPlainMapping m \<longrightarrow> computeMappingSlot keccak_256 (slot (snd m)) (snd k) \<noteq> Inr ?s"
    by (simp add: isPlainMapping_def startsWith_def)
  have a: "\<forall>a\<in>set ?L. \<forall>k\<in>set ?ks.
           encoding (snd a) = ''dynamic_array'' \<longrightarrow> arrayMiss keccak_256 ?s (snd a) (snd k)"
    by (simp add: arrayMiss_def fixedHex_unroll hexDigit_simps hexToBigInt_one
        computeArraySlot_zero_slot_1)
  show ?thesis
    using fallback_when_unmatched [OF d m a]
    by (simp add: fixedHex_unroll hexDigit_simps)
qed

text \<open>Claim C5 at a slot shared by two packed variables, with a mapping beside them.\<close>

theorem direct_match_wins_witness:
  "findLayoutInfoAtSlot keccak_256 (''0x'' @ fixedHex 64 1)
     [(0, \<lparr>label = ''b'', slot = ''0x'' @ fixedHex 64 1, varType = Some ''uint16'',
            offset = Some 1, isComputed = False, encoding = ''inplace'', keyType = None,
            valueType = None, baseType = None\<rparr>),
      (1, \<lparr>label = ''balances'', slot = ''0x'' @ fixedHex 64 0, varType = None,
            offset = None, isComputed = True, encoding = ''mapping'', keyType = Some ''address'',
            valueType = Some ''uint256'', baseType = None\<rparr>),
      (2, \<lparr>label = ''a'', slot = ''0x'' @ fixedHex 64 1, varType = Some ''uint8'',
            offset = Some 0, isComputed = False, encoding = ''inplace'', keyType = None,
            valueType = None, baseType = None\<rparr>)]
     [(0, \<lparr>hex = ''0x'' @ fixedHex 64 1, decoded = None, type = None\<rparr>)]
   = Inr [\<lparr>r_label = ''a'', r_slot = ''0x'' @ fixedHex 64 1, matchType = Exact,
           r_type = Some ''uint8'', r_offset = Some 0, keys = None, index = None\<rparr>,
          \<lparr>r_label = ''b'', r_slot = ''0x'' @ fixedHex 64 1, matchType = Exact,
           r_type = Some ''uint16'', r_offset = Some 1, keys = None, index = None\<rparr>]"
proof -
  let ?s = "''0x'' @ fixedHex 64 1"
  let ?L = "[(0 :: nat, \<lparr>label = ''b'', slot = ''0x'' @ fixedHex 64 1, varType = Some ''uint16'',
            offset = Some 1, isComputed = False, encoding = ''inplace'', keyType = None,
            valueType = None, baseType = None\<rparr>),
      (1, \<lparr>label = ''balances'', slot = ''0x'' @ fixedHex 64 0, varType = None,
            offset = None, isComputed = True, encoding = ''mapping'', keyType = Some ''address'',
            valueType = Some ''uint256'', baseType = None\<rparr>),
      (2, \<lparr>label = ''a'', slot = ''0x'' @ fixedHex 64 1, varType = Some ''uint8'',
            offset = Some 0, isComputed = False, encoding = ''inplace'', keyType = None,
            valueType = None, baseType = None\<rparr>)]"
  have d: "directAt ?s ?L \<noteq> []"
    by (simp add: directAt_def)
  show ?thesis
    using direct_match_wins [OF d, of keccak_256 "[(0, \<lparr>hex = ''0x'' @ fixedHex 64 1, decoded = None, type = None\<rparr>)]"]
    by (simp add: directAt_def fromSet_def setAdd_def offsetOrZero_def directResult_def)
qed

section \<open>The candidate keys\<close>

lemma map_of_uniqueStep:
  "map_of (uniqueStep m k) h =
     (if hex k = h \<and> (map_of m h = None \<or> typed k) then Some k else map_of m h)"
  by (auto simp add: uniqueStep_def update_conv')

lemma typedAt_uniqueStep:
  "typedAt (uniqueStep m k) h \<longleftrightarrow> typedAt m h \<or> (hex k = h \<and> typed k)"
  by (auto simp add: typedAt_def map_of_uniqueStep split: option.splits)

lemma typedAt_foldl:
  "typedAt (foldl uniqueStep m ks) h \<longleftrightarrow> typedAt m h \<or> (\<exists>k\<in>set ks. hex k = h \<and> typed k)"
  by (induction ks arbitrary: m) (auto simp add: typedAt_uniqueStep)

lemma distinct_uniqueStep: "distinct (map fst m) \<Longrightarrow> distinct (map fst (uniqueStep m k))"
  by (simp add: uniqueStep_def distinct_update)

lemma distinct_foldl_uniqueStep:
  "distinct (map fst m) \<Longrightarrow> distinct (map fst (foldl uniqueStep m ks))"
  by (induction ks arbitrary: m) (simp_all add: distinct_uniqueStep)

lemma set_update_subset: "set (AList.update h k m) \<subseteq> set m \<union> {(h, k)}"
  by (induction m) auto

lemma keyed_uniqueStep:
  assumes "\<forall>p\<in>set m. hex (snd p) = fst p"
  shows "\<forall>p\<in>set (uniqueStep m k). hex (snd p) = fst p"
  using assms set_update_subset [of "hex k" k m] by (auto simp add: uniqueStep_def)

lemma keyed_foldl:
  "\<forall>p\<in>set m. hex (snd p) = fst p \<Longrightarrow> \<forall>p\<in>set (foldl uniqueStep m ks). hex (snd p) = fst p"
proof (induction ks arbitrary: m)
  case Nil
  then show ?case by simp
next
  case (Cons k ks)
  from Cons.IH [OF keyed_uniqueStep [OF Cons.prems]] show ?case by simp
qed

lemma values_uniqueStep: "snd ` set (uniqueStep m k) \<subseteq> snd ` set m \<union> {k}"
  using set_update_subset [of "hex k" k m] by (auto simp add: uniqueStep_def)

lemma values_foldl: "snd ` set (foldl uniqueStep m ks) \<subseteq> snd ` set m \<union> set ks"
proof (induction ks arbitrary: m)
  case Nil
  then show ?case by simp
next
  case (Cons k ks)
  from Cons.IH [of "uniqueStep m k"] values_uniqueStep [of m k] show ?case by auto
qed

lemma dom_uniqueStep: "fst ` set (uniqueStep m k) = fst ` set m \<union> {hex k}"
  by (auto simp add: uniqueStep_def dom_update map_of_eq_None_iff)

lemma dom_foldl: "fst ` set (foldl uniqueStep m ks) = fst ` set m \<union> hex ` set ks"
  by (induction ks arbitrary: m) (auto simp add: dom_uniqueStep)

lemma deduplicate_props:
  "distinct (map hex (deduplicate ks))"
  "hex ` set (deduplicate ks) = hex ` set ks"
  "set (deduplicate ks) \<subseteq> set ks"
  "k \<in> set ks \<Longrightarrow> typed k \<Longrightarrow> k' \<in> set (deduplicate ks) \<Longrightarrow> hex k' = hex k \<Longrightarrow> typed k'"
proof -
  let ?m = "foldl uniqueStep [] ks"
  have keyed: "\<forall>p\<in>set ?m. hex (snd p) = fst p" by (rule keyed_foldl) simp
  then have eq: "map hex (map snd ?m) = map fst ?m" by simp
  have d: "distinct (map fst ?m)" by (rule distinct_foldl_uniqueStep) simp
  show "distinct (map hex (deduplicate ks))"
    using d eq by (simp only: deduplicate_def)
  show "hex ` set (deduplicate ks) = hex ` set ks"
    using dom_foldl [of "[]" ks] eq by (metis deduplicate_def empty_set image_empty set_map sup_bot_left)
  show "set (deduplicate ks) \<subseteq> set ks"
    using values_foldl [of "[]" ks] by (simp add: deduplicate_def)
  show "typed k'" if "k \<in> set ks" "typed k" "k' \<in> set (deduplicate ks)" "hex k' = hex k"
  proof -
    from that(3) obtain h where h: "(h, k') \<in> set ?m" by (auto simp add: deduplicate_def)
    with keyed have "h = hex k'" by force
    with h d have "map_of ?m (hex k) = Some k'" using that(4) by simp
    moreover have "typedAt ?m (hex k)"
      using that(1,2) by (auto simp add: typedAt_foldl)
    ultimately show ?thesis by (simp add: typedAt_def)
  qed
qed

text \<open>
  Claim C8. Whenever the extraction collects its keys without an exception it returns them
  deduplicated by hex form: no two returned keys share a hex form, every collected hex form
  is returned with one of the keys collected for it, and when a typed key was collected for
  a hex form the key returned for that hex form is typed, also when untyped keys were
  collected for it.
\<close>

theorem extractPotentialKeys_deduplicated:
  assumes "collectKeys codec trace addresses abiFunctions txData = Inr collected"
  shows "\<exists>out. extractPotentialKeys codec trace addresses abiFunctions txData = Inr out
           \<and> distinct (map hex out)
           \<and> hex ` set out = hex ` set collected
           \<and> set out \<subseteq> set collected
           \<and> (\<forall>k\<in>set collected. \<forall>k'\<in>set out. typed k \<and> hex k' = hex k \<longrightarrow> typed k')"
  using assms deduplicate_props [where ks = collected]
  by (auto simp add: extractPotentialKeys_def)

lemma padHex_eval:
  "padHex (CHR ''0'' # CHR ''x'' # ds) 32 =
     (if length ds > 64 then Inl SizeExceedsPaddingSizeError
      else Inr (''0x'' @ replicate (64 - length ds) CHR ''0'' @ ds))"
  by (simp add: padHex_def startsWith_def padStart_def)

text \<open>Claim C8 on one touched address and three stack values, one of them the address
  and one of them repeated.\<close>

theorem extractPotentialKeys_deduplicated_witness:
  "extractPotentialKeys refusingCodec
     \<lparr>uniqueStackValues = Some [''0x05'', ''0x1111111111111111111111111111111111111111'', ''0x05''],
      relevantOps = None\<rparr>
     [''0x1111111111111111111111111111111111111111''] [] None
   = Inr [\<lparr>hex = ''0x0000000000000000000000001111111111111111111111111111111111111111'',
           decoded = Some (AbiAddress ''0x1111111111111111111111111111111111111111''),
           type = Some ''address''\<rparr>,
          \<lparr>hex = ''0x0000000000000000000000000000000000000000000000000000000000000005'',
           decoded = None, type = None\<rparr>]"
proof -
  let ?tr = "\<lparr>uniqueStackValues = Some [''0x05'', ''0x1111111111111111111111111111111111111111'', ''0x05''],
      relevantOps = None\<rparr>"
  let ?a = "\<lparr>hex = ''0x0000000000000000000000001111111111111111111111111111111111111111'',
           decoded = Some (AbiAddress ''0x1111111111111111111111111111111111111111''),
           type = Some ''address''\<rparr>"
  let ?a' = "\<lparr>hex = ''0x0000000000000000000000001111111111111111111111111111111111111111'',
           decoded = None, type = None\<rparr>"
  let ?f = "\<lparr>hex = ''0x0000000000000000000000000000000000000000000000000000000000000005'',
           decoded = None, type = None\<rparr>"
  have c: "collectKeys refusingCodec ?tr [''0x1111111111111111111111111111111111111111''] [] None
             = Inr [?a, ?f, ?a', ?f]"
    by (simp add: collectKeys_def addressKey_def calldataKeys_def stackKeys_def stackKey_def
        padHex_eval isHex_def isHexDigit_def startsWith_def replicate_unroll)
  from extractPotentialKeys_deduplicated [OF c]
  obtain out where o: "extractPotentialKeys refusingCodec ?tr [''0x1111111111111111111111111111111111111111''] [] None = Inr out"
    by blast
  have "out = [?a, ?f]"
    using o by (simp add: extractPotentialKeys_def c deduplicate_def uniqueStep_def typed_def)
  with o show ?thesis by simp
qed

section \<open>Key types\<close>

lemma foldE_sim:
  assumes "\<And>s x. x \<in> set xs \<Longrightarrow> f' (R s) (g x) = map_sum id R (f s x)"
  shows "foldE f' (R s) (map g xs) = map_sum id R (foldE f s xs)"
  using assms
proof (induction xs arbitrary: s)
  case Nil
  then show ?case by simp
next
  case (Cons x xs)
  show ?case
  proof (cases "f s x")
    case (Inl e)
    then show ?thesis using Cons.prems [of x s] by simp
  next
    case (Inr s')
    then have "f' (R s) (g x) = Inr (R s')" using Cons.prems [of x s] by simp
    with Inr show ?thesis using Cons.IH [of s'] Cons.prems by simp
  qed
qed

lemma computeMappingSlot_retype [simp]:
  "computeMappingSlot K b (retypeKey f k) = computeMappingSlot K b k"
  by (simp add: computeMappingSlot_def retypeKey_def)

lemma nestedLoop_retype [simp]:
  "nestedLoop K b (map (retypeKey f) ks) = nestedLoop K b ks"
  by (induction ks arbitrary: b) (simp_all split: sum.splits)

lemma computeNestedMappingSlot_retype:
  "computeNestedMappingSlot K b [retypeKey f k1, retypeKey f k2] =
     computeNestedMappingSlot K b [k1, k2]"
  using nestedLoop_retype [of K b f "[k1, k2]"] by (simp add: computeNestedMappingSlot_def)

lemma retype_fields [simp]:
  "slot (retypeEntry g e) = slot e" "label (retypeEntry g e) = label e"
  "valueType (retypeEntry g e) = valueType e" "baseType (retypeEntry g e) = baseType e"
  "encoding (retypeEntry g e) = encoding e" "isComputed (retypeEntry g e) = isComputed e"
  "offset (retypeEntry g e) = offset e" "varType (retypeEntry g e) = varType e"
  "hex (retypeKey f k) = hex k"
  by (simp_all add: retypeEntry_def retypeKey_def)

lemma mappingKeyStep_retype:
  "mappingKeyStep K s (apsnd (retypeEntry g) m) (map (retypeResult f) rs) (apsnd (retypeKey f) k) =
     map_sum id (map (retypeResult f)) (mappingKeyStep K s m rs k)"
  by (simp add: mappingKeyStep_def mappingResult_def retypeResult_def split: sum.splits)

lemma nestedKeyStep_retype:
  "nestedKeyStep K s (apsnd (retypeEntry g) m) (apsnd (retypeKey f) k1) (map (retypeResult f) rs)
      (apsnd (retypeKey f) k2) =
     map_sum id (map (retypeResult f)) (nestedKeyStep K s m k1 rs k2)"
  by (simp add: nestedKeyStep_def nestedResult_def retypeResult_def computeNestedMappingSlot_retype
      split: sum.splits)

lemma arrayKeyStep_retype:
  "arrayKeyStep K s (apsnd (retypeEntry g) a) (map (retypeResult f) rs) (apsnd (retypeKey f) k) =
     map_sum id (map (retypeResult f)) (arrayKeyStep K s a rs k)"
  by (simp add: arrayKeyStep_def arrayResult_def retypeResult_def split: sum.splits)

lemma mappingPass_retype:
  "mappingPass K s (map (apsnd (retypeKey f)) ks) (map (retypeResult f) rs)
      (map (apsnd (retypeEntry g)) ms) =
     map_sum id (map (retypeResult f)) (mappingPass K s ks rs ms)"
  unfolding mappingPass_def
  by (rule foldE_sim, rule foldE_sim, rule mappingKeyStep_retype)

lemma nestedPass_retype:
  "nestedPass K s (map (apsnd (retypeKey f)) ks) (map (retypeResult f) rs)
      (map (apsnd (retypeEntry g)) ms) =
     map_sum id (map (retypeResult f)) (nestedPass K s ks rs ms)"
  unfolding nestedPass_def
  by (rule foldE_sim, rule foldE_sim, rule foldE_sim, rule nestedKeyStep_retype)

lemma arrayPass_retype:
  "arrayPass K s (map (apsnd (retypeKey f)) ks) (map (retypeResult f) rs)
      (map (apsnd (retypeEntry g)) as) =
     map_sum id (map (retypeResult f)) (arrayPass K s ks rs as)"
  unfolding arrayPass_def
  by (rule foldE_sim, rule foldE_sim, rule arrayKeyStep_retype)

lemma retypeResult_fallback [simp]: "retypeResult f (fallbackResult s) = fallbackResult s"
  by (simp add: retypeResult_def fallbackResult_def)

lemma retypeResult_direct [simp]: "retypeResult f (directResult s e) = directResult s e"
  by (simp add: retypeResult_def directResult_def)

lemma directResult_retypeEntry [simp]: "directResult s (retypeEntry g e) = directResult s e"
  by (simp add: directResult_def)

lemma pred_retype [simp]:
  "isPlainMapping (apsnd (retypeEntry g) x) = isPlainMapping x"
  "isNestedMapping (apsnd (retypeEntry g) x) = isNestedMapping x"
  by (simp_all add: isPlainMapping_def isNestedMapping_def)

lemma filter_retype:
  "filter isPlainMapping (map (apsnd (retypeEntry g)) L) = map (apsnd (retypeEntry g)) (filter isPlainMapping L)"
  "filter isNestedMapping (map (apsnd (retypeEntry g)) L) = map (apsnd (retypeEntry g)) (filter isNestedMapping L)"
  "filter (\<lambda>item. encoding (snd item) = ''dynamic_array'') (map (apsnd (retypeEntry g)) L) =
     map (apsnd (retypeEntry g)) (filter (\<lambda>item. encoding (snd item) = ''dynamic_array'') L)"
  "directAt s (map (apsnd (retypeEntry g)) L) = map (apsnd (retypeEntry g)) (directAt s L)"
  by (simp_all add: filter_map comp_def directAt_def)

lemma computedPasses_retype:
  "computedPasses K s (map (apsnd (retypeEntry g)) L) (map (apsnd (retypeKey f)) ks) =
     map_sum id (map (retypeResult f)) (computedPasses K s L ks)"
proof -
  have m: "mappingPass K s (map (apsnd (retypeKey f)) ks) []
      (map (apsnd (retypeEntry g)) ms) =
     map_sum id (map (retypeResult f)) (mappingPass K s ks [] ms)" for ms
    using mappingPass_retype [of K s f ks "[]" g ms] by simp
  show ?thesis
    unfolding computedPasses_def Let_def filter_retype m
    by (cases "mappingPass K s ks [] (filter isPlainMapping L)")
       (auto simp add: nestedPass_retype arrayPass_retype split: sum.splits)
qed


lemma setAdd_map:
  "setAdd (map (apsnd h) xs) (apsnd h x) = map (apsnd h) (setAdd xs x)"
  by (auto simp add: setAdd_def image_image)

lemma fromSet_map: "fromSet (map (apsnd h) xs) = map (apsnd h) (fromSet xs)"
proof -
  have "foldl setAdd (map (apsnd h) acc) (map (apsnd h) xs) = map (apsnd h) (foldl setAdd acc xs)" for acc
    by (induction xs arbitrary: acc) (simp_all add: setAdd_map)
  from this [of "[]"] show ?thesis by (simp add: fromSet_def)
qed

lemma insort_key_map:
  "(\<And>y. k (h y) = k y) \<Longrightarrow> insort_key k (h x) (map h ys) = map h (insort_key k x ys)"
  by (induction ys) simp_all

lemma sort_key_map: "(\<And>y. k (h y) = k y) \<Longrightarrow> sort_key k (map h xs) = map h (sort_key k xs)"
  by (induction xs) (simp_all add: insort_key_map)

lemma offsetOrZero_retype: "offsetOrZero (apsnd (retypeEntry g) y) = offsetOrZero y"
  by (simp add: offsetOrZero_def)

lemma findLayoutInfoAtSlot_cases:
  "findLayoutInfoAtSlot K s L ks =
     (if L = [] then Inr [fallbackResult s]
      else if directAt s L \<noteq> [] then
        Inr (map (\<lambda>match. directResult s (snd match)) (sort_key offsetOrZero (fromSet (directAt s L))))
      else computedPasses K s L ks)"
  using findLayoutInfoAtSlot_direct [of s L K ks] findLayoutInfoAtSlot_no_direct [of s L K ks]
  by (auto simp add: findLayoutInfoAtSlot_def)

text \<open>
  Claim C6, as the code has it. The resolver has no filter on key types: it reads neither the
  declared type of a candidate nor the key type of a mapping. Whatever types are put on the
  candidates and on the layout entries, it raises the same exception or returns the same
  results, differing only in the types carried by the keys they report. Typed and untyped
  candidates alike are tried against every plain mapping.
\<close>

theorem resolver_ignores_key_types:
  "findLayoutInfoAtSlot K s (map (apsnd (retypeEntry g)) storageLayout)
       (map (apsnd (retypeKey f)) potentialKeys) =
     map_sum id (map (retypeResult f)) (findLayoutInfoAtSlot K s storageLayout potentialKeys)"
  unfolding findLayoutInfoAtSlot_cases filter_retype fromSet_map
    sort_key_map [of offsetOrZero, OF offsetOrZero_retype]
  by (simp add: computedPasses_retype comp_def)

text \<open>
  Claim C6 as stated fails. The candidate below is declared an \<open>address\<close>, the mapping is keyed
  by \<open>uint256\<close>; the observed slot is the hash of the candidate with the mapping's slot. The
  candidate is not skipped: the resolver reports it as the key of the mapping.
\<close>

theorem key_type_filter_counterexample:
  "findLayoutInfoAtSlot keccak_256
     (bytesToHex (keccak_256 ((replicate 12 0 @ replicate 20 0x11) @ replicate 32 0)))
     [(0, \<lparr>label = ''counts'', slot = bytesToHex (replicate 32 0), varType = None,
            offset = None, isComputed = True, encoding = ''mapping'', keyType = Some ''uint256'',
            valueType = Some ''uint256'', baseType = None\<rparr>)]
     [(0, \<lparr>hex = bytesToHex (replicate 12 0 @ replicate 20 0x11),
            decoded = Some (AbiAddress ''0x1111111111111111111111111111111111111111''),
            type = Some ''address''\<rparr>)]
   = Inr [\<lparr>r_label = ''counts'',
           r_slot = bytesToHex (keccak_256 ((replicate 12 0 @ replicate 20 0x11) @ replicate 32 0)),
           matchType = Mapping, r_type = Some ''uint256'', r_offset = None,
           keys = Some [\<lparr>hex = bytesToHex (replicate 12 0 @ replicate 20 0x11),
                         decoded = Some (AbiAddress ''0x1111111111111111111111111111111111111111''),
                         type = Some ''address''\<rparr>],
           index = None\<rparr>]"
  by (simp add: findLayoutInfoAtSlot_def computedPasses_def mappingPass_def nestedPass_def
      arrayPass_def mappingKeyStep_def mappingResult_def isPlainMapping_def isNestedMapping_def
      startsWith_def computeMappingSlot_bytes)

section \<open>Exceptions\<close>

lemma foldE_total:
  assumes "\<And>s x. x \<in> set xs \<Longrightarrow> \<exists>s'. f s x = Inr s'"
  shows "\<exists>s'. foldE f s xs = Inr s'"
  using assms
proof (induction xs arbitrary: s)
  case Nil
  then show ?case by simp
next
  case (Cons x xs)
  from Cons.prems [of x s] obtain s1 where "f s x = Inr s1" by auto
  moreover from Cons.IH [of s1] Cons.prems obtain s2 where "foldE f s1 xs = Inr s2" by auto
  ultimately show ?case by simp
qed

lemma padHex_total: "fitsWord h \<Longrightarrow> \<exists>p. padHex h 32 = Inr p"
  by (simp add: padHex_def fitsWord_def)

lemma addressKey_total: "fitsWord a \<Longrightarrow> \<exists>ks'. addressKey ks a = Inr ks'"
  using padHex_total [of a] by (auto simp add: addressKey_def)

lemma stackKey_total: "stackValueOk v \<Longrightarrow> \<exists>ks'. stackKey ks v = Inr ks'"
proof (cases "isHex v")
  case True
  assume "stackValueOk v"
  with True obtain p where "padHex v 32 = Inr p" using padHex_total by (auto simp add: stackValueOk_def)
  with True show ?thesis by (simp add: stackKey_def)
next
  case False
  assume "stackValueOk v"
  with False have l: "length (stringToBytes v) \<le> 32" by (simp add: stackValueOk_def)
  then have "\<exists>p. stringToHex v 32 = Inr p"
    by (simp add: stringToHex_def Let_def padHexRight_def str_replace_bytesToHex length_concat_hexes)
  with False show ?thesis by (auto simp add: stackKey_def)
qed

lemma argKey_total: "argOk codec ty p \<Longrightarrow> \<exists>ks'. argKey codec ty ks p = Inr ks'"
proof (cases "ty = []")
  case True
  then show ?thesis by (simp add: argKey_def)
next
  case False
  assume "argOk codec ty p"
  with False obtain enc where e: "encodeAbiParameters codec ty p = Inr enc" "fitsWord enc"
    by (auto simp add: argOk_def split: sum.splits)
  then obtain h where "padHex enc 32 = Inr h" using padHex_total by blast
  with e False show ?thesis by (simp add: argKey_def)
qed

lemma paramKeys_total: "paramOk codec ins pi \<Longrightarrow> \<exists>ks'. paramKeys codec ins ks pi = Inr ks'"
proof (cases pi)
  case (Pair p i)
  assume ok: "paramOk codec ins pi"
  show ?thesis
  proof (cases p)
    case (AbiArray ps)
    have "\<exists>ks'. foldE (\<lambda>ks p. if i < length ins
                         then argKey codec (str_replace (abiType (ins ! i)) ''[]'' '''') ks p
                         else Inl TypeError) ks ps = Inr ks'"
      by (rule foldE_total) (use ok Pair AbiArray in \<open>auto simp add: paramOk_def list_all_iff argKey_total\<close>)
    with Pair AbiArray show ?thesis by (simp add: paramKeys_def)
  qed (use ok Pair in \<open>auto simp add: paramOk_def paramKeys_def argKey_total\<close>)
qed

lemma calldataKeys_total:
  "calldataOk codec fns txData \<Longrightarrow> \<exists>ks'. calldataKeys codec fns txData ks = Inr ks'"
  by (auto simp add: calldataOk_def calldataKeys_def list_all_iff paramKeys_total
      intro!: foldE_total split: option.splits sum.splits)

lemma stackKeys_total: "stackOk trace \<Longrightarrow> \<exists>ks'. stackKeys trace ks = Inr ks'"
  by (auto simp add: stackOk_def stackKeys_def list_all_iff stackKey_total
      intro!: foldE_total split: option.splits)

lemma extractPotentialKeys_total:
  assumes "list_all fitsWord addresses" and "calldataOk codec fns txData" and "stackOk trace"
  shows "\<exists>ks. extractPotentialKeys codec trace addresses fns txData = Inr ks"
proof -
  have "\<exists>k1. foldE addressKey [] addresses = Inr k1"
    by (rule foldE_total) (use assms(1) in \<open>auto simp add: list_all_iff addressKey_total\<close>)
  then obtain k1 where k1: "foldE addressKey [] addresses = Inr k1" ..
  obtain k2 where k2: "calldataKeys codec fns txData k1 = Inr k2"
    using calldataKeys_total [OF assms(2)] by blast
  obtain k3 where k3: "stackKeys trace k2 = Inr k3"
    using stackKeys_total [OF assms(3)] by blast
  show ?thesis by (simp add: extractPotentialKeys_def collectKeys_def k1 k2 k3)
qed

lemma mappingKeyStep_total: "\<exists>rs'. mappingKeyStep K s m rs k = Inr rs'"
proof -
  obtain c where "computeMappingSlot K (slot (snd m)) (snd k) = Inr c"
    using computeMappingSlot_total by blast
  then show ?thesis by (simp add: mappingKeyStep_def)
qed

lemma mappingPass_total: "\<exists>rs'. mappingPass K s ks rs ms = Inr rs'"
  unfolding mappingPass_def
  by (rule foldE_total, rule foldE_total, rule mappingKeyStep_total)

lemma arrayKeyStep_total: "arrayOk K (snd a) (snd k) \<Longrightarrow> \<exists>rs'. arrayKeyStep K s a rs k = Inr rs'"
  by (auto simp add: arrayOk_def arrayKeyStep_def isValidArrayIndex_def split: sum.splits)

lemma arrayPass_total:
  assumes "\<And>a k. a \<in> set as \<Longrightarrow> k \<in> set ks \<Longrightarrow> arrayOk K (snd a) (snd k)"
  shows "\<exists>rs'. arrayPass K s ks rs as = Inr rs'"
  unfolding arrayPass_def
  by (rule foldE_total, rule foldE_total, rule arrayKeyStep_total) (rule assms)

lemma findLayoutInfoAtSlot_total:
  assumes "resolverOk K storageLayout potentialKeys"
  shows "\<exists>rs. findLayoutInfoAtSlot K s storageLayout potentialKeys = Inr rs"
proof -
  obtain r2 where r2: "mappingPass K s potentialKeys [] (filter isPlainMapping storageLayout) = Inr r2"
    using mappingPass_total by blast
  have "\<exists>r4. arrayPass K s potentialKeys r2
          (filter (\<lambda>item. encoding (snd item) = ''dynamic_array'') storageLayout) = Inr r4"
    by (rule arrayPass_total) (use assms in \<open>auto simp add: resolverOk_def list_all_iff\<close>)
  then obtain r4 where r4: "arrayPass K s potentialKeys r2
          (filter (\<lambda>item. encoding (snd item) = ''dynamic_array'') storageLayout) = Inr r4" ..
  have "\<exists>rs. computedPasses K s storageLayout potentialKeys = Inr rs"
    by (simp add: computedPasses_def Let_def r2 nestedPass_dead r4 del: filter_filter)
  then show ?thesis by (auto simp add: findLayoutInfoAtSlot_cases)
qed

text \<open>
  Claim C9, as the code has it. Neither function catches an exception, so each returns
  normally only where the library raises none. The extraction returns a list of keys whenever
  every address fits a word, the calldata is in order and every stack value is in order. The
  resolver returns a list of results whenever every candidate is in order for every dynamic
  array of the layout; the mapping passes never raise.
\<close>

theorem extractor_and_resolver_return:
  "(list_all fitsWord addresses \<and> calldataOk codec abiFunctions txData \<and> stackOk trace
      \<longrightarrow> (\<exists>ks. extractPotentialKeys codec trace addresses abiFunctions txData = Inr ks))
   \<and> (resolverOk K storageLayout potentialKeys
      \<longrightarrow> (\<exists>rs. findLayoutInfoAtSlot K s storageLayout potentialKeys = Inr rs))"
  using extractPotentialKeys_total findLayoutInfoAtSlot_total by blast

text \<open>Claim C9 on a touched address with two stack values, and on a dynamic array with one
  candidate index.\<close>

theorem extractor_and_resolver_return_witness:
  "(\<exists>ks. extractPotentialKeys refusingCodec
       \<lparr>uniqueStackValues = Some [''0x05'', ''0x1111111111111111111111111111111111111111''],
        relevantOps = None\<rparr>
       [''0x1111111111111111111111111111111111111111''] [] None = Inr ks)
   \<and> (\<exists>rs. findLayoutInfoAtSlot keccak_256 (''0x'' @ fixedHex 64 5)
       [(0, \<lparr>label = ''items'', slot = ''0x'' @ fixedHex 64 0, varType = None,
              offset = None, isComputed = True, encoding = ''dynamic_array'', keyType = None,
              valueType = None, baseType = Some ''uint256''\<rparr>)]
       [(0, \<lparr>hex = ''0x'' @ fixedHex 64 1, decoded = None, type = None\<rparr>)] = Inr rs)"
proof -
  have a: "list_all fitsWord [''0x1111111111111111111111111111111111111111'']"
    by (simp add: fitsWord_def startsWith_def)
  have c: "calldataOk refusingCodec [] None"
    by (simp add: calldataOk_def)
  have t: "stackOk \<lparr>uniqueStackValues = Some [''0x05'', ''0x1111111111111111111111111111111111111111''],
        relevantOps = None\<rparr>"
    by (simp add: stackOk_def stackValueOk_def fitsWord_def isHex_def isHexDigit_def startsWith_def)
  have r: "resolverOk keccak_256
       [(0, \<lparr>label = ''items'', slot = ''0x'' @ fixedHex 64 0, varType = None,
              offset = None, isComputed = True, encoding = ''dynamic_array'', keyType = None,
              valueType = None, baseType = Some ''uint256''\<rparr>)]
       [(0, \<lparr>hex = ''0x'' @ fixedHex 64 1, decoded = None, type = None\<rparr>)]"
    by (simp add: resolverOk_def arrayOk_def fixedHex_unroll hexDigit_simps hexToBigInt_one
        computeArraySlot_zero_slot_1)
  from extractor_and_resolver_return
    [of "[''0x1111111111111111111111111111111111111111'']" refusingCodec "[]" None
        "\<lparr>uniqueStackValues = Some [''0x05'', ''0x1111111111111111111111111111111111111111''],
        relevantOps = None\<rparr>" keccak_256
       "[(0, \<lparr>label = ''items'', slot = ''0x'' @ fixedHex 64 0, varType = None,
              offset = None, isComputed = True, encoding = ''dynamic_array'', keyType = None,
              valueType = None, baseType = Some ''uint256''\<rparr>)]"
       "[(0, \<lparr>hex = ''0x'' @ fixedHex 64 1, decoded = None, type = None\<rparr>)]"
       "''0x'' @ fixedHex 64 5"]
    a c t r
  show ?thesis by blast
qed

text \<open>
  Claim C9 as stated fails. A call \<^verbatim>\<open>setName("hello")\<close> of a function whose input is a
  \<^verbatim>\<open>string\<close> is decoded, the argument is encoded on its own to three words, and padding
  them to one word throws: the extraction raises \<open>SizeExceedsPaddingSizeError\<close>. So does a
  stack value of 33 bytes.
\<close>

theorem never_raise_counterexample:
  "extractPotentialKeys helloCodec \<lparr>uniqueStackValues = None, relevantOps = None\<rparr> []
       [\<lparr>selector = ''0xc47f0027'', inputs = Some [\<lparr>name = ''newName'', abiType = ''string''\<rparr>]\<rparr>]
       (Some (''0xc47f0027'' @ helloWords))
     = Inl SizeExceedsPaddingSizeError
   \<and> extractPotentialKeys refusingCodec
       \<lparr>uniqueStackValues = Some [''0x'' @ replicate 66 CHR ''1''], relevantOps = None\<rparr> [] [] None
     = Inl SizeExceedsPaddingSizeError"
proof
  have l: "length helloWords = 192" by (simp add: helloWords_def)
  have p: "padHex (''0x'' @ helloWords) 32 = Inl SizeExceedsPaddingSizeError"
    by (simp add: padHex_def startsWith_def l)
  have k: "paramKeys helloCodec [\<lparr>name = ''newName'', abiType = ''string''\<rparr>] [] (AbiString ''hello'', 0)
             = Inl SizeExceedsPaddingSizeError"
    using p by (simp add: paramKeys_def argKey_def helloCodec_def)
  have dc: "decodeAbiParameters helloCodec [\<lparr>name = ''newName'', abiType = ''string''\<rparr>]
              (''0x'' @ helloWords) = Inr [AbiString ''hello'']"
    by (simp add: helloCodec_def)
  show "extractPotentialKeys helloCodec \<lparr>uniqueStackValues = None, relevantOps = None\<rparr> []
       [\<lparr>selector = ''0xc47f0027'', inputs = Some [\<lparr>name = ''newName'', abiType = ''string''\<rparr>]\<rparr>]
       (Some (''0xc47f0027'' @ helloWords))
     = Inl SizeExceedsPaddingSizeError"
    using dc k by (simp add: extractPotentialKeys_def collectKeys_def calldataKeys_def l)
  show "extractPotentialKeys refusingCodec
       \<lparr>uniqueStackValues = Some [''0x'' @ replicate 66 CHR ''1''], relevantOps = None\<rparr> [] [] None
     = Inl SizeExceedsPaddingSizeError"
    by (simp add: extractPotentialKeys_def collectKeys_def calldataKeys_def stackKeys_def stackKey_def
        padHex_def isHex_def isHexDigit_def startsWith_def replicate_unroll)
qed

section \<open>Slot normalization\<close>

lemma hexDigit_lower:
  assumes "charCodeToBase16 c = Some d"
  shows "d < 16 \<and> hexDigit d = toLowerChar c \<and> (d = 0 \<longleftrightarrow> (of_char c :: nat) = 48)"
proof -
  define n where "n = (of_char c :: nat)"
  have c: "char_of n = c" by (simp add: n_def)
  from assms consider
      (dig) "48 \<le> n" "n \<le> 57" "d = n - 48"
    | (up) "65 \<le> n" "n \<le> 70" "d = n - 55"
    | (lo) "97 \<le> n" "n \<le> 102" "d = n - 87"
    unfolding charCodeToBase16_def Let_def n_def [symmetric]
    by (auto split: if_splits)
  then show ?thesis
  proof cases
    case dig
    then have "d < 10" "48 + d = n" by simp_all
    then have "hexDigit d = c" by (simp add: hexDigit_def c)
    moreover from dig have "toLowerChar c = c"
      unfolding toLowerChar_def Let_def n_def [symmetric] by simp
    ultimately show ?thesis using dig unfolding n_def [symmetric] by simp
  next
    case up
    then have "\<not> d < 10" "87 + d = n + 32" "d < 16" "d \<noteq> 0" by simp_all
    then have "hexDigit d = char_of (n + 32)" by (simp add: hexDigit_def)
    moreover from up have "toLowerChar c = char_of (n + 32)"
      unfolding toLowerChar_def Let_def n_def [symmetric] by simp
    ultimately show ?thesis using up \<open>d < 16\<close> \<open>d \<noteq> 0\<close> unfolding n_def [symmetric] by simp
  next
    case lo
    then have "\<not> d < 10" "87 + d = n" "d < 16" "d \<noteq> 0" by simp_all
    then have "hexDigit d = c" by (simp add: hexDigit_def c)
    moreover from lo have "toLowerChar c = c"
      unfolding toLowerChar_def Let_def n_def [symmetric] by simp
    ultimately show ?thesis using lo \<open>d < 16\<close> \<open>d \<noteq> 0\<close> unfolding n_def [symmetric] by simp
  qed
qed

lemma of_char_zero_iff: "(of_char c :: nat) = 48 \<longleftrightarrow> c = CHR ''0''"
proof
  assume a: "(of_char c :: nat) = 48"
  have z: "char_of (48 :: nat) = CHR ''0''" by (simp add: char_of_def bit_0)
  have "c = char_of (of_char c :: nat)" by simp
  also have "\<dots> = CHR ''0''" unfolding a by (rule z)
  finally show "c = CHR ''0''" .
next
  assume "c = CHR ''0''"
  then show "(of_char c :: nat) = 48" by simp
qed

lemma parseDigits_append:
  "parseDigits b acc (xs @ ys) =
     (case parseDigits b acc xs of None \<Rightarrow> None | Some m \<Rightarrow> parseDigits b m ys)"
  by (induction xs arbitrary: acc) (simp_all split: option.splits)

lemma toString16_step: "0 < m \<Longrightarrow> d < 16 \<Longrightarrow> toString16 (m * 16 + d) = toString16 m @ [hexDigit d]"
  by (subst toString16.simps) simp

lemma toString16_small: "d < 16 \<Longrightarrow> toString16 d = [hexDigit d]"
  by (subst toString16.simps) simp

lemma zstrip_snoc:
  "zstrip (ds @ [c]) =
     (if zstrip ds = [] then (if toLowerChar c = CHR ''0'' then [] else [toLowerChar c])
      else zstrip ds @ [toLowerChar c])"
  by (auto simp add: zstrip_def dropWhile_append dropWhile_eq_Nil_conv)

lemma digits_value:
  "list_all isHexDigit ds \<Longrightarrow>
     \<exists>n. parseDigits 16 0 ds = Some n \<and> (n = 0 \<longleftrightarrow> zstrip ds = []) \<and>
         (n \<noteq> 0 \<longrightarrow> toString16 n = zstrip ds)"
proof (induction ds rule: rev_induct)
  case Nil
  then show ?case by (simp add: zstrip_def)
next
  case (snoc c ds)
  then obtain m where m: "parseDigits 16 0 ds = Some m" "m = 0 \<longleftrightarrow> zstrip ds = []"
      "m \<noteq> 0 \<longrightarrow> toString16 m = zstrip ds"
    by auto
  from snoc.prems obtain d where d: "charCodeToBase16 c = Some d"
    using isHexDigit_base16 by auto
  from hexDigit_lower [OF d] of_char_zero_iff [of c]
  have h: "d < 16" "hexDigit d = toLowerChar c" "d = 0 \<longleftrightarrow> c = CHR ''0''" by simp_all
  have z: "toLowerChar c = CHR ''0'' \<longleftrightarrow> d = 0"
  proof
    assume "toLowerChar c = CHR ''0''"
    with h(2) have "hexDigit d = CHR ''0''" by simp
    moreover have "charCodeToBase16 CHR ''0'' = Some 0" by (simp add: charCodeToBase16_def)
    moreover have "charCodeToBase16 (hexDigit d) = Some d"
      using h(1) by (rule charCodeToBase16_hexDigit)
    ultimately show "d = 0" by simp
  next
    assume "d = 0"
    with h(2) show "toLowerChar c = CHR ''0''" by (simp add: hexDigit_simps)
  qed
  have p: "parseDigits 16 0 (ds @ [c]) = Some (m * 16 + d)"
    by (simp add: parseDigits_append m(1) d h(1))
  show ?case
  proof (cases "m = 0")
    case True
    with m(2) have "zstrip ds = []" by simp
    with True p h z show ?thesis
      by (auto simp add: zstrip_snoc toString16_small)
  next
    case False
    with m have zs: "zstrip ds \<noteq> []" "toString16 m = zstrip ds" by simp_all
    from False h(1) have "toString16 (m * 16 + d) = toString16 m @ [hexDigit d]"
      by (simp add: toString16_step)
    with False p zs h show ?thesis
      by (simp add: zstrip_snoc)
  qed
qed

lemma toLowerChar_idem: "toLowerChar (toLowerChar c) = toLowerChar c"
proof -
  define n where "n = (of_char c :: nat)"
  have n: "n < 256" unfolding n_def by simp
  show ?thesis
  proof (cases "(65 \<le> n \<and> n \<le> 90) \<or> (192 \<le> n \<and> n \<le> 222 \<and> n \<noteq> 215)")
    case True
    then have l: "toLowerChar c = char_of (n + 32)"
      unfolding toLowerChar_def Let_def n_def [symmetric] by simp
    from True have m: "(of_char (char_of (n + 32)) :: nat) = n + 32" by auto
    from True have "\<not> ((65 \<le> n + 32 \<and> n + 32 \<le> 90) \<or> (192 \<le> n + 32 \<and> n + 32 \<le> 222 \<and> n + 32 \<noteq> 215))"
      by auto
    then have "toLowerChar (char_of (n + 32)) = char_of (n + 32)"
      unfolding toLowerChar_def Let_def m by simp
    with l show ?thesis by simp
  next
    case False
    then have "toLowerChar c = c"
      unfolding toLowerChar_def Let_def n_def [symmetric] by auto
    then show ?thesis by simp
  qed
qed

lemma zstrip_idem: "zstrip (zstrip ds) = zstrip ds"
proof -
  have "map toLowerChar (zstrip ds) = zstrip ds"
  proof (rule map_idI)
    fix x assume "x \<in> set (zstrip ds)"
    then have "x \<in> set (map toLowerChar ds)"
      unfolding zstrip_def by (rule set_dropWhileD)
    then show "toLowerChar x = x" by (auto simp add: toLowerChar_idem)
  qed
  then have "zstrip (zstrip ds) = dropWhile (\<lambda>c. c = CHR ''0'') (zstrip ds)"
    by (simp add: zstrip_def)
  also have "\<dots> = zstrip ds" by (simp add: zstrip_def)
  finally show ?thesis .
qed

lemma toLowerChar_0x: "toLowerChar CHR ''0'' = CHR ''0''" "toLowerChar CHR ''x'' = CHR ''x''"
  by (simp_all add: toLowerChar_def)

lemma clean_hex:
  "stripLeadingZeros (toLowerCase (''0x'' @ ds)) = ''0x'' @ zstrip ds"
proof (cases "map toLowerChar ds")
  case Nil
  then show ?thesis by (simp add: stripLeadingZeros_def toLowerCase_def toLowerChar_0x startsWith_def zstrip_def)
next
  case (Cons a as)
  then show ?thesis
    by (simp add: stripLeadingZeros_def toLowerCase_def toLowerChar_0x startsWith_def zstrip_def)
qed

lemma normalize_tail:
  "(let normalized = toLowerCase (''0x'' @ ds); cleanSlot = stripLeadingZeros normalized
    in Inr (if cleanSlot = ''0x'' then ''0x0'' else cleanSlot)) = (Inr (canonical ds) :: error + string)"
  unfolding Let_def clean_hex canonical_def by simp

lemma startsWith_0x: "startsWith s ''0x'' \<Longrightarrow> s = ''0x'' @ drop 2 s"
  by (cases s; cases "tl s") (auto simp add: startsWith_def)

lemma normalizeSlot_string:
  "s \<noteq> [] \<Longrightarrow> normalizeSlot (JsString s) = Inr (canonical (stripPrefix s))"
proof -
  assume ne: "s \<noteq> []"
  have "(if isHex s then s else ''0x'' @ stripPrefix s) = ''0x'' @ stripPrefix s"
    using startsWith_0x [of s] by (auto simp add: isHex_def stripPrefix_def)
  with ne show ?thesis
    unfolding normalizeSlot_def by (simp add: falsy_def normalize_tail del: append.simps)
qed

lemma canonical_Nil: "canonical [] = ''0x0''"
  by (simp add: canonical_def zstrip_def)

lemma normalizeSlot_form: "normalizeSlot v = Inr out \<Longrightarrow> \<exists>ds. out = canonical ds"
proof (cases "falsy v")
  case True
  assume "normalizeSlot v = Inr out"
  with True have "out = canonical []" by (simp add: normalizeSlot_def canonical_Nil)
  then show ?thesis ..
next
  case False
  assume a: "normalizeSlot v = Inr out"
  show ?thesis
  proof (cases v)
    case (JsString s)
    with False have "s \<noteq> []" by (simp add: falsy_def)
    with a JsString show ?thesis by (auto simp add: normalizeSlot_string)
  next
    case (JsNumber n)
    with a False show ?thesis
      unfolding normalizeSlot_def toHex_def
      by (auto simp add: normalize_tail simp del: append.simps split: if_splits)
  next
    case (JsBigInt n)
    with a False show ?thesis
      unfolding normalizeSlot_def toHex_def
      by (auto simp add: normalize_tail simp del: append.simps split: if_splits)
  qed
qed

lemma canonical_idem: "normalizeSlot (JsString (canonical ds)) = Inr (canonical ds)"
proof -
  have ne: "canonical ds \<noteq> []" by (simp add: canonical_def)
  have "canonical (stripPrefix (canonical ds)) = canonical ds"
  proof (cases "zstrip ds = []")
    case True
    then show ?thesis by (simp add: canonical_def stripPrefix_def startsWith_def zstrip_def toLowerChar_0x)
  next
    case False
    then have "stripPrefix (canonical ds) = zstrip ds"
      by (simp add: canonical_def stripPrefix_def startsWith_def)
    with False show ?thesis by (simp add: canonical_def zstrip_idem)
  qed
  with ne show ?thesis by (simp add: normalizeSlot_string)
qed

lemma toString16_digits: "list_all isHexDigit (toString16 n) \<and> parseDigits 16 0 (toString16 n) = Some n"
proof (induction n rule: toString16.induct)
  case (1 n)
  show ?case
  proof (cases "n < 16")
    case True
    then show ?thesis
      by (simp add: toString16_small isHexDigit_hexDigit charCodeToBase16_hexDigit)
  next
    case False
    then have ts: "toString16 n = toString16 (n div 16) @ [hexDigit (n mod 16)]"
      by (subst toString16.simps) simp
    from 1 [OF False] have ih: "list_all isHexDigit (toString16 (n div 16))"
      "parseDigits 16 0 (toString16 (n div 16)) = Some (n div 16)" by simp_all
    have "n div 16 * 16 + n mod 16 = n" by simp
    with ih show ?thesis
      by (simp add: ts parseDigits_append isHexDigit_hexDigit charCodeToBase16_hexDigit)
  qed
qed

lemma toString16_zero: "toString16 0 = ''0''"
  by (simp add: toString16_small hexDigit_simps)

lemma canonical_value:
  assumes "list_all isHexDigit ds" and "parseDigits 16 0 ds = Some n"
  shows "canonical ds = ''0x'' @ toString16 n"
proof -
  from digits_value [OF assms(1)] assms(2)
  have "n = 0 \<longleftrightarrow> zstrip ds = []" "n \<noteq> 0 \<longrightarrow> toString16 n = zstrip ds" by auto
  then show ?thesis by (cases "n = 0") (simp_all add: canonical_def toString16_zero)
qed

lemma not_hex_x: "\<not> isHexDigit CHR ''x''"
  by (simp add: isHexDigit_def)

lemma stripPrefix_digits: "list_all isHexDigit s \<Longrightarrow> stripPrefix s = s"
  by (cases s; cases "tl s") (auto simp add: stripPrefix_def startsWith_def not_hex_x)

lemma isHex_parts: "isHex s \<Longrightarrow> s \<noteq> [] \<and> stripPrefix s = drop 2 s \<and> list_all isHexDigit (drop 2 s)"
  by (auto simp add: isHex_def stripPrefix_def startsWith_def)

lemma normalizeSlot_number:
  assumes "0 < n"
  shows "(let normalized = toLowerCase (''0x'' @ toString16 n); cleanSlot = stripLeadingZeros normalized
          in Inr (if cleanSlot = ''0x'' then ''0x0'' else cleanSlot))
         = (Inr (''0x'' @ toString16 n) :: error + string)"
  using canonical_value [of "toString16 n" n] toString16_digits [of n]
  by (simp only: normalize_tail)

lemma normalizeSlot_value:
  assumes "slotValue v = Some n"
  shows "normalizeSlot v = Inr (''0x'' @ toString16 n)"
proof (cases v)
  case (JsString s)
  show ?thesis
  proof (cases "s = []")
    case True
    with assms JsString have "n = 0" by (simp add: slotValue_def isHex_def startsWith_def)
    with True JsString show ?thesis by (simp add: normalizeSlot_def falsy_def toString16_zero)
  next
    case False
    show ?thesis
    proof (cases "isHex s")
      case True
      with assms JsString have p: "parseDigits 16 0 (drop 2 s) = Some n" by (simp add: slotValue_def)
      from isHex_parts [OF True] p JsString False show ?thesis
        by (simp add: normalizeSlot_string canonical_value)
    next
      case nh: False
      with assms JsString have d: "list_all isHexDigit s" "parseDigits 16 0 s = Some n"
        by (auto simp add: slotValue_def split: if_splits)
      with JsString False show ?thesis
        by (simp add: normalizeSlot_string stripPrefix_digits canonical_value)
    qed
  qed
next
  case (JsNumber i)
  with assms have r: "0 \<le> i" "i \<le> 2 ^ 53 - 1" "n = nat i" by (auto simp add: slotValue_def split: if_splits)
  show ?thesis
  proof (cases "i = 0")
    case True
    with r JsNumber show ?thesis by (simp add: normalizeSlot_def falsy_def toString16_zero)
  next
    case False
    with r have "0 < n" by simp
    from normalizeSlot_number [OF this] r False JsNumber show ?thesis
      unfolding normalizeSlot_def toHex_def falsy_def by (simp del: append.simps)
  qed
next
  case (JsBigInt i)
  with assms have r: "0 \<le> i" "n = nat i" by (auto simp add: slotValue_def split: if_splits)
  show ?thesis
  proof (cases "i = 0")
    case True
    with r JsBigInt show ?thesis by (simp add: normalizeSlot_def falsy_def toString16_zero)
  next
    case False
    with r have "0 < n" by simp
    from normalizeSlot_number [OF this] r False JsBigInt show ?thesis
      unfolding normalizeSlot_def toHex_def falsy_def by (simp del: append.simps)
  qed
qed

text \<open>
  Claim C10. \<open>normalizeSlot\<close> is canonicalizing and idempotent. A slot input that denotes the
  number \<open>n\<close> (hex digits with the prefix or without, in either case; a number in the safe
  range; a bigint that is not negative) is normalized to \<open>0x\<close> followed by the lower-case hex
  digits of \<open>n\<close> without leading zeros, \<open>0x0\<close> for zero; so two inputs that denote the same
  number have the same normal form. And whatever \<open>normalizeSlot\<close> returns, it returns again
  when applied to it.
\<close>

theorem normalizeSlot_canonical:
  "(slotValue v = Some n \<longrightarrow> normalizeSlot v = Inr (''0x'' @ toString16 n))
   \<and> (slotValue v = Some n \<and> slotValue w = Some n \<longrightarrow> normalizeSlot v = normalizeSlot w)
   \<and> (normalizeSlot v = Inr out \<longrightarrow> normalizeSlot (JsString out) = Inr out)"
proof (intro conjI impI)
  assume "slotValue v = Some n"
  then show "normalizeSlot v = Inr (''0x'' @ toString16 n)" by (rule normalizeSlot_value)
next
  assume "slotValue v = Some n \<and> slotValue w = Some n"
  then show "normalizeSlot v = normalizeSlot w" by (simp add: normalizeSlot_value)
next
  assume "normalizeSlot v = Inr out"
  then obtain ds where "out = canonical ds" using normalizeSlot_form by blast
  then show "normalizeSlot (JsString out) = Inr out" by (simp add: canonical_idem)
qed

text \<open>Claim C10 on the slot 2571, written with leading zeros and mixed case, and as a number.\<close>

theorem normalizeSlot_canonical_witness:
  "normalizeSlot (JsString ''0x000A0b'') = Inr ''0xa0b''
   \<and> normalizeSlot (JsString ''0x000A0b'') = normalizeSlot (JsNumber 2571)
   \<and> normalizeSlot (JsString ''0xa0b'') = Inr ''0xa0b''"
proof -
  have v: "slotValue (JsString ''0x000A0b'') = Some 2571"
    by (simp add: slotValue_def isHex_def isHexDigit_def startsWith_def charCodeToBase16_def)
  have w: "slotValue (JsNumber 2571) = Some 2571"
    by (simp add: slotValue_def)
  have t: "toString16 2571 = ''a0b''"
    by (simp add: toString16.simps hexDigit_simps)
  from normalizeSlot_canonical [of "JsString ''0x000A0b''" 2571 "JsNumber 2571" "''0xa0b''"] v w t
  show ?thesis by auto
qed

section \<open>The constants of the earlier extraction\<close>

lemma last_wins:
  assumes "v \<in> set vs" and "\<And>v'. v' \<in> set vs \<Longrightarrow> valueKey v' = valueKey v \<Longrightarrow> v' = v"
  shows "map_of (foldl (\<lambda>m v. AList.update (valueKey v) v m) m0 vs) (valueKey v) = Some v"
  using assms
proof (induction vs rule: rev_induct)
  case Nil
  then show ?case by simp
next
  case (snoc x xs)
  show ?case
  proof (cases "valueKey x = valueKey v")
    case True
    with snoc.prems(2) [of x] have "x = v" by simp
    then show ?thesis by (simp add: update_conv')
  next
    case False
    with snoc.prems(1) have "v \<in> set xs" by auto
    with snoc.IH snoc.prems(2) have "map_of (foldl (\<lambda>m v. AList.update (valueKey v) v m) m0 xs) (valueKey v) = Some v"
      by simp
    with False show ?thesis by (simp add: update_conv')
  qed
qed

lemma startsWith_includes: "startsWith xs p \<Longrightarrow> str_includes xs p"
  by (cases xs) (auto simp add: startsWith_def)

lemma str_includes_here: "str_includes (p @ b) p"
  by (rule startsWith_includes) (simp add: startsWith_def)

lemma str_includes_mid: "str_includes (a @ p @ b) p"
  by (induction a) (simp_all add: str_includes_here)

lemma valueKey_includes: "str_includes (valueKey v) (''::'' @ source v @ ''::'')"
proof -
  have "valueKey v = (case tvalue v of JsString s \<Rightarrow> s | JsNumber n \<Rightarrow> intToString n | JsBigInt n \<Rightarrow> intToString n)
          @ (''::'' @ source v @ ''::'') @ operation v"
    by (simp add: valueKey_def)
  then show ?thesis by (simp only: str_includes_mid)
qed

lemma toString10_small: "i < 10 \<Longrightarrow> toString10 i = [char_of (48 + i)]"
  by (subst toString10.simps) simp

lemma constant_keys:
  "list_all (\<lambda>i. valueKey (constantValue i) = [char_of (48 + i)] @ ''::constant::CONST''
       \<and> \<not> str_includes ([char_of (48 + i)] @ ''::constant::CONST'') ''::address::''
       \<and> \<not> str_includes ([char_of (48 + i)] @ ''::constant::CONST'') ''::argument::''
       \<and> \<not> str_includes ([char_of (48 + i)] @ ''::constant::CONST'') ''::stack::'') [0..<10]"
  by (simp add: upt_rec valueKey_def constantValue_def intToString_def toString10_small
      startsWith_def char_of_def bit_0)


lemma source_addressValue: "v \<in> set (addressValue a p op) \<Longrightarrow> source v = ''address''"
  by (auto simp add: addressValue_def split: option.splits if_splits)

lemma source_paramValues: "v \<in> set (paramValues d i) \<Longrightarrow> source v = ''argument''"
  by (auto simp add: paramValues_def Let_def split: sum.splits if_splits)

lemma source_argumentValues: "v \<in> set (argumentValues dat) \<Longrightarrow> source v = ''argument''"
  by (auto simp add: argumentValues_def source_paramValues split: option.splits if_splits)

lemma source_stackValue: "v \<in> set (stackValue op sv) \<Longrightarrow> source v = ''stack''"
  by (auto simp add: stackValue_def Let_def split: sum.splits if_splits)

lemma source_stackValues: "v \<in> set (stackValues trace) \<Longrightarrow> source v = ''stack''"
  by (auto simp add: stackValues_def source_stackValue split: LegacyTrace.splits option.splits if_splits)

lemma constant_key_facts:
  assumes "i < 10"
  shows "valueKey (constantValue i) = [char_of (48 + i)] @ ''::constant::CONST''"
    and "\<not> str_includes (valueKey (constantValue i)) ''::address::''"
    and "\<not> str_includes (valueKey (constantValue i)) ''::argument::''"
    and "\<not> str_includes (valueKey (constantValue i)) ''::stack::''"
proof -
  from assms have "i \<in> set [0..<10]" by simp
  with constant_keys have
    "valueKey (constantValue i) = [char_of (48 + i)] @ ''::constant::CONST''
       \<and> \<not> str_includes ([char_of (48 + i)] @ ''::constant::CONST'') ''::address::''
       \<and> \<not> str_includes ([char_of (48 + i)] @ ''::constant::CONST'') ''::argument::''
       \<and> \<not> str_includes ([char_of (48 + i)] @ ''::constant::CONST'') ''::stack::''"
    unfolding list_all_iff by blast
  then show "valueKey (constantValue i) = [char_of (48 + i)] @ ''::constant::CONST''"
    and "\<not> str_includes (valueKey (constantValue i)) ''::address::''"
    and "\<not> str_includes (valueKey (constantValue i)) ''::argument::''"
    and "\<not> str_includes (valueKey (constantValue i)) ''::stack::''"
    by simp_all
qed

lemma constant_key_inj:
  assumes "i < 10" and "j < 10" and "valueKey (constantValue j) = valueKey (constantValue i)"
  shows "j = i"
proof -
  from assms constant_key_facts(1) have "char_of (48 + j) = (char_of (48 + i) :: char)" by simp
  then have "(48 + j) mod 256 = (48 + i) mod 256" by (simp add: char_of_eq_iff take_bit_eq_mod)
  with assms(1,2) show ?thesis by simp
qed

lemma constant_key_unique:
  assumes "i < 10"
    and "v' \<in> set (addressValue f 0 ''FROM'' @ addressValue t 1 ''TO'' @ constantValues @
                    argumentValues dat @ stackValues trace)"
    and "valueKey v' = valueKey (constantValue i)"
  shows "v' = constantValue i"
proof -
  from assms(2) consider
      (addr) "source v' = ''address''"
    | (arg) "source v' = ''argument''"
    | (stack) "source v' = ''stack''"
    | (const) j where "j < 10" "v' = constantValue j"
    by (auto simp add: constantValues_def dest: source_addressValue source_argumentValues source_stackValues)
  then show ?thesis
  proof cases
    case addr
    with valueKey_includes [of v'] assms(3) constant_key_facts(2) [OF assms(1)] show ?thesis by simp
  next
    case arg
    with valueKey_includes [of v'] assms(3) constant_key_facts(3) [OF assms(1)] show ?thesis by simp
  next
    case stack
    with valueKey_includes [of v'] assms(3) constant_key_facts(4) [OF assms(1)] show ?thesis by simp
  next
    case const
    with assms(1,3) constant_key_inj [of i j] show ?thesis by simp
  qed
qed

lemma constant_extracted:
  assumes "i < 10"
  shows "constantValue i \<in> set (extractPotentialValuesFromTrace trace txd)"
proof -
  let ?vs = "addressValue (tx_from txd) 0 ''FROM'' @ addressValue (tx_to txd) 1 ''TO'' @
             constantValues @ argumentValues (tx_data txd) @ stackValues trace"
  let ?m = "foldl (\<lambda>m v. AList.update (valueKey v) v m) [] ?vs"
  from assms have "constantValue i \<in> set ?vs" by (simp add: constantValues_def)
  then have "map_of ?m (valueKey (constantValue i)) = Some (constantValue i)"
    by (rule last_wins) (rule constant_key_unique [OF assms])
  then have "(valueKey (constantValue i), constantValue i) \<in> set ?m" by (rule map_of_SomeD)
  then have "constantValue i \<in> snd ` set ?m" by force
  then show ?thesis by (simp add: extractPotentialValuesFromTrace_def Let_def)
qed

lemma extractPotentialKeys_nothing:
  "extractPotentialKeys codec \<lparr>uniqueStackValues = None, relevantOps = ops\<rparr> [] abiFunctions None = Inr []"
  by (simp add: extractPotentialKeys_def collectKeys_def calldataKeys_def stackKeys_def deduplicate_def)

text \<open>
  Claim C7, as the code has it. The constants 0 to 9 are candidates of the earlier extraction
  only: \<open>extractPotentialValuesFromTrace\<close> returns each of them, with the source
  \<open>constant\<close>, for every trace and every transaction data. \<open>extractPotentialKeys\<close> adds no
  constant: without a touched address, calldata and stack values it returns no key at all.
\<close>

theorem constants_in_earlier_extraction_only:
  "set constantValues \<subseteq> set (extractPotentialValuesFromTrace trace txd)
   \<and> extractPotentialKeys codec \<lparr>uniqueStackValues = None, relevantOps = ops\<rparr> [] abiFunctions None
       = Inr []"
  by (auto simp add: constantValues_def constant_extracted extractPotentialKeys_nothing)

text \<open>
  Claim C7 as stated fails for \<open>extractPotentialKeys\<close>, the extraction that takes a trace, the
  touched addresses, the ABI functions and the calldata: on the empty trace with no address,
  no function and no calldata it returns the empty list, so none of 0 to 9.
\<close>

theorem extractPotentialKeys_constants_counterexample:
  "extractPotentialKeys refusingCodec \<lparr>uniqueStackValues = None, relevantOps = None\<rparr> [] [] None
     = Inr []"
  by (simp add: extractPotentialKeys_def collectKeys_def calldataKeys_def stackKeys_def deduplicate_def)

end
